theory Spec2Isabelle
  imports Main "HOL-Library.Sublist"
begin

section \<open>JavaScript values\<close>

text \<open>
  The program (\<^verbatim>\<open>api/chat.js\<close>, a serverless function, and \<^verbatim>\<open>shopify-agent/index.js\<close>,
  a standalone Express server) reshapes untyped JSON. A value is what \<^verbatim>\<open>JSON.parse\<close> can
  produce, plus \<^verbatim>\<open>undefined\<close>, which a read of a missing property yields. Strings are lists of
  8-bit characters. Numbers are integers: the program never computes with a number, it copies
  them and tests them for truthiness. An object is the list of its own properties, in order,
  each key once (\<^verbatim>\<open>JSON.parse\<close> keeps one value for a key).
\<close>

datatype js =
    Undefined
  | Null
  | Bool bool
  | Num int
  | Str string
  | Arr "js list"
  | Obj "(string \<times> js) list"

text \<open>
  What a JavaScript \<^verbatim>\<open>throw\<close> carries. \<open>Error m\<close> is \<^verbatim>\<open>new Error(m)\<close> (also the errors of
  the two client libraries, which subclass it); \<open>TypeError\<close> and \<open>SyntaxError\<close> are raised by the
  engine (reading a property of \<^verbatim>\<open>undefined\<close>, calling a non-function, \<^verbatim>\<open>JSON.parse\<close>), with a
  message of the engine's; \<open>FetchError\<close> is node-fetch's failure to read a body as JSON.
\<close>

datatype js_error = Error string | TypeError | SyntaxError | FetchError

text \<open>
  An evaluation returns its value (\<open>Inr\<close>) or the error thrown (\<open>Inl\<close>); \<open>and_then\<close> runs
  the next step on a value and passes an error on, as an exception leaves a block.
\<close>

type_synonym 'a result = "js_error + 'a"

definition and_then :: "'a result \<Rightarrow> ('a \<Rightarrow> 'b result) \<Rightarrow> 'b result" where
  "and_then m f = (case m of Inl e \<Rightarrow> Inl e | Inr v \<Rightarrow> f v)"

text \<open>The callback of \<^verbatim>\<open>map\<close> over the elements in order, up to the first that throws\<close>

fun map_result :: "('a \<Rightarrow> 'b result) \<Rightarrow> 'a list \<Rightarrow> 'b list result" where
  "map_result f [] = Inr []"
| "map_result f (x # xs) =
     and_then (f x) (\<lambda>y. and_then (map_result f xs) (\<lambda>ys. Inr (y # ys)))"

text \<open>What \<^verbatim>\<open>if (v)\<close>, \<^verbatim>\<open>!v\<close> and \<^verbatim>\<open>||\<close> test\<close>

fun truthy :: "js \<Rightarrow> bool" where
  "truthy Undefined = False"
| "truthy Null = False"
| "truthy (Bool b) = b"
| "truthy (Num n) = (n \<noteq> 0)"
| "truthy (Str s) = (s \<noteq> [])"
| "truthy (Arr xs) = True"
| "truthy (Obj kvs) = True"

text \<open>The two values whose properties cannot be read, and at which \<^verbatim>\<open>?.\<close> stops\<close>

definition nullish :: "js \<Rightarrow> bool" where
  "nullish v = (v = Undefined \<or> v = Null)"

text \<open>\<^verbatim>\<open>a || b\<close>\<close>

definition js_or :: "js \<Rightarrow> js \<Rightarrow> js" where
  "js_or a b = (if truthy a then a else b)"

text \<open>
  \<open>read_prop v k\<close> is \<^verbatim>\<open>v.k\<close> for \<open>v\<close> neither \<^verbatim>\<open>undefined\<close> nor \<^verbatim>\<open>null\<close>. The program reads
  data properties only (\<^verbatim>\<open>id\<close>, \<^verbatim>\<open>edges\<close>, \<^verbatim>\<open>node\<close>, ...), none of which a prototype of
  Object, Array, String, Number or Boolean defines, so only own properties of objects count.
\<close>

fun read_prop :: "js \<Rightarrow> string \<Rightarrow> js" where
  "read_prop (Obj kvs) k = (case map_of kvs k of None \<Rightarrow> Undefined | Some v \<Rightarrow> v)"
| "read_prop v k = Undefined"

text \<open>\<^verbatim>\<open>v.k\<close>, and the destructuring \<^verbatim>\<open>({ k }) => ...\<close> of a parameter\<close>

definition get :: "js \<Rightarrow> string \<Rightarrow> js result" where
  "get v k = (if nullish v then Inl TypeError else Inr (read_prop v k))"

text \<open>\<^verbatim>\<open>v?.k\<close>\<close>

definition opt_get :: "js \<Rightarrow> string \<Rightarrow> js" where
  "opt_get v k = (if nullish v then Undefined else read_prop v k)"

text \<open>\<^verbatim>\<open>v.k1.k2...\<close> and \<^verbatim>\<open>v?.k1?.k2...\<close>\<close>

fun path :: "js \<Rightarrow> string list \<Rightarrow> js result" where
  "path v [] = Inr v"
| "path v (k # ks) = and_then (get v k) (\<lambda>w. path w ks)"

fun opt_path :: "js \<Rightarrow> string list \<Rightarrow> js" where
  "opt_path v [] = v"
| "opt_path v (k # ks) = opt_path (opt_get v k) ks"

text \<open>\<^verbatim>\<open>v[0]\<close> and \<^verbatim>\<open>v?.[0]\<close>: the first element of an array, the first character of a string\<close>

fun elem0 :: "js \<Rightarrow> js" where
  "elem0 (Arr xs) = (case xs of [] \<Rightarrow> Undefined | x # _ \<Rightarrow> x)"
| "elem0 (Str s) = (case s of [] \<Rightarrow> Undefined | c # _ \<Rightarrow> Str [c])"
| "elem0 (Obj kvs) = read_prop (Obj kvs) ''0''"
| "elem0 v = Undefined"

definition at0 :: "js \<Rightarrow> js result" where
  "at0 v = (if nullish v then Inl TypeError else Inr (elem0 v))"

definition opt_at0 :: "js \<Rightarrow> js" where
  "opt_at0 v = (if nullish v then Undefined else elem0 v)"

text \<open>
  \<^verbatim>\<open>v.map(f)\<close>: only an array has a callable \<^verbatim>\<open>map\<close>; on anything else the call is a TypeError
  (an own property \<^verbatim>\<open>map\<close> of a parsed object is never a function).
\<close>

fun js_map :: "(js \<Rightarrow> js result) \<Rightarrow> js \<Rightarrow> js result" where
  "js_map f (Arr xs) = and_then (map_result f xs) (\<lambda>ys. Inr (Arr ys))"
| "js_map f v = Inl TypeError"

text \<open>\<^verbatim>\<open>v?.map(f)\<close>\<close>

definition opt_map :: "(js \<Rightarrow> js result) \<Rightarrow> js \<Rightarrow> js result" where
  "opt_map f v = (if nullish v then Inr Undefined else js_map f v)"

text \<open>An object literal \<^verbatim>\<open>{k1: e1, k2: e2, ...}\<close>: the fields are evaluated in order.\<close>

fun eval_fields :: "(string \<times> js result) list \<Rightarrow> (string \<times> js) list result" where
  "eval_fields [] = Inr []"
| "eval_fields ((k, r) # fs) =
     and_then r (\<lambda>v. and_then (eval_fields fs) (\<lambda>kvs. Inr ((k, v) # kvs)))"

definition obj :: "(string \<times> js result) list \<Rightarrow> js result" where
  "obj fs = and_then (eval_fields fs) (\<lambda>kvs. Inr (Obj kvs))"

text \<open>
  String conversion, as a template literal \<^verbatim>\<open>`${v}`\<close> does it. The digits of a number are the
  engine's (\<open>num\<close>). An array is its elements joined by commas, \<^verbatim>\<open>undefined\<close> and \<^verbatim>\<open>null\<close>
  as the empty string. A parsed object is \<^verbatim>\<open>[object Object]\<close>, unless an own property hides
  \<^verbatim>\<open>toString\<close>: that property is no function, \<^verbatim>\<open>valueOf\<close> gives no primitive either, and the
  conversion is a TypeError.
\<close>

fun to_string :: "(int \<Rightarrow> string) \<Rightarrow> js \<Rightarrow> string result"
  and join :: "(int \<Rightarrow> string) \<Rightarrow> js list \<Rightarrow> string result" where
  "to_string num Undefined = Inr ''undefined''"
| "to_string num Null = Inr ''null''"
| "to_string num (Bool b) = Inr (if b then ''true'' else ''false'')"
| "to_string num (Num n) = Inr (num n)"
| "to_string num (Str s) = Inr s"
| "to_string num (Arr xs) = join num xs"
| "to_string num (Obj kvs) =
     (if ''toString'' \<in> fst ` set kvs then Inl TypeError else Inr ''[object Object]'')"
| "join num [] = Inr []"
| "join num [x] = (if nullish x then Inr [] else to_string num x)"
| "join num (x # y # ys) =
     and_then (if nullish x then Inr [] else to_string num x)
       (\<lambda>s. and_then (join num (y # ys)) (\<lambda>r. Inr (s @ '','' @ r)))"

text \<open>
  \<^verbatim>\<open>s.trim()\<close> removes the white space and line terminators of JavaScript from both ends
  of a string. A string is the list of the bytes of its UTF-8 encoding, so each of these
  characters is a sequence of one to three bytes: U+0009 to U+000D, U+0020, U+00A0, U+1680,
  U+2000 to U+200A, U+2028, U+2029, U+202F, U+205F, U+3000 and U+FEFF.
\<close>

definition white_space :: "string list" where
  "white_space = [
     [CHR 0x09], [CHR 0x0A], [CHR 0x0B], [CHR 0x0C], [CHR 0x0D], [CHR 0x20],
     [CHR 0xC2, CHR 0xA0],
     [CHR 0xE1, CHR 0x9A, CHR 0x80],
     [CHR 0xE2, CHR 0x80, CHR 0x80], [CHR 0xE2, CHR 0x80, CHR 0x81],
     [CHR 0xE2, CHR 0x80, CHR 0x82], [CHR 0xE2, CHR 0x80, CHR 0x83],
     [CHR 0xE2, CHR 0x80, CHR 0x84], [CHR 0xE2, CHR 0x80, CHR 0x85],
     [CHR 0xE2, CHR 0x80, CHR 0x86], [CHR 0xE2, CHR 0x80, CHR 0x87],
     [CHR 0xE2, CHR 0x80, CHR 0x88], [CHR 0xE2, CHR 0x80, CHR 0x89],
     [CHR 0xE2, CHR 0x80, CHR 0x8A],
     [CHR 0xE2, CHR 0x80, CHR 0xA8], [CHR 0xE2, CHR 0x80, CHR 0xA9],
     [CHR 0xE2, CHR 0x80, CHR 0xAF],
     [CHR 0xE2, CHR 0x81, CHR 0x9F],
     [CHR 0xE3, CHR 0x80, CHR 0x80],
     [CHR 0xEF, CHR 0xBB, CHR 0xBF]]"

text \<open>\<open>strip ws s\<close> removes from the start of \<open>s\<close> every leading sequence that is in \<open>ws\<close>.\<close>

function strip :: "string list \<Rightarrow> string \<Rightarrow> string" where
  "strip ws s =
     (case find (\<lambda>w. w \<noteq> [] \<and> prefix w s) ws of
        None \<Rightarrow> s
      | Some w \<Rightarrow> strip ws (drop (length w) s))"
  by pat_completeness auto
termination
proof (relation "measure (\<lambda>(ws, s). length s)")
  show "wf (measure (\<lambda>(ws, s). length s))" by simp
next
  fix ws :: "string list" and s w :: string
  assume "find (\<lambda>w. w \<noteq> [] \<and> prefix w s) ws = Some w"
  then have "w \<noteq> []" "prefix w s" by (auto simp: find_Some_iff)
  then have "s \<noteq> []" by auto
  with \<open>w \<noteq> []\<close> show "((ws, drop (length w) s), (ws, s)) \<in> measure (\<lambda>(ws, s). length s)"
    by simp
qed

declare strip.simps [simp del]

definition trim :: "string \<Rightarrow> string" where
  "trim s = rev (strip (map rev white_space) (rev (strip white_space s)))"

section \<open>The two external services and the configuration\<close>

text \<open>
  A chat completion, as the OpenAI client types it: \<^verbatim>\<open>choices\<close>, each with a \<^verbatim>\<open>message\<close> whose
  \<^verbatim>\<open>content\<close> is a string or \<^verbatim>\<open>null\<close> and whose \<^verbatim>\<open>function_call\<close>, when present, has a
  \<^verbatim>\<open>name\<close> and an \<^verbatim>\<open>arguments\<close> string.
\<close>

record invocation =
  fc_name :: string
  fc_arguments :: string

record assistant_message =
  content :: "string option"
  function_call :: "invocation option"

type_synonym completion = "assistant_message list"

text \<open>An entry of the \<^verbatim>\<open>functions\<close> array: name, description and JSON schema of the arguments\<close>

record tool_descriptor =
  tool_name :: string
  description :: string
  parameters :: js

text \<open>
  The messages of a request, by role: the system instruction, the user's message, the
  assistant's message as it was received, and the result of a function (its name and the
  content).
\<close>

datatype message =
    System string
  | User js
  | Assistant assistant_message
  | Function string string

text \<open>
  The argument of \<^verbatim>\<open>create\<close>: \<open>req_functions\<close> is the \<^verbatim>\<open>functions\<close> catalog and
  \<open>req_function_call\<close> the \<^verbatim>\<open>function_call\<close> mode, \<open>None\<close> when the request has none.
\<close>

record chat_request =
  model :: string
  messages :: "message list"
  req_functions :: "tool_descriptor list option"
  req_function_call :: "string option"

text \<open>
  What \<^verbatim>\<open>fetch\<close> is given and what it resolves to: the status and the text of the body,
  which \<^verbatim>\<open>res.json()\<close> hands to \<^verbatim>\<open>JSON.parse\<close>.
\<close>

record fetch_request =
  url :: string
  http_method :: string
  headers :: "(string \<times> string option) list"
  body :: string

record fetch_response =
  http_status :: nat
  body_text :: string

text \<open>
  Everything the program takes from outside: the two environment variables (unset is \<open>None\<close>),
  \<^verbatim>\<open>openai.chat.completions.create\<close>, node-fetch's \<^verbatim>\<open>fetch\<close>, and the engine's \<^verbatim>\<open>JSON.parse\<close>
  (\<open>None\<close> where it throws), \<^verbatim>\<open>JSON.stringify\<close> and number formatting. A rejected promise is
  \<open>Inl\<close>.
\<close>

record env =
  SHOPIFY_STORE :: "string option"
  SHOPIFY_TOKEN :: "string option"
  create :: "chat_request \<Rightarrow> completion result"
  fetch :: "fetch_request \<Rightarrow> fetch_response result"
  JSON_parse :: "string \<Rightarrow> js option"
  JSON_stringify :: "js \<Rightarrow> string"
  Number_toString :: "int \<Rightarrow> string"

text \<open>
  A computation returns its value, or the error it threw, and the calls it made to the two
  services, in order.
\<close>

datatype event = ModelCall chat_request | CommerceCall fetch_request

type_synonym 'a io = "'a result \<times> event list"

definition io_pure :: "'a result \<Rightarrow> 'a io" where
  "io_pure r = (r, [])"

definition io_then :: "'a io \<Rightarrow> ('a \<Rightarrow> 'b io) \<Rightarrow> 'b io" where
  "io_then m f =
     (case m of
        (Inl e, t) \<Rightarrow> (Inl e, t)
      | (Inr v, t) \<Rightarrow> (case f v of (r, t') \<Rightarrow> (r, t @ t')))"

text \<open>How many calls of a trace went to the model, and how many to the commerce platform\<close>

definition model_calls :: "event list \<Rightarrow> nat" where
  "model_calls t = length (filter (\<lambda>ev. case ev of ModelCall r \<Rightarrow> True | CommerceCall q \<Rightarrow> False) t)"

definition commerce_calls :: "event list \<Rightarrow> nat" where
  "commerce_calls t = length (filter (\<lambda>ev. case ev of ModelCall r \<Rightarrow> False | CommerceCall q \<Rightarrow> True) t)"

section \<open>The GraphQL documents\<close>

text \<open>
  A template literal that opens with a line break: every line of the source follows a line
  feed, the last one being the indentation before the closing backquote.
\<close>

definition template :: "string list \<Rightarrow> string" where
  "template ls = concat (map (\<lambda>l. CHR 0x0A # l) ls)"

definition findProduct_gql_serverless :: string where
  "findProduct_gql_serverless = template [
     ''    query($query: String!) {'',
     ''      products(first: 5, query: $query) {'',
     ''        edges {'',
     ''          node {'',
     ''            id'',
     ''            title'',
     ''            description'',
     ''            images(first: 1) { edges { node { url altText } } }'',
     ''            priceRange { minVariantPrice { amount currencyCode } }'',
     ''          }'',
     ''        }'',
     ''      }'',
     ''    }'',
     ''  '']"

definition getCustomerOrders_gql_serverless :: string where
  "getCustomerOrders_gql_serverless = template [
     ''    query($email: String!) {'',
     ''      customers(first: 1, query: $email) {'',
     ''        edges {'',
     ''          node {'',
     ''            id'',
     ''            firstName'',
     ''            lastName'',
     ''            email'',
     ''            orders(first: 5) {'',
     ''              edges {'',
     ''                node {'',
     ''                  id'',
     ''                  name'',
     ''                  processedAt'',
     ''                  totalPriceSet { shopMoney { amount currencyCode } }'',
     ''                  fulfillments(first: 1) {'',
     ''                    status'',
     ''                    estimatedDeliveryAt'',
     ''                    trackingInfo(first: 5) { company number url }'',
     ''                  }'',
     ''                  lineItems(first: 5) {'',
     ''                    edges { node { title quantity } }'',
     ''                  }'',
     ''                }'',
     ''              }'',
     ''            }'',
     ''          }'',
     ''        }'',
     ''      }'',
     ''    }'',
     ''  '']"

definition getProducts_gql_serverless :: string where
  "getProducts_gql_serverless = template [
     ''    query {'',
     ''      products(first: 5) {'',
     ''        edges { node { id title } }'',
     ''      }'',
     ''    }'',
     ''  '']"

definition findProduct_gql_standalone :: string where
  "findProduct_gql_standalone = template [
     ''    query($queryString: String!) {'',
     ''      products(first: 5, query: $queryString) {'',
     ''        edges {'',
     ''          node {'',
     ''            id'',
     ''            title'',
     ''            description'',
     ''            images(first: 1) {'',
     ''              edges {'',
     ''                node {'',
     ''                  url'',
     ''                  altText'',
     ''                }'',
     ''              }'',
     ''            }'',
     ''            priceRange {'',
     ''              minVariantPrice {'',
     ''                amount'',
     ''                currencyCode'',
     ''              }'',
     ''            }'',
     ''          }'',
     ''        }'',
     ''      }'',
     ''    }'',
     ''  '']"

definition getCustomerOrders_gql_standalone :: string where
  "getCustomerOrders_gql_standalone = template [
     ''    query($email: String!) {'',
     ''      customers(first: 1, query: $email) {'',
     ''        edges {'',
     ''          node {'',
     ''            id'',
     ''            firstName'',
     ''            lastName'',
     ''            email'',
     ''            orders(first: 5) {'',
     ''              edges {'',
     ''                node {'',
     ''                  id'',
     ''                  name'',
     ''                  processedAt'',
     ''                  totalPriceSet {'',
     ''                    shopMoney {'',
     ''                      amount'',
     ''                      currencyCode'',
     ''                    }'',
     ''                  }'',
     ''                  fulfillments(first: 1) {'',
     ''                    status'',
     ''                    estimatedDeliveryAt'',
     ''                    trackingInfo(first: 5) {'',
     ''                      company'',
     ''                      number'',
     ''                      url'',
     ''                    }'',
     ''                  }'',
     ''                  lineItems(first: 5) {'',
     ''                    edges {'',
     ''                      node {'',
     ''                        title'',
     ''                        quantity'',
     ''                      }'',
     ''                    }'',
     ''                  }'',
     ''                }'',
     ''              }'',
     ''            }'',
     ''          }'',
     ''        }'',
     ''      }'',
     ''    }'',
     ''  '']"

definition getProducts_gql_standalone :: string where
  "getProducts_gql_standalone = template [
     ''    query {'',
     ''      products(first: 5) {'',
     ''        edges {'',
     ''          node {'',
     ''            id'',
     ''            title'',
     ''            description'',
     ''            priceRange {'',
     ''              minVariantPrice {'',
     ''                amount'',
     ''                currencyCode'',
     ''              }'',
     ''            }'',
     ''          }'',
     ''        }'',
     ''      }'',
     ''    }'',
     ''  '']"

section \<open>The commerce query adapter\<close>

text \<open>
  Both files post the same request. A template literal prints an unset store as
  \<^verbatim>\<open>undefined\<close>; the token header is passed as it is.
\<close>

definition graphql_request :: "env \<Rightarrow> string \<Rightarrow> js \<Rightarrow> fetch_request" where
  "graphql_request env query variables = \<lparr>
     url = ''https://'' @ (case SHOPIFY_STORE env of None \<Rightarrow> ''undefined'' | Some s \<Rightarrow> s)
           @ ''/admin/api/2025-07/graphql.json'',
     http_method = ''POST'',
     headers = [(''Content-Type'', Some ''application/json''),
                (''X-Shopify-Access-Token'', SHOPIFY_TOKEN env)],
     body = JSON_stringify env (Obj [(''query'', Str query), (''variables'', variables)])\<rparr>"

text \<open>\<^verbatim>\<open>callShopify\<close> of api/chat.js (lines 12-26)\<close>

definition callShopify_serverless :: "env \<Rightarrow> string \<Rightarrow> js \<Rightarrow> js io" where
  "callShopify_serverless env query variables =
     (let req = graphql_request env query variables in
      (and_then (fetch env req) (\<lambda>res.
         case JSON_parse env (body_text res) of
           None \<Rightarrow> Inl FetchError
         | Some json \<Rightarrow>
             and_then (get json ''errors'') (\<lambda>errors.
               if truthy errors then Inl (Error (JSON_stringify env errors))
               else get json ''data'')),
       [CommerceCall req]))"

text \<open>\<^verbatim>\<open>!SHOPIFY_STORE\<close>: unset, or the empty string\<close>

definition unset :: "string option \<Rightarrow> bool" where
  "unset v = (case v of None \<Rightarrow> True | Some s \<Rightarrow> s = [])"

text \<open>\<^verbatim>\<open>callShopify\<close> of index.js (lines 255-273): it returns the whole body\<close>

definition callShopify_standalone :: "env \<Rightarrow> string \<Rightarrow> js \<Rightarrow> js io" where
  "callShopify_standalone env query variables =
     (if unset (SHOPIFY_STORE env) \<or> unset (SHOPIFY_TOKEN env)
      then (Inl (Error ''Shopify store credentials are not set in environment variables''), [])
      else
        (let req = graphql_request env query variables in
         (and_then (fetch env req) (\<lambda>response.
            case JSON_parse env (body_text response) of
              None \<Rightarrow> Inl FetchError
            | Some data \<Rightarrow>
                and_then (get data ''errors'') (\<lambda>errors.
                  if truthy errors
                  then Inl (Error (''Shopify API error: '' @ JSON_stringify env errors))
                  else Inr data)),
          [CommerceCall req])))"

section \<open>The three tools\<close>

text \<open>The arrow function of \<^verbatim>\<open>findProduct\<close> in api/chat.js (lines 47-54)\<close>

definition product_serverless :: "js \<Rightarrow> js result" where
  "product_serverless edge =
     and_then (get edge ''node'') (\<lambda>node. obj [
       (''id'', get node ''id''),
       (''title'', get node ''title''),
       (''description'', get node ''description''),
       (''image'', and_then (and_then (path node [''images'', ''edges'']) at0)
                     (\<lambda>e. Inr (js_or (opt_get e ''node'') Null))),
       (''price'', path node [''priceRange'', ''minVariantPrice'', ''amount'']),
       (''currency'', path node [''priceRange'', ''minVariantPrice'', ''currencyCode''])])"

text \<open>What \<^verbatim>\<open>findProduct\<close> of api/chat.js makes of the data payload (lines 46-54)\<close>

definition products_of_data :: "js \<Rightarrow> js result" where
  "products_of_data data =
     js_map product_serverless (js_or (opt_path data [''products'', ''edges'']) (Arr []))"

definition findProduct_serverless :: "env \<Rightarrow> js \<Rightarrow> js io" where
  "findProduct_serverless env args =
     io_then (io_pure (get args ''query'')) (\<lambda>query.
     io_then (callShopify_serverless env findProduct_gql_serverless (Obj [(''query'', query)]))
       (\<lambda>data.
     io_pure (products_of_data data)))"

text \<open>
  The order record is built by the same text in both files (api/chat.js lines 96-115,
  index.js lines 393-412).
\<close>

definition tracking_record :: "js \<Rightarrow> js result" where
  "tracking_record t = obj [
     (''company'', get t ''company''),
     (''number'', get t ''number''),
     (''url'', get t ''url'')]"

definition fulfillment_record :: "js \<Rightarrow> js result" where
  "fulfillment_record f = obj [
     (''status'', get f ''status''),
     (''estimatedDeliveryAt'', get f ''estimatedDeliveryAt''),
     (''tracking'', and_then (get f ''trackingInfo'') (js_map tracking_record))]"

definition item_record :: "js \<Rightarrow> js result" where
  "item_record edge =
     and_then (get edge ''node'') (\<lambda>li. obj [
       (''title'', get li ''title''),
       (''quantity'', get li ''quantity'')])"

definition order_record :: "js \<Rightarrow> js result" where
  "order_record edge =
     and_then (get edge ''node'') (\<lambda>order. obj [
       (''id'', get order ''id''),
       (''name'', get order ''name''),
       (''processedAt'', get order ''processedAt''),
       (''total'', path order [''totalPriceSet'', ''shopMoney'', ''amount'']),
       (''currency'', path order [''totalPriceSet'', ''shopMoney'', ''currencyCode'']),
       (''fulfillments'', and_then (get order ''fulfillments'') (js_map fulfillment_record)),
       (''items'', and_then (path order [''lineItems'', ''edges'']) (js_map item_record))])"

text \<open>What \<^verbatim>\<open>getCustomerOrders\<close> of api/chat.js makes of the data payload (lines 92-115)\<close>

definition orders_of_first_customer :: "js \<Rightarrow> js result" where
  "orders_of_first_customer data =
     (let customer = opt_get (opt_at0 (opt_path data [''customers'', ''edges''])) ''node'' in
      if \<not> truthy customer then Inr (Arr [])
      else and_then (path customer [''orders'', ''edges'']) (js_map order_record))"

definition getCustomerOrders_serverless :: "env \<Rightarrow> js \<Rightarrow> js io" where
  "getCustomerOrders_serverless env args =
     io_then (io_pure (get args ''email'')) (\<lambda>email.
     io_then (callShopify_serverless env getCustomerOrders_gql_serverless (Obj [(''email'', email)]))
       (\<lambda>data.
     io_pure (orders_of_first_customer data)))"

definition listed_product_serverless :: "js \<Rightarrow> js result" where
  "listed_product_serverless edge =
     and_then (get edge ''node'') (\<lambda>node. obj [
       (''id'', get node ''id''),
       (''title'', get node ''title'')])"

definition products_listed_of_data :: "js \<Rightarrow> js result" where
  "products_listed_of_data data =
     js_map listed_product_serverless (js_or (opt_path data [''products'', ''edges'']) (Arr []))"

definition getProducts_serverless :: "env \<Rightarrow> js \<Rightarrow> js io" where
  "getProducts_serverless env args =
     io_then (callShopify_serverless env getProducts_gql_serverless (Obj [])) (\<lambda>data.
     io_pure (products_listed_of_data data))"

text \<open>The arrow function of \<^verbatim>\<open>findProduct\<close> in index.js (lines 317-324)\<close>

definition product_standalone :: "js \<Rightarrow> js result" where
  "product_standalone edge =
     and_then (get edge ''node'') (\<lambda>node. obj [
       (''id'', get node ''id''),
       (''title'', get node ''title''),
       (''description'', get node ''description''),
       (''price'', path node [''priceRange'', ''minVariantPrice'', ''amount'']),
       (''currency'', path node [''priceRange'', ''minVariantPrice'', ''currencyCode'']),
       (''image'', and_then (and_then (path node [''images'', ''edges'']) at0)
                     (\<lambda>e. Inr (js_or (opt_get e ''node'') Null)))])"

text \<open>What \<^verbatim>\<open>findProduct\<close> of index.js makes of the response body (lines 316-325)\<close>

definition products_found :: "js \<Rightarrow> js result" where
  "products_found result =
     and_then (js_map product_standalone
                 (js_or (opt_path result [''data'', ''products'', ''edges'']) (Arr [])))
       (\<lambda>products. Inr (Obj [(''products'', products)]))"

definition findProduct_standalone :: "env \<Rightarrow> js \<Rightarrow> js io" where
  "findProduct_standalone env args =
     io_then (io_pure (get args ''query'')) (\<lambda>query.
     io_then (callShopify_standalone env findProduct_gql_standalone (Obj [(''queryString'', query)]))
       (\<lambda>result.
     io_pure (products_found result)))"

text \<open>The customer record of index.js (lines 389-413), with its orders\<close>

definition customer_record :: "(int \<Rightarrow> string) \<Rightarrow> js \<Rightarrow> js result" where
  "customer_record num edge =
     and_then (get edge ''node'') (\<lambda>node. obj [
       (''id'', get node ''id''),
       (''name'',
          and_then (get node ''firstName'') (\<lambda>firstName.
          and_then (to_string num (js_or firstName (Str []))) (\<lambda>first.
          and_then (get node ''lastName'') (\<lambda>lastName.
          and_then (to_string num (js_or lastName (Str []))) (\<lambda>last.
          Inr (Str (trim (first @ '' '' @ last)))))))),
       (''email'', get node ''email''),
       (''orders'', and_then (path node [''orders'', ''edges'']) (js_map order_record))])"

text \<open>What \<^verbatim>\<open>getCustomerOrders\<close> of index.js makes of the response body (lines 389-414)\<close>

definition customers_found :: "(int \<Rightarrow> string) \<Rightarrow> js \<Rightarrow> js result" where
  "customers_found num result =
     and_then (opt_map (customer_record num) (opt_path result [''data'', ''customers'', ''edges'']))
       (\<lambda>mapped. Inr (Obj [(''customers'', js_or mapped (Arr []))]))"

definition getCustomerOrders_standalone :: "env \<Rightarrow> js \<Rightarrow> js io" where
  "getCustomerOrders_standalone env args =
     io_then (io_pure (get args ''email'')) (\<lambda>email.
     io_then (callShopify_standalone env getCustomerOrders_gql_standalone (Obj [(''email'', email)]))
       (\<lambda>result.
     io_pure (customers_found (Number_toString env) result)))"

definition listed_product_standalone :: "js \<Rightarrow> js result" where
  "listed_product_standalone edge =
     and_then (get edge ''node'') (\<lambda>node. obj [
       (''id'', get node ''id''),
       (''title'', get node ''title''),
       (''description'', get node ''description''),
       (''price'', path node [''priceRange'', ''minVariantPrice'', ''amount'']),
       (''currency'', path node [''priceRange'', ''minVariantPrice'', ''currencyCode''])])"

definition products_listed :: "js \<Rightarrow> js result" where
  "products_listed result =
     and_then (opt_map listed_product_standalone (opt_path result [''data'', ''products'', ''edges'']))
       (\<lambda>mapped. Inr (Obj [(''products'', js_or mapped (Arr []))]))"

definition getProducts_standalone :: "env \<Rightarrow> js \<Rightarrow> js io" where
  "getProducts_standalone env args =
     io_then (callShopify_standalone env getProducts_gql_standalone (Obj [])) (\<lambda>result.
     io_pure (products_listed result))"

section \<open>The tool catalog and the dispatcher\<close>

text \<open>The \<^verbatim>\<open>functions\<close> array of api/chat.js (lines 140-168)\<close>

definition functions_serverless :: "tool_descriptor list" where
  "functions_serverless = [
     \<lparr>tool_name = ''find_product'',
      description = ''Search Shopify products by query string.'',
      parameters = Obj [(''type'', Str ''object''),
                        (''properties'', Obj [(''query'', Obj [(''type'', Str ''string'')])]),
                        (''required'', Arr [Str ''query''])]\<rparr>,
     \<lparr>tool_name = ''get_customer_orders'',
      description = ''Retrieve recent orders for a customer by email address.'',
      parameters = Obj [(''type'', Str ''object''),
                        (''properties'', Obj [(''email'', Obj [(''type'', Str ''string'')])]),
                        (''required'', Arr [Str ''email''])]\<rparr>,
     \<lparr>tool_name = ''get_products'',
      description = ''Fetch a simple list of products when no search query is provided.'',
      parameters = Obj [(''type'', Str ''object''),
                        (''properties'', Obj []),
                        (''required'', Arr [])]\<rparr>]"

text \<open>
  The \<^verbatim>\<open>functions\<close> array of index.js (lines 460-498). The hyphen of \<^verbatim>\<open>free-form\<close> is
  U+2011 in the source, written here as its three UTF-8 bytes.
\<close>

definition functions_standalone :: "tool_descriptor list" where
  "functions_standalone = [
     \<lparr>tool_name = ''find_product'',
      description = ''Search for products based on a free'' @ [CHR 0xE2, CHR 0x80, CHR 0x91]
                    @ ''form query string'',
      parameters = Obj [(''type'', Str ''object''),
                        (''properties'', Obj [(''query'', Obj [
                            (''type'', Str ''string''),
                            (''description'',
                             Str ''Search string provided by the user for finding products'')])]),
                        (''required'', Arr [Str ''query''])]\<rparr>,
     \<lparr>tool_name = ''get_customer_orders'',
      description = ''Retrieve recent orders for a customer by email address'',
      parameters = Obj [(''type'', Str ''object''),
                        (''properties'', Obj [(''email'', Obj [
                            (''type'', Str ''string''),
                            (''description'',
                             Str ''The email address associated with the customer'')])]),
                        (''required'', Arr [Str ''email''])]\<rparr>,
     \<lparr>tool_name = ''get_products'',
      description = ''Fetch a generic list of products when no specific search is provided'',
      parameters = Obj [(''type'', Str ''object''),
                        (''properties'', Obj []),
                        (''required'', Arr [])]\<rparr>]"

text \<open>
  \<^verbatim>\<open>functionMap\<close> is an object literal with three own properties (lines 133-137 and
  501-505). \<^verbatim>\<open>functionMap[name]\<close> reads an own property or, failing that, a property of
  \<^verbatim>\<open>Object.prototype\<close>; any other name reads \<^verbatim>\<open>undefined\<close> (\<open>None\<close>).
\<close>

datatype fn = FindProduct | GetCustomerOrders | GetProducts | Inherited string

definition Object_prototype :: "string list" where
  "Object_prototype = [''constructor'', ''__defineGetter__'', ''__defineSetter__'',
     ''hasOwnProperty'', ''__lookupGetter__'', ''__lookupSetter__'', ''isPrototypeOf'',
     ''propertyIsEnumerable'', ''toString'', ''valueOf'', ''__proto__'', ''toLocaleString'']"

definition functionMap :: "string \<Rightarrow> fn option" where
  "functionMap name =
     (if name = ''find_product'' then Some FindProduct
      else if name = ''get_customer_orders'' then Some GetCustomerOrders
      else if name = ''get_products'' then Some GetProducts
      else if name \<in> set Object_prototype then Some (Inherited name)
      else None)"

text \<open>
  \<^verbatim>\<open>fn(parsedArgs)\<close> for an inherited property, called without a receiver. \<^verbatim>\<open>Object(v)\<close>
  returns \<open>v\<close> (wrapped, which JSON does not show), or a new empty object for \<^verbatim>\<open>null\<close>;
  \<^verbatim>\<open>toString\<close> names its missing receiver; \<^verbatim>\<open>isPrototypeOf\<close> answers \<^verbatim>\<open>false\<close> to a
  primitive before it looks at the receiver. The other methods convert the receiver to an
  object first, and \<^verbatim>\<open>__proto__\<close> is an object, not a function: a TypeError.
\<close>

definition call_inherited :: "string \<Rightarrow> js \<Rightarrow> js result" where
  "call_inherited name arg =
     (if name = ''constructor'' then Inr (if nullish arg then Obj [] else arg)
      else if name = ''toString'' then Inr (Str ''[object Undefined]'')
      else if name = ''isPrototypeOf''
        then (case arg of Arr xs \<Rightarrow> Inl TypeError | Obj kvs \<Rightarrow> Inl TypeError | _ \<Rightarrow> Inr (Bool False))
      else Inl TypeError)"

definition call_serverless :: "env \<Rightarrow> fn \<Rightarrow> js \<Rightarrow> js io" where
  "call_serverless env f parsedArgs =
     (case f of
        FindProduct \<Rightarrow> findProduct_serverless env parsedArgs
      | GetCustomerOrders \<Rightarrow> getCustomerOrders_serverless env parsedArgs
      | GetProducts \<Rightarrow> getProducts_serverless env parsedArgs
      | Inherited name \<Rightarrow> io_pure (call_inherited name parsedArgs))"

definition call_standalone :: "env \<Rightarrow> fn \<Rightarrow> js \<Rightarrow> js io" where
  "call_standalone env f parsedArgs =
     (case f of
        FindProduct \<Rightarrow> findProduct_standalone env parsedArgs
      | GetCustomerOrders \<Rightarrow> getCustomerOrders_standalone env parsedArgs
      | GetProducts \<Rightarrow> getProducts_standalone env parsedArgs
      | Inherited name \<Rightarrow> io_pure (call_inherited name parsedArgs))"

section \<open>The turn orchestrator\<close>

text \<open>\<^verbatim>\<open>await openai.chat.completions.create(req)\<close>, then \<^verbatim>\<open>.choices[0].message\<close>\<close>

definition chat_completions_create :: "env \<Rightarrow> chat_request \<Rightarrow> completion io" where
  "chat_completions_create env req = (create env req, [ModelCall req])"

definition first_choice :: "completion \<Rightarrow> assistant_message result" where
  "first_choice choices = (case choices of [] \<Rightarrow> Inl TypeError | m # _ \<Rightarrow> Inr m)"

definition content_value :: "assistant_message \<Rightarrow> js" where
  "content_value m = (case content m of None \<Rightarrow> Null | Some s \<Rightarrow> Str s)"

text \<open>What a turn returns: \<^verbatim>\<open>{ reply }\<close> or \<^verbatim>\<open>{ reply, data }\<close>\<close>

datatype answer = Reply js | ReplyData js js

definition system_prompt_serverless :: string where
  "system_prompt_serverless = ''You are a helpful AI assistant for a Shopify store.''"

definition first_request_serverless :: "js \<Rightarrow> chat_request" where
  "first_request_serverless message = \<lparr>
     model = ''gpt-4-0613'',
     messages = [System system_prompt_serverless, User message],
     req_functions = Some functions_serverless,
     req_function_call = Some ''auto''\<rparr>"

definition second_request_serverless :: "env \<Rightarrow> js \<Rightarrow> assistant_message \<Rightarrow> string \<Rightarrow> js \<Rightarrow> chat_request" where
  "second_request_serverless env message reply name data = \<lparr>
     model = ''gpt-4-0613'',
     messages = [System system_prompt_serverless, User message, Assistant reply,
                 Function name (JSON_stringify env data)],
     req_functions = None,
     req_function_call = None\<rparr>"

text \<open>\<^verbatim>\<open>args ? JSON.parse(args) : {}\<close> (api/chat.js line 186)\<close>

definition parsedArgs_serverless :: "env \<Rightarrow> string \<Rightarrow> js result" where
  "parsedArgs_serverless env args =
     (if args \<noteq> []
      then (case JSON_parse env args of None \<Rightarrow> Inl SyntaxError | Some v \<Rightarrow> Inr v)
      else Inr (Obj []))"

text \<open>\<^verbatim>\<open>runAssistant\<close> of api/chat.js (lines 171-201)\<close>

definition runAssistant :: "env \<Rightarrow> js \<Rightarrow> answer io" where
  "runAssistant env message =
     io_then (chat_completions_create env (first_request_serverless message)) (\<lambda>first.
     io_then (io_pure (first_choice first)) (\<lambda>reply.
       case function_call reply of
         Some fc \<Rightarrow>
           (let name = fc_name fc; args = fc_arguments fc; fn = functionMap name in
            io_then (io_pure (parsedArgs_serverless env args)) (\<lambda>parsedArgs.
            io_then (case fn of
                       None \<Rightarrow> io_pure (Inl TypeError)
                     | Some f \<Rightarrow> call_serverless env f parsedArgs) (\<lambda>data.
            io_then (chat_completions_create env
                       (second_request_serverless env message reply name data)) (\<lambda>second.
            io_then (io_pure (first_choice second)) (\<lambda>final.
            io_pure (Inr (ReplyData (content_value final) data)))))))
       | None \<Rightarrow> io_pure (Inr (Reply (content_value reply)))))"

text \<open>
  An HTTP response: the status and the JSON sent. The body is a fixed message, the message
  of the error that was caught, or what the turn returned. (\<^verbatim>\<open>console.error\<close> in the
  \<^verbatim>\<open>catch\<close> blocks only logs, and is left out.)
\<close>

datatype payload =
    ErrorLiteral string
  | ErrorMessage js_error
  | Answer answer

record response =
  res_status :: nat
  res_json :: payload

record request =
  req_method :: string
  req_body :: js

definition is_string :: "js \<Rightarrow> bool" where
  "is_string v = (case v of Str s \<Rightarrow> True | _ \<Rightarrow> False)"

text \<open>
  The exported handler of api/chat.js (lines 204-221): the \<^verbatim>\<open>try\<close> block, then the
  \<^verbatim>\<open>catch\<close>. The test \<^verbatim>\<open>typeof message !== 'string' || !message\<close> is written from its
  other side: the assistant runs when the message is a string and is truthy.
\<close>

definition handler_try :: "env \<Rightarrow> request \<Rightarrow> response io" where
  "handler_try env req =
     (if req_method req \<noteq> ''POST''
      then io_pure (Inr \<lparr>res_status = 405, res_json = ErrorLiteral ''Method not allowed''\<rparr>)
      else
        io_then (io_pure (get (js_or (req_body req) (Obj [])) ''message'')) (\<lambda>message.
          if is_string message \<and> truthy message
          then
            io_then (runAssistant env message) (\<lambda>result.
            io_pure (Inr \<lparr>res_status = 200, res_json = Answer result\<rparr>))
          else io_pure (Inr \<lparr>res_status = 400,
                  res_json = ErrorLiteral ''Request body must include a `message` string.''\<rparr>)))"

definition handler :: "env \<Rightarrow> request \<Rightarrow> response \<times> event list" where
  "handler env req =
     (case handler_try env req of
        (Inr res, t) \<Rightarrow> (res, t)
      | (Inl err, t) \<Rightarrow> (\<lparr>res_status = 500, res_json = ErrorMessage err\<rparr>, t))"

text \<open>
  The system prompt of index.js (line 533); the hyphen of \<^verbatim>\<open>follow-up\<close> is U+2011 in the
  source.
\<close>

definition system_prompt_standalone :: string where
  "system_prompt_standalone =
     ''You are a helpful AI assistant for an ecommerce store powered by Shopify. ''
     @ ''You can look up products and customer orders using functions. Ask follow''
     @ [CHR 0xE2, CHR 0x80, CHR 0x91] @ ''up questions when necessary and be concise.''"

definition first_request_standalone :: "js \<Rightarrow> chat_request" where
  "first_request_standalone userMessage = \<lparr>
     model = ''gpt-4-1106-preview'',
     messages = [System system_prompt_standalone, User userMessage],
     req_functions = Some functions_standalone,
     req_function_call = Some ''auto''\<rparr>"

definition second_request_standalone :: "env \<Rightarrow> js \<Rightarrow> assistant_message \<Rightarrow> string \<Rightarrow> js \<Rightarrow> chat_request" where
  "second_request_standalone env userMessage message name result = \<lparr>
     model = ''gpt-4-1106-preview'',
     messages = [System system_prompt_standalone, User userMessage] @
                [Assistant message, Function name (JSON_stringify env result)],
     req_functions = None,
     req_function_call = None\<rparr>"

text \<open>The \<^verbatim>\<open>try\<close> and \<^verbatim>\<open>catch\<close> around \<^verbatim>\<open>JSON.parse(args)\<close> (index.js lines 548-553)\<close>

definition parsedArgs_standalone :: "env \<Rightarrow> string \<Rightarrow> js result" where
  "parsedArgs_standalone env args =
     (case JSON_parse env args of
        None \<Rightarrow> Inl (Error (''Failed to parse function arguments: '' @ args))
      | Some v \<Rightarrow> Inr v)"

text \<open>The lookup and its check (index.js lines 554-557)\<close>

definition lookup_standalone :: "string \<Rightarrow> fn result" where
  "lookup_standalone name =
     (case functionMap name of
        None \<Rightarrow> Inl (Error (''Function '' @ name @ '' is not implemented.''))
      | Some f \<Rightarrow> Inr f)"

text \<open>The \<^verbatim>\<open>try\<close> block of the \<^verbatim>\<open>/chat\<close> route of index.js (lines 527-576)\<close>

definition chat_try :: "env \<Rightarrow> js \<Rightarrow> response io" where
  "chat_try env userMessage =
     io_then (chat_completions_create env (first_request_standalone userMessage)) (\<lambda>first.
     io_then (io_pure (first_choice first)) (\<lambda>message.
       case function_call message of
         Some fc \<Rightarrow>
           (let name = fc_name fc; args = fc_arguments fc in
            io_then (io_pure (parsedArgs_standalone env args)) (\<lambda>parsedArgs.
            io_then (io_pure (lookup_standalone name)) (\<lambda>fn.
            io_then (call_standalone env fn parsedArgs) (\<lambda>result.
            io_then (chat_completions_create env
                       (second_request_standalone env userMessage message name result)) (\<lambda>second.
            io_then (io_pure (first_choice second)) (\<lambda>final.
            io_pure (Inr \<lparr>res_status = 200,
                          res_json = Answer (ReplyData (content_value final) result)\<rparr>)))))))
       | None \<Rightarrow>
           io_pure (Inr \<lparr>res_status = 200, res_json = Answer (Reply (content_value message))\<rparr>)))"

text \<open>
  The \<^verbatim>\<open>/chat\<close> route of index.js (lines 522-581), given \<^verbatim>\<open>req.body\<close> (\<open>posted\<close>) as the
  JSON middleware of Express parsed it. The route is registered for POST alone.
\<close>

definition chat :: "env \<Rightarrow> js \<Rightarrow> response \<times> event list" where
  "chat env posted =
     (let userMessage = opt_get posted ''message'' in
      if \<not> truthy userMessage
      then (\<lparr>res_status = 400,
             res_json = ErrorLiteral ''Request body must include a `message` field.''\<rparr>, [])
      else
        (case chat_try env userMessage of
           (Inr res, t) \<Rightarrow> (res, t)
         | (Inl err, t) \<Rightarrow> (\<lparr>res_status = 500, res_json = ErrorMessage err\<rparr>, t)))"

text \<open>
  What the client finds in a response: \<^verbatim>\<open>res.json\<close> leaves out a field whose value is
  \<^verbatim>\<open>undefined\<close>.
\<close>

definition has_data :: "response \<Rightarrow> bool" where
  "has_data res = (case res_json res of Answer (ReplyData r d) \<Rightarrow> d \<noteq> Undefined | _ \<Rightarrow> False)"

section \<open>Counting entries\<close>

text \<open>The number of entries of an array, and its entries; anything else has none.\<close>

definition entries :: "js \<Rightarrow> nat" where
  "entries v = (case v of Arr xs \<Rightarrow> length xs | _ \<Rightarrow> 0)"

definition elements :: "js \<Rightarrow> js list" where
  "elements v = (case v of Arr xs \<Rightarrow> xs | _ \<Rightarrow> [])"

text \<open>
  A customer node of a response keeps within \<open>n\<close>: it has at most \<open>n\<close> order edges, and each
  order has at most \<open>n\<close> line item edges and, in each fulfillment, at most \<open>n\<close> tracking
  entries.
\<close>

definition order_edge_within :: "nat \<Rightarrow> js \<Rightarrow> bool" where
  "order_edge_within n edge =
     (entries (opt_path edge [''node'', ''lineItems'', ''edges'']) \<le> n \<and>
      list_all (\<lambda>f. entries (opt_get f ''trackingInfo'') \<le> n)
        (elements (opt_path edge [''node'', ''fulfillments''])))"

definition customer_within :: "nat \<Rightarrow> js \<Rightarrow> bool" where
  "customer_within n customer =
     (entries (opt_path customer [''orders'', ''edges'']) \<le> n \<and>
      list_all (order_edge_within n) (elements (opt_path customer [''orders'', ''edges''])))"

text \<open>The same of the orders a tool returns\<close>

definition order_within :: "nat \<Rightarrow> js \<Rightarrow> bool" where
  "order_within n order =
     (entries (opt_get order ''items'') \<le> n \<and>
      list_all (\<lambda>f. entries (opt_get f ''tracking'') \<le> n)
        (elements (opt_get order ''fulfillments'')))"

definition orders_within :: "nat \<Rightarrow> js \<Rightarrow> bool" where
  "orders_within n orders = (entries orders \<le> n \<and> list_all (order_within n) (elements orders))"

section \<open>Scripted environments for the examples\<close>

text \<open>
  A test double of the outside world: the model answers \<open>first\<close> to a request that carries
  the tool catalog and \<open>second\<close> to one that does not, the commerce platform always answers
  \<open>commerce\<close>, and the two JSON functions answer from a table of texts and their values.
\<close>

definition scripted :: "completion result \<Rightarrow> completion result \<Rightarrow> fetch_response result \<Rightarrow> (string \<times> js) list \<Rightarrow> env" where
  "scripted first second commerce table = \<lparr>
     SHOPIFY_STORE = Some ''demo.myshopify.com'',
     SHOPIFY_TOKEN = Some ''shpat_demo'',
     create = (\<lambda>req. if req_functions req = None then second else first),
     fetch = (\<lambda>req. commerce),
     JSON_parse = map_of table,
     JSON_stringify = (\<lambda>v. case find (\<lambda>(s, w). w = v) table of None \<Rightarrow> [] | Some (s, w) \<Rightarrow> s),
     Number_toString = (\<lambda>n. [])\<rparr>"

definition says :: "string \<Rightarrow> completion result" where
  "says s = Inr [\<lparr>content = Some s, function_call = None\<rparr>]"

definition nominates :: "string \<Rightarrow> string \<Rightarrow> completion result" where
  "nominates name args =
     Inr [\<lparr>content = None, function_call = Some \<lparr>fc_name = name, fc_arguments = args\<rparr>\<rparr>]"

definition answers :: "nat \<Rightarrow> string \<Rightarrow> fetch_response result" where
  "answers code s = Inr \<lparr>http_status = code, body_text = s\<rparr>"

definition post :: "js \<Rightarrow> request" where
  "post message = \<lparr>req_method = ''POST'', req_body = Obj [(''message'', message)]\<rparr>"

text \<open>A response body with two products\<close>

definition two_products :: js where
  "two_products =
     Obj [(''data'', Obj [(''products'', Obj [(''edges'', Arr [Obj [(''node'', Obj [(''id'',
       Str ''gid://shopify/Product/1''), (''title'', Str ''Coffee''), (''description'',
       Str ''Coffee beans''), (''images'', Obj [(''edges'', Arr [Obj [(''node'',
       Obj [(''url'', Str ''https://cdn.example/1.png''), (''altText'', Null)])]])]),
       (''priceRange'', Obj [(''minVariantPrice'', Obj [(''amount'', Str ''12.50''),
       (''currencyCode'', Str ''USD'')])])])], Obj [(''node'', Obj [(''id'',
       Str ''gid://shopify/Product/2''), (''title'', Str ''Tea''), (''description'',
       Str ''Tea leaves''), (''images'', Obj [(''edges'', Arr [])]), (''priceRange'',
       Obj [(''minVariantPrice'', Obj [(''amount'', Str ''7.00''), (''currencyCode'',
       Str ''USD'')])])])]])])])]"

definition two_products_text :: string where
  \<open>two_products_text =
     ''{"data":{"products":{"edges":[{"node":{"id":"gid://shopify/Product/1","title":"C''
     @ ''offee","description":"Coffee beans","images":{"edges":[{"node":{"url":"https://c''
     @ ''dn.example/1.png","altText":null}}]},"priceRange":{"minVariantPrice":{"amount":"''
     @ ''12.50","currencyCode":"USD"}}}},{"node":{"id":"gid://shopify/Product/2","title":''
     @ ''"Tea","description":"Tea leaves","images":{"edges":[]},"priceRange":{"minVariant''
     @ ''Price":{"amount":"7.00","currencyCode":"USD"}}}}]}}}''\<close>

text \<open>A response body with no product\<close>

definition no_products :: js where
  "no_products =
     Obj [(''data'', Obj [(''products'', Obj [(''edges'', Arr [])])])]"

definition no_products_text :: string where
  \<open>no_products_text =
     ''{"data":{"products":{"edges":[]}}}''\<close>

text \<open>A response body with six product edges\<close>

definition six_products :: js where
  "six_products =
     Obj [(''data'', Obj [(''products'', Obj [(''edges'', Arr [Obj [(''node'', Obj [(''id'',
       Str ''1''), (''title'', Str ''P1'')])], Obj [(''node'', Obj [(''id'', Str ''2''),
       (''title'', Str ''P2'')])], Obj [(''node'', Obj [(''id'', Str ''3''), (''title'',
       Str ''P3'')])], Obj [(''node'', Obj [(''id'', Str ''4''), (''title'', Str ''P4'')])],
       Obj [(''node'', Obj [(''id'', Str ''5''), (''title'', Str ''P5'')])], Obj [(''node'',
       Obj [(''id'', Str ''6''), (''title'', Str ''P6'')])]])])])]"

definition six_products_text :: string where
  \<open>six_products_text =
     ''{"data":{"products":{"edges":[{"node":{"id":"1","title":"P1"}},{"node":{"id":"2"''
     @ '',"title":"P2"}},{"node":{"id":"3","title":"P3"}},{"node":{"id":"4","title":"P4"}''
     @ ''},{"node":{"id":"5","title":"P5"}},{"node":{"id":"6","title":"P6"}}]}}}''\<close>

text \<open>A response body with one customer and one order\<close>

definition one_customer :: js where
  "one_customer =
     Obj [(''data'', Obj [(''customers'', Obj [(''edges'', Arr [Obj [(''node'',
       Obj [(''id'', Str ''gid://shopify/Customer/1''), (''firstName'', Str ''Ann''),
       (''lastName'', Str ''Lee''), (''email'', Str ''ann@example.com''), (''orders'',
       Obj [(''edges'', Arr [Obj [(''node'', Obj [(''id'', Str ''gid://shopify/Order/7''),
       (''name'', Str ''#1007''), (''processedAt'', Str ''2025-07-01T10:00:00Z''),
       (''totalPriceSet'', Obj [(''shopMoney'', Obj [(''amount'', Str ''19.50''),
       (''currencyCode'', Str ''USD'')])]), (''fulfillments'', Arr [Obj [(''status'',
       Str ''SUCCESS''), (''estimatedDeliveryAt'', Null), (''trackingInfo'',
       Arr [Obj [(''company'', Str ''UPS''), (''number'', Str ''1Z999''), (''url'',
       Str ''https://ups.example/1Z999'')]])]]), (''lineItems'', Obj [(''edges'',
       Arr [Obj [(''node'', Obj [(''title'', Str ''Coffee''), (''quantity'', Num 1)])],
       Obj [(''node'', Obj [(''title'', Str ''Tea''), (''quantity'',
       Num 1)])]])])])]])])])]])])])]"

definition one_customer_text :: string where
  \<open>one_customer_text =
     ''{"data":{"customers":{"edges":[{"node":{"id":"gid://shopify/Customer/1","firstNa''
     @ ''me":"Ann","lastName":"Lee","email":"ann@example.com","orders":{"edges":[{"node":''
     @ ''{"id":"gid://shopify/Order/7","name":"#1007","processedAt":"2025-07-01T10:00:00Z''
     @ ''","totalPriceSet":{"shopMoney":{"amount":"19.50","currencyCode":"USD"}},"fulfill''
     @ ''ments":[{"status":"SUCCESS","estimatedDeliveryAt":null,"trackingInfo":[{"company''
     @ ''":"UPS","number":"1Z999","url":"https://ups.example/1Z999"}]}],"lineItems":{"edg''
     @ ''es":[{"node":{"title":"Coffee","quantity":1}},{"node":{"title":"Tea","quantity":''
     @ ''1}}]}}}]}}}]}}}''\<close>

text \<open>A response body with no customer\<close>

definition no_customer :: js where
  "no_customer =
     Obj [(''data'', Obj [(''customers'', Obj [(''edges'', Arr [])])])]"

definition no_customer_text :: string where
  \<open>no_customer_text =
     ''{"data":{"customers":{"edges":[]}}}''\<close>

text \<open>A response body with two customer edges\<close>

definition two_customers :: js where
  "two_customers =
     Obj [(''data'', Obj [(''customers'', Obj [(''edges'', Arr [Obj [(''node'',
       Obj [(''id'', Str ''gid://shopify/Customer/1''), (''firstName'', Str ''Ann''),
       (''lastName'', Str ''Lee''), (''email'', Str ''ann@example.com''), (''orders'',
       Obj [(''edges'', Arr [])])])], Obj [(''node'', Obj [(''id'',
       Str ''gid://shopify/Customer/2''), (''firstName'', Str ''Bob''), (''lastName'',
       Str ''Ray''), (''email'', Str ''bob@example.com''), (''orders'', Obj [(''edges'',
       Arr [])])])]])])])]"

definition two_customers_text :: string where
  \<open>two_customers_text =
     ''{"data":{"customers":{"edges":[{"node":{"id":"gid://shopify/Customer/1","firstNa''
     @ ''me":"Ann","lastName":"Lee","email":"ann@example.com","orders":{"edges":[]}}},{"n''
     @ ''ode":{"id":"gid://shopify/Customer/2","firstName":"Bob","lastName":"Ray","email"''
     @ '':"bob@example.com","orders":{"edges":[]}}}]}}}''\<close>

text \<open>A response body with a top-level errors list\<close>

definition throttled :: js where
  "throttled =
     Obj [(''errors'', Arr [Obj [(''message'', Str ''Throttled'')]])]"

definition throttled_text :: string where
  \<open>throttled_text =
     ''{"errors":[{"message":"Throttled"}]}''\<close>

text \<open>The texts the examples parse or print, with their values\<close>

definition table :: "(string \<times> js) list" where
  \<open>table = [
     (''{}'', Obj []),
     (''{"query":"coffee"}'', Obj [(''query'', Str ''coffee'')]),
     (''{"email":"ann@example.com"}'', Obj [(''email'', Str ''ann@example.com'')]),
     (''42'', Num 42),
     (''[{"message":"Throttled"}]'', Arr [Obj [(''message'', Str ''Throttled'')]]),
     (two_products_text, two_products),
     (no_products_text, no_products),
     (six_products_text, six_products),
     (one_customer_text, one_customer),
     (no_customer_text, no_customer),
     (two_customers_text, two_customers),
     (throttled_text, throttled)]\<close>

text \<open>
  A shop whose model answers \<open>first\<close> to the user and then composes a fixed reply, and whose
  commerce platform answers \<open>commerce\<close>.
\<close>

definition shop :: "completion result \<Rightarrow> fetch_response result \<Rightarrow> env" where
  "shop first commerce = scripted first (says ''Here is what I found.'') commerce table"

text \<open>The model answers a greeting itself.\<close>

definition greeting :: env where
  "greeting = shop (says ''Hello! How can I help?'') (answers 200 ''{}'')"

text \<open>The model asks for the product list, and the platform returns two products.\<close>

definition listing :: env where
  "listing = shop (nominates ''get_products'' ''{}'') (answers 200 two_products_text)"

definition two_listed :: js where
  "two_listed = Arr [
     Obj [(''id'', Str ''gid://shopify/Product/1''), (''title'', Str ''Coffee'')],
     Obj [(''id'', Str ''gid://shopify/Product/2''), (''title'', Str ''Tea'')]]"

definition two_listed_wrapped :: js where
  "two_listed_wrapped = Obj [(''products'', Arr [
     Obj [(''id'', Str ''gid://shopify/Product/1''), (''title'', Str ''Coffee''),
          (''description'', Str ''Coffee beans''), (''price'', Str ''12.50''),
          (''currency'', Str ''USD'')],
     Obj [(''id'', Str ''gid://shopify/Product/2''), (''title'', Str ''Tea''),
          (''description'', Str ''Tea leaves''), (''price'', Str ''7.00''),
          (''currency'', Str ''USD'')]])]"

text \<open>The model asks for the product list, and the platform answers with an errors list.\<close>

definition refused :: env where
  "refused = shop (nominates ''get_products'' ''{}'') (answers 200 throttled_text)"

text \<open>The model asks for a tool the program does not have, with arguments that do not parse.\<close>

definition confused :: env where
  "confused = shop (nominates ''refund_order'' ''{'') (answers 200 ''{}'')"

text \<open>The model asks for a tool the program does not have.\<close>

definition inventive :: env where
  "inventive = shop (nominates ''refund_order'' ''{}'') (answers 200 ''{}'')"

text \<open>The model asks for a name that every JavaScript object inherits.\<close>

definition misled :: env where
  "misled = shop (nominates ''constructor'' ''{}'') (answers 200 ''{}'')"

text \<open>The model asks for the product list and sends the empty string as arguments.\<close>

definition terse :: env where
  "terse = shop (nominates ''get_products'' []) (answers 200 two_products_text)"

text \<open>The model asks for the product list with arguments that do not parse.\<close>

definition garbled :: env where
  "garbled = shop (nominates ''get_products'' ''{'') (answers 200 two_products_text)"

text \<open>The model API refuses a message that is not a string.\<close>

definition strict :: env where
  "strict = shop (Inl (Error ''400 Invalid type for messages[1].content'')) (answers 200 ''{}'')"

text \<open>No store credentials are set, and no host answers to the name \<^verbatim>\<open>undefined\<close>.\<close>

definition unconfigured :: env where
  "unconfigured =
     (shop (nominates ''get_products'' ''{}'') (Inl (Error ''getaddrinfo ENOTFOUND undefined'')))
       \<lparr>SHOPIFY_STORE := None, SHOPIFY_TOKEN := None\<rparr>"



text \<open>The order of that customer, as the tools return it\<close>

definition one_order :: js where
  "one_order =
     Obj [(''id'', Str ''gid://shopify/Order/7''), (''name'', Str ''#1007''),
       (''processedAt'', Str ''2025-07-01T10:00:00Z''), (''total'', Str ''19.50''),
       (''currency'', Str ''USD''), (''fulfillments'', Arr [Obj [(''status'',
       Str ''SUCCESS''), (''estimatedDeliveryAt'', Null), (''tracking'',
       Arr [Obj [(''company'', Str ''UPS''), (''number'', Str ''1Z999''), (''url'',
       Str ''https://ups.example/1Z999'')]])]]), (''items'', Arr [Obj [(''title'',
       Str ''Coffee''), (''quantity'', Num 1)], Obj [(''title'', Str ''Tea''),
       (''quantity'', Num 1)]])]"

text \<open>What index.js returns for that customer\<close>

definition one_customer_found :: js where
  "one_customer_found =
     Obj [(''customers'', Arr [Obj [(''id'', Str ''gid://shopify/Customer/1''),
       (''name'', Str ''Ann Lee''), (''email'', Str ''ann@example.com''),
       (''orders'', Arr [one_order])]])]"

text \<open>What index.js returns for the two customer edges\<close>

definition two_customers_found :: js where
  "two_customers_found =
     Obj [(''customers'', Arr [Obj [(''id'', Str ''gid://shopify/Customer/1''), (''name'',
       Str ''Ann Lee''), (''email'', Str ''ann@example.com''), (''orders'', Arr [])],
       Obj [(''id'', Str ''gid://shopify/Customer/2''), (''name'', Str ''Bob Ray''),
       (''email'', Str ''bob@example.com''), (''orders'', Arr [])]])]"

text \<open>What api/chat.js lists for the six product edges\<close>

definition six_listed :: js where
  "six_listed =
     Arr [Obj [(''id'', Str ''1''), (''title'', Str ''P1'')], Obj [(''id'', Str ''2''),
       (''title'', Str ''P2'')], Obj [(''id'', Str ''3''), (''title'', Str ''P3'')],
       Obj [(''id'', Str ''4''), (''title'', Str ''P4'')], Obj [(''id'', Str ''5''),
       (''title'', Str ''P5'')], Obj [(''id'', Str ''6''), (''title'', Str ''P6'')]]"

text \<open>What the product search of api/chat.js returns for the two products\<close>

definition two_found :: js where
  "two_found =
     Arr [Obj [(''id'', Str ''gid://shopify/Product/1''), (''title'', Str ''Coffee''),
       (''description'', Str ''Coffee beans''), (''image'', Obj [(''url'',
       Str ''https://cdn.example/1.png''), (''altText'', Null)]), (''price'',
       Str ''12.50''), (''currency'', Str ''USD'')], Obj [(''id'',
       Str ''gid://shopify/Product/2''), (''title'', Str ''Tea''), (''description'',
       Str ''Tea leaves''), (''image'', Null), (''price'', Str ''7.00''), (''currency'',
       Str ''USD'')]]"

text \<open>What the product search of index.js returns for the two products\<close>

definition two_found_wrapped :: js where
  "two_found_wrapped =
     Obj [(''products'', Arr [Obj [(''id'', Str ''gid://shopify/Product/1''), (''title'',
       Str ''Coffee''), (''description'', Str ''Coffee beans''), (''price'', Str ''12.50''),
       (''currency'', Str ''USD''), (''image'', Obj [(''url'',
       Str ''https://cdn.example/1.png''), (''altText'', Null)])], Obj [(''id'',
       Str ''gid://shopify/Product/2''), (''title'', Str ''Tea''), (''description'',
       Str ''Tea leaves''), (''price'', Str ''7.00''), (''currency'', Str ''USD''),
       (''image'', Null)]])]"

text \<open>The model asks for the product list, and the platform returns six product edges.\<close>

definition crowded :: env where
  "crowded = shop (nominates ''get_products'' ''{}'') (answers 200 six_products_text)"

text \<open>The model asks for the orders of a customer; the platform knows her.\<close>

definition known_customer :: env where
  \<open>known_customer =
     shop (nominates ''get_customer_orders'' ''{"email":"ann@example.com"}'')
       (answers 200 one_customer_text)\<close>


text \<open>The model asks for the orders of a customer; the platform returns two customer edges.\<close>

definition two_matches :: env where
  \<open>two_matches =
     shop (nominates ''get_customer_orders'' ''{"email":"ann@example.com"}'')
       (answers 200 two_customers_text)\<close>

text \<open>The model searches for coffee; the platform returns two products.\<close>

definition coffee_search :: env where
  \<open>coffee_search =
     shop (nominates ''find_product'' ''{"query":"coffee"}'') (answers 200 two_products_text)\<close>

section \<open>Basic facts about results and traces\<close>

lemma and_then_Inl [simp]: "and_then (Inl e) f = Inl e"
  by (simp add: and_then_def)

lemma and_then_Inr [simp]: "and_then (Inr v) f = f v"
  by (simp add: and_then_def)

lemma and_then_eq_Inr: "and_then m f = Inr y \<longleftrightarrow> (\<exists>v. m = Inr v \<and> f v = Inr y)"
  by (cases m) simp_all

lemma io_then_Inl [simp]: "io_then (Inl e, t) f = (Inl e, t)"
  by (simp add: io_then_def)

lemma io_then_Inr [simp]: "io_then (Inr v, t) f = (fst (f v), t @ snd (f v))"
  by (simp add: io_then_def split: prod.splits)

lemma io_then_pure_Inr [simp]: "io_then (io_pure (Inr v)) f = f v"
  by (simp add: io_pure_def)

lemma io_then_pure_Inl [simp]: "io_then (io_pure (Inl e)) f = (Inl e, [])"
  by (simp add: io_pure_def)

lemma map_result_eq_Inr:
  "map_result f xs = Inr ys \<longleftrightarrow> list_all2 (\<lambda>x y. f x = Inr y) xs ys"
proof (induction xs arbitrary: ys)
  case Nil
  then show ?case by auto
next
  case (Cons x xs)
  then show ?case
    by (cases ys) (auto simp: and_then_eq_Inr)
qed

lemma js_map_eq_Inr:
  "js_map f v = Inr r \<longleftrightarrow> (\<exists>xs ys. v = Arr xs \<and> r = Arr ys \<and> list_all2 (\<lambda>x y. f x = Inr y) xs ys)"
  by (cases v) (auto simp: and_then_eq_Inr map_result_eq_Inr)

lemma eval_fields_Cons_eq_Inr:
  "eval_fields ((k, r) # fs) = Inr kvs \<longleftrightarrow>
     (\<exists>v kvs'. r = Inr v \<and> eval_fields fs = Inr kvs' \<and> kvs = (k, v) # kvs')"
  by (auto simp: and_then_eq_Inr)

lemma eval_fields_Nil_eq_Inr: "eval_fields [] = Inr kvs \<longleftrightarrow> kvs = []"
  by auto

lemma obj_eq_Inr: "obj fs = Inr r \<longleftrightarrow> (\<exists>kvs. eval_fields fs = Inr kvs \<and> r = Obj kvs)"
  by (auto simp: obj_def and_then_eq_Inr)

lemma io_then_tail:
  "io_then (r, t) (\<lambda>x. io_then (io_pure (g x)) (\<lambda>y. io_pure (Inr (h y)))) =
     (and_then (and_then r g) (\<lambda>y. Inr (h y)), t)"
proof (cases r)
  case (Inl e)
  then show ?thesis by simp
next
  case (Inr v)
  then show ?thesis by (cases "g v") (simp_all add: io_pure_def)
qed

lemma first_choice_Cons [simp]: "first_choice (m # ms) = Inr m"
  by (simp add: first_choice_def)

lemma first_choice_Nil [simp]: "first_choice [] = Inl TypeError"
  by (simp add: first_choice_def)

lemma runAssistant_no_tool:
  assumes "create env (first_request_serverless msg) = Inr (m # ms)" "function_call m = None"
  shows "runAssistant env msg = (Inr (Reply (content_value m)), [ModelCall (first_request_serverless msg)])"
  using assms by (simp add: runAssistant_def chat_completions_create_def first_choice_def io_pure_def)

lemma runAssistant_tool:
  assumes "create env (first_request_serverless msg) = Inr (m # ms)" "function_call m = Some fc"
  shows "runAssistant env msg =
     (case parsedArgs_serverless env (fc_arguments fc) of
        Inl e \<Rightarrow> (Inl e, [ModelCall (first_request_serverless msg)])
      | Inr a \<Rightarrow>
        (case functionMap (fc_name fc) of
           None \<Rightarrow> (Inl TypeError, [ModelCall (first_request_serverless msg)])
         | Some f \<Rightarrow>
           (case call_serverless env f a of
              (Inl e, t) \<Rightarrow> (Inl e, ModelCall (first_request_serverless msg) # t)
            | (Inr d, t) \<Rightarrow>
                (and_then (and_then (create env (second_request_serverless env msg m (fc_name fc) d)) first_choice)
                   (\<lambda>final. Inr (ReplyData (content_value final) d)),
                 ModelCall (first_request_serverless msg) # t @
                 [ModelCall (second_request_serverless env msg m (fc_name fc) d)]))))"
  using assms
  by (auto simp add: runAssistant_def chat_completions_create_def io_then_tail Let_def
      split: sum.splits option.splits prod.splits)

lemma runAssistant_create_fails:
  assumes "create env (first_request_serverless msg) = Inl e"
  shows "runAssistant env msg = (Inl e, [ModelCall (first_request_serverless msg)])"
  using assms by (simp add: runAssistant_def chat_completions_create_def)

lemma handler_valid:
  assumes "req_method req = ''POST''" "read_prop (req_body req) ''message'' = Str s" "s \<noteq> []"
  shows "handler env req =
     (case runAssistant env (Str s) of
        (Inr a, t) \<Rightarrow> (\<lparr>res_status = 200, res_json = Answer a\<rparr>, t)
      | (Inl e, t) \<Rightarrow> (\<lparr>res_status = 500, res_json = ErrorMessage e\<rparr>, t))"
proof -
  from assms(2) obtain kvs where "req_body req = Obj kvs"
    by (cases "req_body req") auto
  with assms show ?thesis
    by (auto simp add: handler_def handler_try_def js_or_def get_def nullish_def is_string_def io_pure_def
        split: sum.splits prod.splits)
qed

lemma chat_try_no_tool:
  assumes "create env (first_request_standalone msg) = Inr (m # ms)" "function_call m = None"
  shows "chat_try env msg = (Inr \<lparr>res_status = 200, res_json = Answer (Reply (content_value m))\<rparr>, [ModelCall (first_request_standalone msg)])"
  using assms by (simp add: chat_try_def chat_completions_create_def first_choice_def io_pure_def)

lemma chat_try_tool:
  assumes "create env (first_request_standalone msg) = Inr (m # ms)" "function_call m = Some fc"
  shows "chat_try env msg =
     (case parsedArgs_standalone env (fc_arguments fc) of
        Inl e \<Rightarrow> (Inl e, [ModelCall (first_request_standalone msg)])
      | Inr a \<Rightarrow>
        (case lookup_standalone (fc_name fc) of
           Inl e \<Rightarrow> (Inl e, [ModelCall (first_request_standalone msg)])
         | Inr f \<Rightarrow>
           (case call_standalone env f a of
              (Inl e, t) \<Rightarrow> (Inl e, ModelCall (first_request_standalone msg) # t)
            | (Inr d, t) \<Rightarrow>
                (and_then (and_then (create env (second_request_standalone env msg m (fc_name fc) d)) first_choice)
                   (\<lambda>final. Inr \<lparr>res_status = 200, res_json = Answer (ReplyData (content_value final) d)\<rparr>),
                 ModelCall (first_request_standalone msg) # t @
                 [ModelCall (second_request_standalone env msg m (fc_name fc) d)]))))"
  using assms
  by (auto simp add: chat_try_def chat_completions_create_def io_then_tail Let_def
      split: sum.splits option.splits prod.splits)

lemma chat_valid:
  assumes "truthy (opt_get posted ''message'')"
  shows "chat env posted =
     (case chat_try env (opt_get posted ''message'') of
        (Inr res, t) \<Rightarrow> (res, t)
      | (Inl e, t) \<Rightarrow> (\<lparr>res_status = 500, res_json = ErrorMessage e\<rparr>, t))"
  using assms by (simp add: chat_def Let_def)

lemma io_then_pair: "io_then (r, t) f = (case r of Inl e \<Rightarrow> (Inl e, t) | Inr v \<Rightarrow> (fst (f v), t @ snd (f v)))"
  by (cases r) simp_all

lemma callShopify_serverless_pair:
  "callShopify_serverless env q v = (fst (callShopify_serverless env q v), [CommerceCall (graphql_request env q v)])"
  by (simp add: callShopify_serverless_def Let_def)

lemma callShopify_standalone_trace:
  "callShopify_standalone env q v = (r, t) \<Longrightarrow>
     (t = [] \<and> r = Inl (Error ''Shopify store credentials are not set in environment variables'')) \<or>
     t = [CommerceCall (graphql_request env q v)]"
  by (auto simp: callShopify_standalone_def Let_def split: if_splits)

lemma findProduct_serverless_trace:
  "findProduct_serverless env a = (r, t) \<Longrightarrow>
     (t = [] \<and> r = Inl TypeError) \<or> (\<exists>q. t = [CommerceCall q])"
  unfolding findProduct_serverless_def get_def
  by (cases "nullish a"; subst (asm) callShopify_serverless_pair)
     (auto simp: io_pure_def io_then_pair split: sum.splits)

lemma getCustomerOrders_serverless_trace:
  "getCustomerOrders_serverless env a = (r, t) \<Longrightarrow>
     (t = [] \<and> r = Inl TypeError) \<or> (\<exists>q. t = [CommerceCall q])"
  unfolding getCustomerOrders_serverless_def get_def
  by (cases "nullish a"; subst (asm) callShopify_serverless_pair)
     (auto simp: io_pure_def io_then_pair split: sum.splits)

lemma getProducts_serverless_trace:
  "getProducts_serverless env a = (r, t) \<Longrightarrow> (\<exists>q. t = [CommerceCall q])"
  unfolding getProducts_serverless_def
  by (subst (asm) callShopify_serverless_pair)
     (auto simp: io_pure_def io_then_pair split: sum.splits)

lemma io_then_standalone:
  assumes "io_then (callShopify_standalone env q v) (\<lambda>x. io_pure (g x)) = (r, t)"
  shows "(t = [] \<and> (\<exists>e. r = Inl e)) \<or> t = [CommerceCall (graphql_request env q v)]"
proof (cases "callShopify_standalone env q v")
  case (Pair r' t')
  from callShopify_standalone_trace[OF Pair] Pair assms show ?thesis
    by (auto simp: io_then_pair io_pure_def split: sum.splits)
qed

lemma findProduct_standalone_trace:
  "findProduct_standalone env a = (r, t) \<Longrightarrow>
     (t = [] \<and> (\<exists>e. r = Inl e)) \<or> (\<exists>q. t = [CommerceCall q])"
  unfolding findProduct_standalone_def get_def
  by (cases "nullish a") (auto dest: io_then_standalone)

lemma getCustomerOrders_standalone_trace:
  "getCustomerOrders_standalone env a = (r, t) \<Longrightarrow>
     (t = [] \<and> (\<exists>e. r = Inl e)) \<or> (\<exists>q. t = [CommerceCall q])"
  unfolding getCustomerOrders_standalone_def get_def
  by (cases "nullish a") (auto dest: io_then_standalone)

lemma getProducts_standalone_trace:
  "getProducts_standalone env a = (r, t) \<Longrightarrow>
     (t = [] \<and> (\<exists>e. r = Inl e)) \<or> (\<exists>q. t = [CommerceCall q])"
  unfolding getProducts_standalone_def
  by (auto dest: io_then_standalone)

lemma call_serverless_trace:
  "call_serverless env f a = (r, t) \<Longrightarrow> t = [] \<or> (\<exists>q. t = [CommerceCall q])"
  by (cases f)
     (auto simp: call_serverless_def io_pure_def
           dest: findProduct_serverless_trace getCustomerOrders_serverless_trace getProducts_serverless_trace)

lemma call_standalone_trace:
  "call_standalone env f a = (r, t) \<Longrightarrow> t = [] \<or> (\<exists>q. t = [CommerceCall q])"
  by (cases f)
     (auto simp: call_standalone_def io_pure_def
           dest: findProduct_standalone_trace getCustomerOrders_standalone_trace getProducts_standalone_trace)

lemma call_serverless_ok_trace:
  "call_serverless env f a = (Inr d, t) \<Longrightarrow> f \<in> {FindProduct, GetCustomerOrders, GetProducts} \<Longrightarrow>
   \<exists>q. t = [CommerceCall q]"
  by (auto simp: call_serverless_def
           dest: findProduct_serverless_trace getCustomerOrders_serverless_trace getProducts_serverless_trace)

lemma call_standalone_ok_trace:
  "call_standalone env f a = (Inr d, t) \<Longrightarrow> f \<in> {FindProduct, GetCustomerOrders, GetProducts} \<Longrightarrow>
   \<exists>q. t = [CommerceCall q]"
  by (auto simp: call_standalone_def
           dest: findProduct_standalone_trace getCustomerOrders_standalone_trace getProducts_standalone_trace)

lemma call_inherited_trace:
  "call_serverless env (Inherited n) a = (io_pure (call_inherited n a))"
  "call_standalone env (Inherited n) a = (io_pure (call_inherited n a))"
  by (simp_all add: call_serverless_def call_standalone_def)

lemma io_then_eq_Inr:
  "io_then m f = (Inr d, t) \<longleftrightarrow> (\<exists>v t1 t2. m = (Inr v, t1) \<and> f v = (Inr d, t2) \<and> t = t1 @ t2)"
proof (cases m)
  case (Pair r t1)
  then show ?thesis
    by (cases r; cases "f (projr r)") (auto simp: io_then_pair)
qed

lemma io_pure_eq [simp]: "io_pure r = (r', t) \<longleftrightarrow> r = r' \<and> t = []"
  by (auto simp: io_pure_def)

lemma js_map_defined: "js_map f v = Inr r \<Longrightarrow> \<exists>ys. r = Arr ys"
  by (auto simp: js_map_eq_Inr)

lemma orders_of_first_customer_Arr: "orders_of_first_customer data = Inr r \<Longrightarrow> \<exists>ys. r = Arr ys"
  by (auto simp: orders_of_first_customer_def Let_def and_then_eq_Inr js_map_eq_Inr split: if_splits)

lemma products_found_Obj: "products_found result = Inr r \<Longrightarrow> \<exists>ys. r = Obj [(''products'', Arr ys)]"
  by (auto simp: products_found_def and_then_eq_Inr js_map_eq_Inr)

lemma opt_map_eq_Inr:
  "opt_map f v = Inr r \<longleftrightarrow> (nullish v \<and> r = Undefined) \<or> (\<exists>xs ys. v = Arr xs \<and> r = Arr ys \<and> list_all2 (\<lambda>x y. f x = Inr y) xs ys)"
  by (auto simp: opt_map_def js_map_eq_Inr nullish_def)

lemma customers_found_Obj: "customers_found num result = Inr r \<Longrightarrow> \<exists>ys. r = Obj [(''customers'', Arr ys)]"
  by (auto simp: customers_found_def and_then_eq_Inr opt_map_eq_Inr js_or_def)

lemma products_listed_Obj: "products_listed result = Inr r \<Longrightarrow> \<exists>ys. r = Obj [(''products'', Arr ys)]"
  by (auto simp: products_listed_def and_then_eq_Inr opt_map_eq_Inr js_or_def)

lemma call_inherited_defined: "call_inherited n a = Inr r \<Longrightarrow> r \<noteq> Undefined"
  by (auto simp: call_inherited_def nullish_def split: if_splits js.splits)

lemma call_serverless_shape:
  "call_serverless env f a = (Inr d, t) \<Longrightarrow> f \<in> {FindProduct, GetCustomerOrders, GetProducts} \<Longrightarrow> \<exists>ys. d = Arr ys"
  by (auto simp: call_serverless_def findProduct_serverless_def getCustomerOrders_serverless_def
        getProducts_serverless_def products_of_data_def products_listed_of_data_def io_then_eq_Inr
      dest: js_map_defined orders_of_first_customer_Arr)

lemma call_standalone_shape:
  "call_standalone env f a = (Inr d, t) \<Longrightarrow> f \<in> {FindProduct, GetCustomerOrders, GetProducts} \<Longrightarrow>
   \<exists>k ys. d = Obj [(k, Arr ys)]"
  by (auto simp: call_standalone_def findProduct_standalone_def getCustomerOrders_standalone_def
        getProducts_standalone_def io_then_eq_Inr
      dest!: products_found_Obj customers_found_Obj products_listed_Obj)

lemma call_serverless_defined: "call_serverless env f a = (Inr d, t) \<Longrightarrow> d \<noteq> Undefined"
proof (cases f)
  case (Inherited n)
  assume "call_serverless env f a = (Inr d, t)"
  with Inherited show ?thesis by (auto simp: call_serverless_def dest: call_inherited_defined)
qed (auto dest: call_serverless_shape)

lemma call_standalone_defined: "call_standalone env f a = (Inr d, t) \<Longrightarrow> d \<noteq> Undefined"
proof (cases f)
  case (Inherited n)
  assume "call_standalone env f a = (Inr d, t)"
  with Inherited show ?thesis by (auto simp: call_standalone_def dest: call_inherited_defined)
qed (auto dest: call_standalone_shape)

lemma functionMap_catalog:
  "name \<in> set (map tool_name functions_serverless) \<Longrightarrow>
   functionMap name \<in> {Some FindProduct, Some GetCustomerOrders, Some GetProducts}"
  by (auto simp: functions_serverless_def functionMap_def)

lemma catalog_names_agree:
  "map tool_name functions_standalone = map tool_name functions_serverless"
  by (simp add: functions_standalone_def functions_serverless_def)

lemma functionMap_None:
  "functionMap name = None \<longleftrightarrow> name \<notin> set (map tool_name functions_serverless) \<and> name \<notin> set Object_prototype"
  by (simp add: functionMap_def functions_serverless_def)

lemma model_calls_simps [simp]:
  "model_calls [] = 0"
  "model_calls (ModelCall r # t) = Suc (model_calls t)"
  "model_calls (CommerceCall q # t) = model_calls t"
  "model_calls (t @ t') = model_calls t + model_calls t'"
  by (simp_all add: model_calls_def)

lemma commerce_calls_simps [simp]:
  "commerce_calls [] = 0"
  "commerce_calls (ModelCall r # t) = commerce_calls t"
  "commerce_calls (CommerceCall q # t) = Suc (commerce_calls t)"
  "commerce_calls (t @ t') = commerce_calls t + commerce_calls t'"
  by (simp_all add: commerce_calls_def)

section \<open>The scripted environments\<close>

lemma parse_table:
  "map_of table ''{}'' = Some (Obj [])"
  "map_of table [] = None"
  "map_of table ''{'' = None"
  by (simp_all add: table_def two_products_text_def no_products_text_def six_products_text_def
      one_customer_text_def no_customer_text_def two_customers_text_def throttled_text_def)

lemma parse_texts:
  "map_of table two_products_text = Some two_products"
  "map_of table no_products_text = Some no_products"
  "map_of table six_products_text = Some six_products"
  "map_of table one_customer_text = Some one_customer"
  "map_of table no_customer_text = Some no_customer"
  "map_of table two_customers_text = Some two_customers"
  "map_of table throttled_text = Some throttled"
  by (simp_all add: table_def two_products_text_def no_products_text_def six_products_text_def
      one_customer_text_def no_customer_text_def two_customers_text_def throttled_text_def)

lemma shop_simps [simp]:
  "req_functions r = None \<Longrightarrow> create (shop first commerce) r = says ''Here is what I found.''"
  "req_functions r = Some c \<Longrightarrow> create (shop first commerce) r = first"
  "fetch (shop first commerce) q = commerce"
  "JSON_parse (shop first commerce) = map_of table"
  "SHOPIFY_STORE (shop first commerce) = Some ''demo.myshopify.com''"
  "SHOPIFY_TOKEN (shop first commerce) = Some ''shpat_demo''"
  by (simp_all add: shop_def scripted_def)

lemma request_simps [simp]:
  "req_functions (first_request_serverless msg) = Some functions_serverless"
  "req_functions (first_request_standalone msg) = Some functions_standalone"
  "req_functions (second_request_serverless env msg m n d) = None"
  "req_functions (second_request_standalone env msg m n d) = None"
  by (simp_all add: first_request_serverless_def first_request_standalone_def
      second_request_serverless_def second_request_standalone_def)

lemma post_simps [simp]:
  "req_method (post msg) = ''POST''"
  "req_body (post msg) = Obj [(''message'', msg)]"
  by (simp_all add: post_def)

lemma two_listed_serverless:
  "getProducts_serverless (shop first (answers 200 two_products_text)) a =
     (Inr two_listed,
      [CommerceCall (graphql_request (shop first (answers 200 two_products_text))
                       getProducts_gql_serverless (Obj []))])"
  by (simp add: getProducts_serverless_def callShopify_serverless_def Let_def answers_def parse_texts
      two_products_def get_def nullish_def products_listed_of_data_def opt_get_def js_or_def
      listed_product_serverless_def obj_def io_pure_def two_listed_def)

lemma two_listed_standalone:
  "getProducts_standalone (shop first (answers 200 two_products_text)) a =
     (Inr two_listed_wrapped,
      [CommerceCall (graphql_request (shop first (answers 200 two_products_text))
                       getProducts_gql_standalone (Obj []))])"
  by (simp add: getProducts_standalone_def callShopify_standalone_def unset_def Let_def answers_def
      parse_texts two_products_def get_def nullish_def products_listed_def opt_get_def opt_map_def
      js_or_def listed_product_standalone_def obj_def io_pure_def two_listed_wrapped_def)

lemma catalog_names:
  "map tool_name functions_serverless = [''find_product'', ''get_customer_orders'', ''get_products'']"
  by (simp add: functions_serverless_def)

lemma functionMap_tools:
  "functionMap ''find_product'' = Some FindProduct"
  "functionMap ''get_customer_orders'' = Some GetCustomerOrders"
  "functionMap ''get_products'' = Some GetProducts"
  by (simp_all add: functionMap_def)

lemma parsedArgs_table:
  "parsedArgs_serverless (shop first commerce) ''{}'' = Inr (Obj [])"
  "parsedArgs_standalone (shop first commerce) ''{}'' = Inr (Obj [])"
  "parsedArgs_serverless (shop first commerce) [] = Inr (Obj [])"
  "parsedArgs_standalone (shop first commerce) [] = Inl (Error ''Failed to parse function arguments: '')"
  "parsedArgs_serverless (shop first commerce) ''{'' = Inl SyntaxError"
  "parsedArgs_standalone (shop first commerce) ''{'' = Inl (Error ''Failed to parse function arguments: {'')"
  by (simp_all add: parsedArgs_serverless_def parsedArgs_standalone_def parse_table)

lemma shop_stringify:
  "JSON_stringify (shop first commerce) v =
     (case find (\<lambda>(s, w). w = v) table of None \<Rightarrow> [] | Some (s, w) \<Rightarrow> s)"
  by (simp add: shop_def scripted_def)

lemma stringify_throttled:
  \<open>JSON_stringify (shop first commerce) (Arr [Obj [(''message'', Str ''Throttled'')]]) =
     ''[{"message":"Throttled"}]''\<close>
  by (simp add: shop_stringify table_def)

lemma refused_serverless:
  \<open>getProducts_serverless (shop first (answers 200 throttled_text)) a =
     (Inl (Error ''[{"message":"Throttled"}]''),
      [CommerceCall (graphql_request (shop first (answers 200 throttled_text))
                       getProducts_gql_serverless (Obj []))])\<close>
  by (simp add: getProducts_serverless_def callShopify_serverless_def Let_def answers_def parse_texts
      throttled_def get_def nullish_def stringify_throttled)

lemma refused_standalone:
  \<open>getProducts_standalone (shop first (answers 200 throttled_text)) a =
     (Inl (Error ''Shopify API error: [{"message":"Throttled"}]''),
      [CommerceCall (graphql_request (shop first (answers 200 throttled_text))
                       getProducts_gql_standalone (Obj []))])\<close>
  by (simp add: getProducts_standalone_def callShopify_standalone_def unset_def Let_def answers_def
      parse_texts throttled_def get_def nullish_def stringify_throttled)

lemma nominated_tool:
  "create (shop (nominates n args) commerce) (first_request_serverless msg) =
     Inr [\<lparr>content = None, function_call = Some \<lparr>fc_name = n, fc_arguments = args\<rparr>\<rparr>]"
  "create (shop (nominates n args) commerce) (first_request_standalone msg) =
     Inr [\<lparr>content = None, function_call = Some \<lparr>fc_name = n, fc_arguments = args\<rparr>\<rparr>]"
  by (simp_all add: nominates_def)

section \<open>Replies and data\<close>

lemma handler_no_tool:
  assumes "req_method req = ''POST''" "read_prop (req_body req) ''message'' = Str s" "s \<noteq> []"
    and "create env (first_request_serverless (Str s)) = Inr (m # ms)" "function_call m = None"
  shows "handler env req =
     (\<lparr>res_status = 200, res_json = Answer (Reply (content_value m))\<rparr>,
      [ModelCall (first_request_serverless (Str s))])"
  using assms by (simp add: handler_valid runAssistant_no_tool)

lemma handler_tool_ok:
  assumes "req_method req = ''POST''" "read_prop (req_body req) ''message'' = Str s" "s \<noteq> []"
    and "create env (first_request_serverless (Str s)) = Inr (m # ms)" "function_call m = Some fc"
    and "parsedArgs_serverless env (fc_arguments fc) = Inr a"
    and "functionMap (fc_name fc) = Some f"
    and "call_serverless env f a = (Inr d, t)"
    and "create env (second_request_serverless env (Str s) m (fc_name fc) d) = Inr (m2 # ms2)"
  shows "handler env req =
     (\<lparr>res_status = 200, res_json = Answer (ReplyData (content_value m2) d)\<rparr>,
      ModelCall (first_request_serverless (Str s)) # t @
      [ModelCall (second_request_serverless env (Str s) m (fc_name fc) d)])"
  using assms by (simp add: handler_valid runAssistant_tool)

lemma handler_tool_200:
  assumes "req_method req = ''POST''" "read_prop (req_body req) ''message'' = Str s" "s \<noteq> []"
    and "create env (first_request_serverless (Str s)) = Inr (m # ms)" "function_call m = Some fc"
    and "res_status (fst (handler env req)) = 200"
  shows "\<exists>a f d t m2 ms2.
           parsedArgs_serverless env (fc_arguments fc) = Inr a \<and>
           functionMap (fc_name fc) = Some f \<and>
           call_serverless env f a = (Inr d, t) \<and>
           create env (second_request_serverless env (Str s) m (fc_name fc) d) = Inr (m2 # ms2) \<and>
           handler env req =
             (\<lparr>res_status = 200, res_json = Answer (ReplyData (content_value m2) d)\<rparr>,
              ModelCall (first_request_serverless (Str s)) # t @
              [ModelCall (second_request_serverless env (Str s) m (fc_name fc) d)])"
proof -
  from assms obtain a where a: "parsedArgs_serverless env (fc_arguments fc) = Inr a"
    by (cases "parsedArgs_serverless env (fc_arguments fc)") (auto simp: handler_valid runAssistant_tool)
  from assms a obtain f where f: "functionMap (fc_name fc) = Some f"
    by (cases "functionMap (fc_name fc)") (auto simp: handler_valid runAssistant_tool)
  obtain r t where rt: "call_serverless env f a = (r, t)"
    by (cases "call_serverless env f a")
  from assms a f rt obtain d where d: "r = Inr d"
    by (cases r) (auto simp: handler_valid runAssistant_tool)
  from assms a f rt d obtain m2 ms2
    where "create env (second_request_serverless env (Str s) m (fc_name fc) d) = Inr (m2 # ms2)"
    by (cases "create env (second_request_serverless env (Str s) m (fc_name fc) d)";
        cases "projr (create env (second_request_serverless env (Str s) m (fc_name fc) d))")
       (auto simp: handler_valid runAssistant_tool)
  with assms a f rt d show ?thesis
    by (auto simp: handler_valid runAssistant_tool)
qed

lemma runAssistant_bounds:
  "commerce_calls (snd (runAssistant env msg)) \<le> 1 \<and> model_calls (snd (runAssistant env msg)) \<le> 2"
proof (cases "create env (first_request_serverless msg)")
  case (Inl e)
  then show ?thesis by (simp add: runAssistant_create_fails)
next
  case (Inr choices)
  show ?thesis
  proof (cases choices)
    case Nil
    with Inr show ?thesis
      by (simp add: runAssistant_def chat_completions_create_def)
  next
    case (Cons m ms)
    show ?thesis
    proof (cases "function_call m")
      case None
      with Inr Cons show ?thesis by (simp add: runAssistant_no_tool)
    next
      case (Some fc)
      with Inr Cons show ?thesis
        by (auto simp: runAssistant_tool split: sum.splits option.splits prod.splits
            dest!: call_serverless_trace)
    qed
  qed
qed

lemma snd_io_then_pure: "snd (io_then m (\<lambda>x. io_pure (g x))) = snd m"
  by (cases m; cases "fst m") (auto simp: io_pure_def)

lemma snd_io_pure: "snd (io_pure r) = []"
  by (simp add: io_pure_def)

lemma handler_trace:
  "snd (handler env req) = [] \<or> (\<exists>msg. snd (handler env req) = snd (runAssistant env msg))"
proof -
  have "snd (handler env req) = snd (handler_try env req)"
    by (cases "handler_try env req"; cases "fst (handler_try env req)") (auto simp: handler_def)
  moreover have "snd (handler_try env req) = [] \<or> (\<exists>msg. snd (handler_try env req) = snd (runAssistant env msg))"
    by (auto simp: handler_try_def get_def snd_io_then_pure snd_io_pure)
  ultimately show ?thesis by simp
qed

lemma handler_bounds:
  "commerce_calls (snd (handler env req)) \<le> 1 \<and> model_calls (snd (handler env req)) \<le> 2"
  using handler_trace [of env req] runAssistant_bounds by auto

lemma chat_no_tool:
  assumes "truthy (opt_get posted ''message'')"
    and "create env (first_request_standalone (opt_get posted ''message'')) = Inr (m # ms)"
    and "function_call m = None"
  shows "chat env posted =
     (\<lparr>res_status = 200, res_json = Answer (Reply (content_value m))\<rparr>,
      [ModelCall (first_request_standalone (opt_get posted ''message''))])"
  using assms by (simp add: chat_valid chat_try_no_tool)

lemma chat_tool_ok:
  assumes "truthy (opt_get posted ''message'')"
    and "create env (first_request_standalone (opt_get posted ''message'')) = Inr (m # ms)"
    and "function_call m = Some fc"
    and "parsedArgs_standalone env (fc_arguments fc) = Inr a"
    and "functionMap (fc_name fc) = Some f"
    and "call_standalone env f a = (Inr d, t)"
    and "create env (second_request_standalone env (opt_get posted ''message'') m (fc_name fc) d) = Inr (m2 # ms2)"
  shows "chat env posted =
     (\<lparr>res_status = 200, res_json = Answer (ReplyData (content_value m2) d)\<rparr>,
      ModelCall (first_request_standalone (opt_get posted ''message'')) # t @
      [ModelCall (second_request_standalone env (opt_get posted ''message'') m (fc_name fc) d)])"
  using assms by (simp add: chat_valid chat_try_tool lookup_standalone_def)

lemma chat_try_status:
  "chat_try env msg = (Inr res, t) \<Longrightarrow> res_status res = 200"
  by (auto simp: chat_try_def io_then_eq_Inr Let_def split: option.splits)

lemma chat_tool_200:
  assumes "truthy (opt_get posted ''message'')"
    and "create env (first_request_standalone (opt_get posted ''message'')) = Inr (m # ms)"
    and "function_call m = Some fc"
    and "res_status (fst (chat env posted)) = 200"
  shows "\<exists>a f d t m2 ms2.
           parsedArgs_standalone env (fc_arguments fc) = Inr a \<and>
           functionMap (fc_name fc) = Some f \<and>
           call_standalone env f a = (Inr d, t) \<and>
           create env (second_request_standalone env (opt_get posted ''message'') m (fc_name fc) d) = Inr (m2 # ms2) \<and>
           chat env posted =
             (\<lparr>res_status = 200, res_json = Answer (ReplyData (content_value m2) d)\<rparr>,
              ModelCall (first_request_standalone (opt_get posted ''message'')) # t @
              [ModelCall (second_request_standalone env (opt_get posted ''message'') m (fc_name fc) d)])"
proof -
  let ?msg = "opt_get posted ''message''"
  from assms obtain a where a: "parsedArgs_standalone env (fc_arguments fc) = Inr a"
    by (cases "parsedArgs_standalone env (fc_arguments fc)") (auto simp: chat_valid chat_try_tool)
  from assms a obtain f where f: "functionMap (fc_name fc) = Some f"
    by (cases "functionMap (fc_name fc)") (auto simp: chat_valid chat_try_tool lookup_standalone_def)
  obtain r t where rt: "call_standalone env f a = (r, t)"
    by (cases "call_standalone env f a")
  from assms a f rt obtain d where d: "r = Inr d"
    by (cases r) (auto simp: chat_valid chat_try_tool lookup_standalone_def)
  from assms a f rt d obtain m2 ms2
    where "create env (second_request_standalone env ?msg m (fc_name fc) d) = Inr (m2 # ms2)"
    by (cases "create env (second_request_standalone env ?msg m (fc_name fc) d)";
        cases "projr (create env (second_request_standalone env ?msg m (fc_name fc) d))")
       (auto simp: chat_valid chat_try_tool lookup_standalone_def)
  with assms a f rt d show ?thesis
    by (auto simp: chat_valid chat_try_tool lookup_standalone_def)
qed

lemma chat_try_create_fails:
  assumes "create env (first_request_standalone msg) = Inl e"
  shows "chat_try env msg = (Inl e, [ModelCall (first_request_standalone msg)])"
  using assms by (simp add: chat_try_def chat_completions_create_def)

lemma chat_try_bounds:
  "commerce_calls (snd (chat_try env msg)) \<le> 1 \<and> model_calls (snd (chat_try env msg)) \<le> 2"
proof (cases "create env (first_request_standalone msg)")
  case (Inl e)
  then show ?thesis by (simp add: chat_try_create_fails)
next
  case (Inr choices)
  show ?thesis
  proof (cases choices)
    case Nil
    with Inr show ?thesis
      by (simp add: chat_try_def chat_completions_create_def)
  next
    case (Cons m ms)
    show ?thesis
    proof (cases "function_call m")
      case None
      with Inr Cons show ?thesis by (simp add: chat_try_no_tool)
    next
      case (Some fc)
      with Inr Cons show ?thesis
        by (auto simp: chat_try_tool split: sum.splits option.splits prod.splits
            dest!: call_standalone_trace)
    qed
  qed
qed

lemma chat_bounds:
  "commerce_calls (snd (chat env posted)) \<le> 1 \<and> model_calls (snd (chat env posted)) \<le> 2"
proof -
  have "snd (chat env posted) = [] \<or>
        snd (chat env posted) = snd (chat_try env (opt_get posted ''message''))"
    by (cases "chat_try env (opt_get posted ''message'')";
        cases "fst (chat_try env (opt_get posted ''message''))")
       (auto simp: chat_def Let_def)
  then show ?thesis using chat_try_bounds [of env "opt_get posted ''message''"] by auto
qed

lemma known_tool:
  assumes "n \<in> set (map tool_name functions_serverless)" "functionMap n = Some f"
  shows "f \<in> {FindProduct, GetCustomerOrders, GetProducts}"
  using functionMap_catalog [OF assms(1)] assms(2) by auto

lemma handler_known_200:
  assumes v: "req_method req = ''POST''" "read_prop (req_body req) ''message'' = Str s" "s \<noteq> []"
    and c: "create env (first_request_serverless (Str s)) = Inr (m # ms)"
    and fc: "function_call m = Some fc"
    and k: "fc_name fc \<in> set (map tool_name functions_serverless)"
    and ok: "res_status (fst (handler env req)) = 200"
  shows "model_calls (snd (handler env req)) = 2 \<and> commerce_calls (snd (handler env req)) = 1"
proof -
  from handler_tool_200 [OF v c fc ok] obtain a0 f0 d0 t0 m0 ms0 where
    *: "functionMap (fc_name fc) = Some f0" "call_serverless env f0 a0 = (Inr d0, t0)"
       "handler env req =
         (\<lparr>res_status = 200, res_json = Answer (ReplyData (content_value m0) d0)\<rparr>,
          ModelCall (first_request_serverless (Str s)) # t0 @
          [ModelCall (second_request_serverless env (Str s) m (fc_name fc) d0)])"
    by blast
  from call_serverless_ok_trace [OF *(2) known_tool [OF k *(1)]]
  obtain q where "t0 = [CommerceCall q]" by blast
  with *(3) show ?thesis by simp
qed

lemma handler_data_iff:
  assumes v: "req_method req = ''POST''" "read_prop (req_body req) ''message'' = Str s" "s \<noteq> []"
    and c: "create env (first_request_serverless (Str s)) = Inr (m # ms)"
    and ok: "res_status (fst (handler env req)) = 200"
  shows "has_data (fst (handler env req)) \<longleftrightarrow> function_call m \<noteq> None"
proof (cases "function_call m")
  case None
  with handler_no_tool [OF v c] show ?thesis by (simp add: has_data_def)
next
  case (Some fc0)
  with handler_tool_200 [OF v c Some ok] call_serverless_defined show ?thesis
    by (auto simp: has_data_def)
qed

lemma chat_known_200:
  assumes v: "truthy (opt_get posted ''message'')"
    and c: "create env (first_request_standalone (opt_get posted ''message'')) = Inr (m # ms)"
    and fc: "function_call m = Some fc"
    and k: "fc_name fc \<in> set (map tool_name functions_standalone)"
    and ok: "res_status (fst (chat env posted)) = 200"
  shows "model_calls (snd (chat env posted)) = 2 \<and> commerce_calls (snd (chat env posted)) = 1"
proof -
  from chat_tool_200 [OF v c fc ok] obtain a0 f0 d0 t0 m0 ms0 where
    *: "functionMap (fc_name fc) = Some f0" "call_standalone env f0 a0 = (Inr d0, t0)"
       "chat env posted =
         (\<lparr>res_status = 200, res_json = Answer (ReplyData (content_value m0) d0)\<rparr>,
          ModelCall (first_request_standalone (opt_get posted ''message'')) # t0 @
          [ModelCall (second_request_standalone env (opt_get posted ''message'') m (fc_name fc) d0)])"
    by blast
  from k have "fc_name fc \<in> set (map tool_name functions_serverless)"
    by (simp only: catalog_names_agree)
  from call_standalone_ok_trace [OF *(2) known_tool [OF this *(1)]]
  obtain q where "t0 = [CommerceCall q]" by blast
  with *(3) show ?thesis by simp
qed

lemma chat_data_iff:
  assumes v: "truthy (opt_get posted ''message'')"
    and c: "create env (first_request_standalone (opt_get posted ''message'')) = Inr (m # ms)"
    and ok: "res_status (fst (chat env posted)) = 200"
  shows "has_data (fst (chat env posted)) \<longleftrightarrow> function_call m \<noteq> None"
proof (cases "function_call m")
  case None
  with chat_no_tool [OF v c] show ?thesis by (simp add: has_data_def)
next
  case (Some fc0)
  with chat_tool_200 [OF v c Some ok] call_standalone_defined show ?thesis
    by (auto simp: has_data_def)
qed

lemma known_call_once:
  assumes "fc_name fc \<in> set (map tool_name functions_serverless)" "functionMap (fc_name fc) = Some f"
  shows "call_serverless env f a = (Inr d, t) \<Longrightarrow> commerce_calls t = 1"
    and "call_standalone env f a = (Inr d, t) \<Longrightarrow> commerce_calls t = 1"
  using call_serverless_ok_trace [of env f a d t] call_standalone_ok_trace [of env f a d t]
    known_tool [OF assms] by auto

text \<open>
  C1, as amended. In both files: when the first model response carries no tool invocation,
  the turn makes exactly one model call and answers \<^verbatim>\<open>{reply}\<close>. When it nominates a tool
  of the catalog, the argument string parses, the tool returns a result and the model
  answers the second call, the turn answers \<^verbatim>\<open>{reply, data}\<close> with the tool's result, after
  the first model call, the tool's one commerce call and the second model call; and every
  turn that nominated a catalog tool and ended with status 200 made exactly two model calls
  and one commerce call. A turn that ends with status 200 carries a \<^verbatim>\<open>data\<close> field exactly
  when the first model response nominated a tool. No turn makes more than one commerce call
  or more than two model calls.
\<close>

theorem turn_reply_and_data:
  "(req_method req = ''POST'' \<and> read_prop (req_body req) ''message'' = Str s \<and> s \<noteq> [] \<and>
    create env (first_request_serverless (Str s)) = Inr (m # ms) \<longrightarrow>
      (function_call m = None \<longrightarrow>
         handler env req =
           (\<lparr>res_status = 200, res_json = Answer (Reply (content_value m))\<rparr>,
            [ModelCall (first_request_serverless (Str s))])) \<and>
      (function_call m = Some fc \<and> fc_name fc \<in> set (map tool_name functions_serverless) \<and>
       parsedArgs_serverless env (fc_arguments fc) = Inr a \<and>
       functionMap (fc_name fc) = Some f \<and> call_serverless env f a = (Inr d, t) \<and>
       create env (second_request_serverless env (Str s) m (fc_name fc) d) = Inr (m2 # ms2) \<longrightarrow>
         handler env req =
           (\<lparr>res_status = 200, res_json = Answer (ReplyData (content_value m2) d)\<rparr>,
            ModelCall (first_request_serverless (Str s)) # t @
            [ModelCall (second_request_serverless env (Str s) m (fc_name fc) d)]) \<and>
         commerce_calls t = 1) \<and>
      (function_call m = Some fc \<and> fc_name fc \<in> set (map tool_name functions_serverless) \<and>
       res_status (fst (handler env req)) = 200 \<longrightarrow>
         model_calls (snd (handler env req)) = 2 \<and> commerce_calls (snd (handler env req)) = 1) \<and>
      (res_status (fst (handler env req)) = 200 \<longrightarrow>
         (has_data (fst (handler env req)) \<longleftrightarrow> function_call m \<noteq> None))) \<and>
   (truthy (opt_get posted ''message'') \<and>
    create env (first_request_standalone (opt_get posted ''message'')) = Inr (m' # ms') \<longrightarrow>
      (function_call m' = None \<longrightarrow>
         chat env posted =
           (\<lparr>res_status = 200, res_json = Answer (Reply (content_value m'))\<rparr>,
            [ModelCall (first_request_standalone (opt_get posted ''message''))])) \<and>
      (function_call m' = Some fc' \<and> fc_name fc' \<in> set (map tool_name functions_standalone) \<and>
       parsedArgs_standalone env (fc_arguments fc') = Inr a' \<and>
       functionMap (fc_name fc') = Some f' \<and> call_standalone env f' a' = (Inr d', t') \<and>
       create env (second_request_standalone env (opt_get posted ''message'') m' (fc_name fc') d')
         = Inr (m2' # ms2') \<longrightarrow>
         chat env posted =
           (\<lparr>res_status = 200, res_json = Answer (ReplyData (content_value m2') d')\<rparr>,
            ModelCall (first_request_standalone (opt_get posted ''message'')) # t' @
            [ModelCall (second_request_standalone env (opt_get posted ''message'') m' (fc_name fc') d')]) \<and>
         commerce_calls t' = 1) \<and>
      (function_call m' = Some fc' \<and> fc_name fc' \<in> set (map tool_name functions_standalone) \<and>
       res_status (fst (chat env posted)) = 200 \<longrightarrow>
         model_calls (snd (chat env posted)) = 2 \<and> commerce_calls (snd (chat env posted)) = 1) \<and>
      (res_status (fst (chat env posted)) = 200 \<longrightarrow>
         (has_data (fst (chat env posted)) \<longleftrightarrow> function_call m' \<noteq> None))) \<and>
   commerce_calls (snd (handler env req)) \<le> 1 \<and> model_calls (snd (handler env req)) \<le> 2 \<and>
   commerce_calls (snd (chat env posted)) \<le> 1 \<and> model_calls (snd (chat env posted)) \<le> 2"
  (is "?S \<and> ?T \<and> ?B")
proof (intro conjI)
  show ?S
    using handler_no_tool [of req s env m ms]
      handler_tool_ok [of req s env m ms fc a f d t m2 ms2]
      known_call_once(1) [of fc f env a d t]
      handler_known_200 [of req s env m ms fc]
      handler_data_iff [of req s env m ms]
    by blast
  show ?T
    using chat_no_tool [of posted env m' ms']
      chat_tool_ok [of posted env m' ms' fc' a' f' d' t' m2' ms2']
      known_call_once(2) [of fc' f' env a' d' t']
      chat_known_200 [of posted env m' ms' fc']
      chat_data_iff [of posted env m' ms']
    unfolding catalog_names_agree
    by blast
  show "commerce_calls (snd (handler env req)) \<le> 1" "model_calls (snd (handler env req)) \<le> 2"
    using handler_bounds [of env req] by simp_all
  show "commerce_calls (snd (chat env posted)) \<le> 1" "model_calls (snd (chat env posted)) \<le> 2"
    using chat_bounds [of env posted] by simp_all
qed

text \<open>
  The theorem at two scripted shops: a greeting the model answers itself, and a question for
  which it asks for the product list.
\<close>

theorem turn_reply_and_data_witness:
  "handler greeting (post (Str ''hello'')) =
     (\<lparr>res_status = 200, res_json = Answer (Reply (Str ''Hello! How can I help?''))\<rparr>,
      [ModelCall (first_request_serverless (Str ''hello''))]) \<and>
   chat greeting (Obj [(''message'', Str ''hello'')]) =
     (\<lparr>res_status = 200, res_json = Answer (Reply (Str ''Hello! How can I help?''))\<rparr>,
      [ModelCall (first_request_standalone (Str ''hello''))]) \<and>
   fst (handler listing (post (Str ''what do you sell?''))) =
     \<lparr>res_status = 200, res_json = Answer (ReplyData (Str ''Here is what I found.'') two_listed)\<rparr> \<and>
   model_calls (snd (handler listing (post (Str ''what do you sell?'')))) = 2 \<and>
   commerce_calls (snd (handler listing (post (Str ''what do you sell?'')))) = 1 \<and>
   has_data (fst (handler listing (post (Str ''what do you sell?'')))) \<and>
   fst (chat listing (Obj [(''message'', Str ''what do you sell?'')])) =
     \<lparr>res_status = 200,
      res_json = Answer (ReplyData (Str ''Here is what I found.'') two_listed_wrapped)\<rparr> \<and>
   model_calls (snd (chat listing (Obj [(''message'', Str ''what do you sell?'')]))) = 2 \<and>
   commerce_calls (snd (chat listing (Obj [(''message'', Str ''what do you sell?'')]))) = 1 \<and>
   has_data (fst (chat listing (Obj [(''message'', Str ''what do you sell?'')])))"
proof -
  let ?hello = "\<lparr>content = Some ''Hello! How can I help?'', function_call = None\<rparr>"
  let ?fc = "\<lparr>fc_name = ''get_products'', fc_arguments = ''{}''\<rparr>"
  let ?ask = "\<lparr>content = None, function_call = Some ?fc\<rparr>"
  let ?final = "\<lparr>content = Some ''Here is what I found.'', function_call = None\<rparr>"
  let ?q1 = "[CommerceCall (graphql_request listing getProducts_gql_serverless (Obj []))]"
  let ?q2 = "[CommerceCall (graphql_request listing getProducts_gql_standalone (Obj []))]"
  note quiet = turn_reply_and_data [of "post (Str ''hello'')" "''hello''" greeting ?hello "[]"
      ?fc "Obj []" GetProducts two_listed ?q1 ?final "[]"
      "Obj [(''message'', Str ''hello'')]" ?hello "[]"
      ?fc "Obj []" GetProducts two_listed_wrapped ?q2 ?final "[]"]
  note tool = turn_reply_and_data [of "post (Str ''what do you sell?'')" "''what do you sell?''"
      listing ?ask "[]" ?fc "Obj []" GetProducts two_listed ?q1 ?final "[]"
      "Obj [(''message'', Str ''what do you sell?'')]" ?ask "[]"
      ?fc "Obj []" GetProducts two_listed_wrapped ?q2 ?final "[]"]
  have h1: "create greeting (first_request_serverless (Str ''hello'')) = Inr [?hello]"
    "create greeting (first_request_standalone (Str ''hello'')) = Inr [?hello]"
    by (simp_all add: greeting_def says_def)
  have h2: "create listing (first_request_serverless (Str ''what do you sell?'')) = Inr [?ask]"
    "create listing (first_request_standalone (Str ''what do you sell?'')) = Inr [?ask]"
    "create listing (second_request_serverless listing (Str ''what do you sell?'') ?ask ''get_products'' two_listed) = Inr [?final]"
    "create listing (second_request_standalone listing (Str ''what do you sell?'') ?ask ''get_products'' two_listed_wrapped) = Inr [?final]"
    by (simp_all add: listing_def nominates_def says_def)
  have h3: "call_serverless listing GetProducts (Obj []) = (Inr two_listed, ?q1)"
    "call_standalone listing GetProducts (Obj []) = (Inr two_listed_wrapped, ?q2)"
    by (simp_all add: call_serverless_def call_standalone_def listing_def
        two_listed_serverless two_listed_standalone)
  have h4: "parsedArgs_serverless listing ''{}'' = Inr (Obj [])"
    "parsedArgs_standalone listing ''{}'' = Inr (Obj [])"
    by (simp_all add: listing_def parsedArgs_table)
  have h5: "opt_get (Obj [(''message'', Str x)]) ''message'' = Str x" for x
    by (simp add: opt_get_def nullish_def)
  from quiet h1 have a: "handler greeting (post (Str ''hello'')) =
     (\<lparr>res_status = 200, res_json = Answer (Reply (Str ''Hello! How can I help?''))\<rparr>,
      [ModelCall (first_request_serverless (Str ''hello''))])"
    "chat greeting (Obj [(''message'', Str ''hello'')]) =
     (\<lparr>res_status = 200, res_json = Answer (Reply (Str ''Hello! How can I help?''))\<rparr>,
      [ModelCall (first_request_standalone (Str ''hello''))])"
    by (simp_all add: h5 content_value_def)
  from tool h2 h3 h4 have b: "handler listing (post (Str ''what do you sell?'')) =
     (\<lparr>res_status = 200, res_json = Answer (ReplyData (Str ''Here is what I found.'') two_listed)\<rparr>,
      ModelCall (first_request_serverless (Str ''what do you sell?'')) # ?q1 @
      [ModelCall (second_request_serverless listing (Str ''what do you sell?'') ?ask ''get_products'' two_listed)])"
    "chat listing (Obj [(''message'', Str ''what do you sell?'')]) =
     (\<lparr>res_status = 200, res_json = Answer (ReplyData (Str ''Here is what I found.'') two_listed_wrapped)\<rparr>,
      ModelCall (first_request_standalone (Str ''what do you sell?'')) # ?q2 @
      [ModelCall (second_request_standalone listing (Str ''what do you sell?'') ?ask ''get_products'' two_listed_wrapped)])"
    by (simp_all add: h5 content_value_def functionMap_tools catalog_names catalog_names_agree)
  from a b show ?thesis
    by (simp add: has_data_def two_listed_def two_listed_wrapped_def)
qed

text \<open>
  Without the amendment the statement fails: here the first model response nominates
  \<^verbatim>\<open>get_products\<close>, the commerce platform answers with an errors list, and the turn ends
  with status 500 after one model call, with no \<^verbatim>\<open>data\<close> field.
\<close>

theorem tool_failure_counterexample:
  \<open>create refused (first_request_serverless (Str ''what do you sell?'')) =
     nominates ''get_products'' ''{}'' \<and>
   ''get_products'' \<in> set (map tool_name functions_serverless) \<and>
   handler refused (post (Str ''what do you sell?'')) =
     (\<lparr>res_status = 500, res_json = ErrorMessage (Error ''[{"message":"Throttled"}]'')\<rparr>,
      [ModelCall (first_request_serverless (Str ''what do you sell?'')),
       CommerceCall (graphql_request refused getProducts_gql_serverless (Obj []))]) \<and>
   \<not> has_data (fst (handler refused (post (Str ''what do you sell?'')))) \<and>
   model_calls (snd (handler refused (post (Str ''what do you sell?'')))) = 1\<close>
proof -
  let ?fc = "\<lparr>fc_name = ''get_products'', fc_arguments = ''{}''\<rparr>"
  let ?ask = "\<lparr>content = None, function_call = Some ?fc\<rparr>"
  have c: "create refused (first_request_serverless (Str ''what do you sell?'')) = Inr [?ask]"
    by (simp add: refused_def nominated_tool)
  have p: "parsedArgs_serverless refused ''{}'' = Inr (Obj [])"
    by (simp add: refused_def parsedArgs_table)
  have t: \<open>call_serverless refused GetProducts (Obj []) =
     (Inl (Error ''[{"message":"Throttled"}]''),
      [CommerceCall (graphql_request refused getProducts_gql_serverless (Obj []))])\<close>
    by (simp add: call_serverless_def refused_def refused_serverless)
  have r: \<open>runAssistant refused (Str ''what do you sell?'') =
     (Inl (Error ''[{"message":"Throttled"}]''),
      [ModelCall (first_request_serverless (Str ''what do you sell?'')),
       CommerceCall (graphql_request refused getProducts_gql_serverless (Obj []))])\<close>
    using runAssistant_tool [OF c, of ?fc] by (simp add: p t functionMap_tools)
  have h: "handler refused (post (Str ''what do you sell?'')) =
     (case runAssistant refused (Str ''what do you sell?'') of
        (Inr a, t) \<Rightarrow> (\<lparr>res_status = 200, res_json = Answer a\<rparr>, t)
      | (Inl e, t) \<Rightarrow> (\<lparr>res_status = 500, res_json = ErrorMessage e\<rparr>, t))"
    by (rule handler_valid) simp_all
  show ?thesis
    unfolding h r using c by (simp add: has_data_def catalog_names nominates_def)
qed

section \<open>Tools outside the catalog\<close>

lemma handler_unknown:
  assumes "req_method req = ''POST''" "read_prop (req_body req) ''message'' = Str s" "s \<noteq> []"
    and "create env (first_request_serverless (Str s)) = Inr (m # ms)" "function_call m = Some fc"
    and "functionMap (fc_name fc) = None"
    and "parsedArgs_serverless env (fc_arguments fc) = Inr a"
  shows "handler env req =
     (\<lparr>res_status = 500, res_json = ErrorMessage TypeError\<rparr>,
      [ModelCall (first_request_serverless (Str s))])"
  using assms by (simp add: handler_valid runAssistant_tool)

lemma chat_unknown:
  assumes "truthy (opt_get posted ''message'')"
    and "create env (first_request_standalone (opt_get posted ''message'')) = Inr (m # ms)"
    and "function_call m = Some fc"
    and "functionMap (fc_name fc) = None"
    and "parsedArgs_standalone env (fc_arguments fc) = Inr a"
  shows "chat env posted =
     (\<lparr>res_status = 500,
       res_json = ErrorMessage (Error (''Function '' @ fc_name fc @ '' is not implemented.''))\<rparr>,
      [ModelCall (first_request_standalone (opt_get posted ''message''))])"
  using assms by (simp add: chat_valid chat_try_tool lookup_standalone_def)

lemma outside_catalog:
  assumes "n \<notin> set (map tool_name functions_serverless)" "functionMap n = Some f"
  shows "\<exists>k. f = Inherited k"
  using assms by (auto simp: functionMap_def catalog_names split: if_splits)

lemma runAssistant_outside_catalog:
  assumes "create env (first_request_serverless msg) = Inr (m # ms)" "function_call m = Some fc"
    and "fc_name fc \<notin> set (map tool_name functions_serverless)"
  shows "commerce_calls (snd (runAssistant env msg)) = 0"
proof (cases "functionMap (fc_name fc)")
  case None
  with assms show ?thesis
    by (auto simp: runAssistant_tool split: sum.splits)
next
  case (Some f)
  from outside_catalog [OF assms(3) Some] obtain k where "f = Inherited k" by blast
  with assms Some show ?thesis
    by (auto simp: runAssistant_tool call_inherited_trace split: sum.splits prod.splits)
qed

lemma chat_try_outside_catalog:
  assumes "create env (first_request_standalone msg) = Inr (m # ms)" "function_call m = Some fc"
    and "fc_name fc \<notin> set (map tool_name functions_standalone)"
  shows "commerce_calls (snd (chat_try env msg)) = 0"
proof (cases "functionMap (fc_name fc)")
  case None
  with assms show ?thesis
    by (auto simp: chat_try_tool lookup_standalone_def split: sum.splits)
next
  case (Some f)
  from assms(3) have "fc_name fc \<notin> set (map tool_name functions_serverless)"
    unfolding catalog_names_agree .
  from outside_catalog [OF this Some] obtain k where "f = Inherited k" by blast
  with assms Some show ?thesis
    by (auto simp: chat_try_tool lookup_standalone_def call_inherited_trace
        split: sum.splits prod.splits)
qed

lemma handler_outside_catalog:
  assumes "req_method req = ''POST''" "read_prop (req_body req) ''message'' = Str s" "s \<noteq> []"
    and "create env (first_request_serverless (Str s)) = Inr (m # ms)" "function_call m = Some fc"
    and "fc_name fc \<notin> set (map tool_name functions_serverless)"
  shows "commerce_calls (snd (handler env req)) = 0"
proof -
  have "snd (handler env req) = snd (runAssistant env (Str s))"
    using assms(1-3)
    by (cases "runAssistant env (Str s)"; cases "fst (runAssistant env (Str s))")
       (simp_all add: handler_valid)
  with runAssistant_outside_catalog [OF assms(4-6)] show ?thesis by simp
qed

lemma chat_outside_catalog:
  assumes "truthy (opt_get posted ''message'')"
    and "create env (first_request_standalone (opt_get posted ''message'')) = Inr (m # ms)"
    and "function_call m = Some fc"
    and "fc_name fc \<notin> set (map tool_name functions_standalone)"
  shows "commerce_calls (snd (chat env posted)) = 0"
proof -
  have "snd (chat env posted) = snd (chat_try env (opt_get posted ''message''))"
    using assms(1)
    by (cases "chat_try env (opt_get posted ''message'')";
        cases "fst (chat_try env (opt_get posted ''message''))")
       (simp_all add: chat_valid)
  with chat_try_outside_catalog [OF assms(2-4)] show ?thesis by simp
qed

lemma functionMap_unknown:
  assumes "n \<notin> set (map tool_name functions_serverless)" "n \<notin> set Object_prototype"
  shows "functionMap n = None"
  using assms by (simp add: functionMap_None)

text \<open>
  A name for which the function table has no property at all, neither one of the three
  tools nor one inherited from the object prototype, with an argument string that parses:
  the turn fails with status 500 after the first model call alone. index.js reports that
  the function is not implemented; api/chat.js, which has no check of the lookup, fails
  with the TypeError of calling \<^verbatim>\<open>undefined\<close>. Whatever the name outside the catalog, and
  whatever the arguments, no commerce call is made.
\<close>

lemma name_without_property_fails:
  "(req_method req = ''POST'' \<and> read_prop (req_body req) ''message'' = Str s \<and> s \<noteq> [] \<and>
    create env (first_request_serverless (Str s)) = Inr (m # ms) \<and>
    function_call m = Some fc \<and> fc_name fc \<notin> set (map tool_name functions_serverless) \<longrightarrow>
      (fc_name fc \<notin> set Object_prototype \<and>
       parsedArgs_serverless env (fc_arguments fc) = Inr a \<longrightarrow>
         handler env req =
           (\<lparr>res_status = 500, res_json = ErrorMessage TypeError\<rparr>,
            [ModelCall (first_request_serverless (Str s))])) \<and>
      commerce_calls (snd (handler env req)) = 0) \<and>
   (truthy (opt_get posted ''message'') \<and>
    create env (first_request_standalone (opt_get posted ''message'')) = Inr (m' # ms') \<and>
    function_call m' = Some fc' \<and> fc_name fc' \<notin> set (map tool_name functions_standalone) \<longrightarrow>
      (fc_name fc' \<notin> set Object_prototype \<and>
       parsedArgs_standalone env (fc_arguments fc') = Inr a' \<longrightarrow>
         chat env posted =
           (\<lparr>res_status = 500,
             res_json = ErrorMessage (Error (''Function '' @ fc_name fc' @ '' is not implemented.''))\<rparr>,
            [ModelCall (first_request_standalone (opt_get posted ''message''))])) \<and>
      commerce_calls (snd (chat env posted)) = 0)"
  (is "?S \<and> ?T")
proof (intro conjI)
  show ?S
    by (intro impI conjI; elim conjE)
       ((rule handler_unknown; (assumption | (rule functionMap_unknown; assumption))),
        (rule handler_outside_catalog; assumption))
  show ?T
    unfolding catalog_names_agree
    by (intro impI conjI; elim conjE)
       ((rule chat_unknown; (assumption | (rule functionMap_unknown; assumption))),
        (rule chat_outside_catalog; (assumption | (simp only: catalog_names_agree))))
qed

lemma opt_get_message [simp]: "opt_get (Obj [(''message'', v)]) ''message'' = v"
  by (simp add: opt_get_def nullish_def)

lemma not_in_catalog:
  "''refund_order'' \<notin> set (map tool_name functions_serverless)"
  "''refund_order'' \<notin> set (map tool_name functions_standalone)"
  "''refund_order'' \<notin> set Object_prototype"
  by (simp_all add: catalog_names catalog_names_agree Object_prototype_def)

text \<open>At a shop whose model asks for \<^verbatim>\<open>refund_order\<close>, both files fail the turn.\<close>

lemma refund_order_fails:
  "handler inventive (post (Str ''refund my order'')) =
     (\<lparr>res_status = 500, res_json = ErrorMessage TypeError\<rparr>,
      [ModelCall (first_request_serverless (Str ''refund my order''))]) \<and>
   commerce_calls (snd (handler inventive (post (Str ''refund my order'')))) = 0 \<and>
   chat inventive (Obj [(''message'', Str ''refund my order'')]) =
     (\<lparr>res_status = 500,
       res_json = ErrorMessage (Error ''Function refund_order is not implemented.'')\<rparr>,
      [ModelCall (first_request_standalone (Str ''refund my order''))]) \<and>
   commerce_calls (snd (chat inventive (Obj [(''message'', Str ''refund my order'')]))) = 0"
proof -
  let ?fc = "\<lparr>fc_name = ''refund_order'', fc_arguments = ''{}''\<rparr>"
  let ?ask = "\<lparr>content = None, function_call = Some ?fc\<rparr>"
  have h: "create inventive (first_request_serverless (Str ''refund my order'')) = Inr [?ask]"
    "create inventive (first_request_standalone (Str ''refund my order'')) = Inr [?ask]"
    "parsedArgs_serverless inventive ''{}'' = Inr (Obj [])"
    "parsedArgs_standalone inventive ''{}'' = Inr (Obj [])"
    by (simp_all add: inventive_def nominated_tool parsedArgs_table)
  from name_without_property_fails [of "post (Str ''refund my order'')" "''refund my order''"
      inventive ?ask "[]" ?fc "Obj []" "Obj [(''message'', Str ''refund my order'')]" ?ask "[]"
      ?fc "Obj []"]
    h not_in_catalog
  show ?thesis by simp
qed

text \<open>
  The argument string is parsed before the tool is called, so when the name is unknown and
  the arguments do not parse, index.js fails the turn on the arguments.
\<close>

lemma unknown_tool_unparsable_arguments:
  "''refund_order'' \<notin> set (map tool_name functions_standalone) \<and>
   create confused (first_request_standalone (Str ''refund my order'')) =
     nominates ''refund_order'' ''{'' \<and>
   chat confused (Obj [(''message'', Str ''refund my order'')]) =
     (\<lparr>res_status = 500,
       res_json = ErrorMessage (Error ''Failed to parse function arguments: {'')\<rparr>,
      [ModelCall (first_request_standalone (Str ''refund my order''))])"
proof -
  let ?fc = "\<lparr>fc_name = ''refund_order'', fc_arguments = ''{''\<rparr>"
  let ?ask = "\<lparr>content = None, function_call = Some ?fc\<rparr>"
  have c: "create confused (first_request_standalone (Str ''refund my order'')) = Inr [?ask]"
    by (simp add: confused_def nominated_tool)
  have p: "parsedArgs_standalone confused ''{'' = Inl (Error ''Failed to parse function arguments: {'')"
    by (simp add: confused_def parsedArgs_table)
  have "chat_try confused (Str ''refund my order'') =
     (Inl (Error ''Failed to parse function arguments: {''),
      [ModelCall (first_request_standalone (Str ''refund my order''))])"
    using chat_try_tool [OF c, of ?fc] by (simp add: p)
  then show ?thesis
    using c not_in_catalog by (simp add: chat_valid nominates_def)
qed

lemma functionMap_refund_order: "functionMap ''refund_order'' = None"
  by (rule functionMap_unknown) (rule not_in_catalog)+

lemma functionMap_constructor:
  "functionMap ''constructor'' = Some (Inherited ''constructor'')"
  by (simp add: functionMap_def Object_prototype_def)

lemma constructor_returns_its_argument:
  "call_serverless env (Inherited ''constructor'') (Obj []) = (Inr (Obj []), [])"
  "call_standalone env (Inherited ''constructor'') (Obj []) = (Inr (Obj []), [])"
  by (simp_all add: call_inherited_trace call_inherited_def nullish_def io_pure_def)

text \<open>
  C2. The claim says that a turn whose tool invocation names a tool outside the catalog
  fails, and index.js has the check for it: \<^verbatim>\<open>if (!fn) throw\<close> reports \<^verbatim>\<open>refund_order\<close> as not
  implemented (last conjunct). But \<^verbatim>\<open>functionMap[name]\<close> also finds what the function table
  inherits from the object prototype, and the check lets these names pass. At the name
  \<^verbatim>\<open>constructor\<close>, which is not in the catalog, with the arguments \<^verbatim>\<open>{}\<close>, the inherited
  function is called and returns its argument, the second model call is made, and the turn
  ends with status 200, a reply and the data \<^verbatim>\<open>{}\<close>, in index.js and in api/chat.js alike.
  No commerce call is made. For a name without any property in the table the turn fails
  as the claim says (\<open>name_without_property_fails\<close>).
\<close>

theorem inherited_name_is_called:
  "''constructor'' \<notin> set (map tool_name functions_serverless) \<and>
   ''constructor'' \<notin> set (map tool_name functions_standalone) \<and>
   create misled (first_request_serverless (Str ''hello'')) = nominates ''constructor'' ''{}'' \<and>
   create misled (first_request_standalone (Str ''hello'')) = nominates ''constructor'' ''{}'' \<and>
   fst (handler misled (post (Str ''hello''))) =
     \<lparr>res_status = 200,
      res_json = Answer (ReplyData (Str ''Here is what I found.'') (Obj []))\<rparr> \<and>
   model_calls (snd (handler misled (post (Str ''hello'')))) = 2 \<and>
   commerce_calls (snd (handler misled (post (Str ''hello'')))) = 0 \<and>
   fst (chat misled (Obj [(''message'', Str ''hello'')])) =
     \<lparr>res_status = 200,
      res_json = Answer (ReplyData (Str ''Here is what I found.'') (Obj []))\<rparr> \<and>
   model_calls (snd (chat misled (Obj [(''message'', Str ''hello'')]))) = 2 \<and>
   commerce_calls (snd (chat misled (Obj [(''message'', Str ''hello'')]))) = 0 \<and>
   chat inventive (Obj [(''message'', Str ''hello'')]) =
     (\<lparr>res_status = 500,
       res_json = ErrorMessage (Error ''Function refund_order is not implemented.'')\<rparr>,
      [ModelCall (first_request_standalone (Str ''hello''))])"
proof -
  let ?env = "shop (nominates ''constructor'' ''{}'') (answers 200 ''{}'')"
  let ?fc = "\<lparr>fc_name = ''constructor'', fc_arguments = ''{}''\<rparr>"
  let ?ask = "\<lparr>content = None, function_call = Some ?fc\<rparr>"
  let ?final = "\<lparr>content = Some ''Here is what I found.'', function_call = None\<rparr>"
  let ?body = "Obj [(''message'', Str ''hello'')]"
  let ?gc = "\<lparr>fc_name = ''refund_order'', fc_arguments = ''{}''\<rparr>"
  have n: "''constructor'' \<notin> set (map tool_name functions_serverless)"
    "''constructor'' \<notin> set (map tool_name functions_standalone)"
    by (simp_all add: catalog_names catalog_names_agree)
  have c: "create misled (first_request_serverless (Str ''hello'')) = nominates ''constructor'' ''{}''"
    "create misled (first_request_standalone (Str ''hello'')) = nominates ''constructor'' ''{}''"
    by (simp_all add: misled_def nominated_tool nominates_def)
  have h: "handler ?env (post (Str ''hello'')) =
     (\<lparr>res_status = 200, res_json = Answer (ReplyData (content_value ?final) (Obj []))\<rparr>,
      ModelCall (first_request_serverless (Str ''hello'')) # [] @
      [ModelCall (second_request_serverless ?env (Str ''hello'') ?ask (fc_name ?fc) (Obj []))])"
    by (rule handler_tool_ok [where a = "Obj []" and f = "Inherited ''constructor''"
          and ms = "[]" and ?ms2.0 = "[]"])
       (simp_all add: post_def nominated_tool parsedArgs_table functionMap_constructor
         constructor_returns_its_argument says_def)
  have s: "chat ?env ?body =
     (\<lparr>res_status = 200, res_json = Answer (ReplyData (content_value ?final) (Obj []))\<rparr>,
      ModelCall (first_request_standalone (opt_get ?body ''message'')) # [] @
      [ModelCall (second_request_standalone ?env (opt_get ?body ''message'') ?ask (fc_name ?fc)
         (Obj []))])"
    by (rule chat_tool_ok [where a = "Obj []" and f = "Inherited ''constructor''" and ms = "[]"
          and ?ms2.0 = "[]"])
       (simp_all add: nominated_tool parsedArgs_table functionMap_constructor
         constructor_returns_its_argument says_def)
  have r: "chat inventive ?body =
     (\<lparr>res_status = 500,
       res_json = ErrorMessage (Error (''Function '' @ fc_name ?gc @ '' is not implemented.''))\<rparr>,
      [ModelCall (first_request_standalone (opt_get ?body ''message''))])"
    by (rule chat_unknown [where a = "Obj []" and ms = "[]"
          and m = "\<lparr>content = None, function_call = Some ?gc\<rparr>"])
       (simp_all add: inventive_def nominated_tool parsedArgs_table functionMap_refund_order)
  from n c h s r show ?thesis
    by (simp add: misled_def content_value_def)
qed

section \<open>Argument strings\<close>

lemma handler_parse_fails:
  assumes "req_method req = ''POST''" "read_prop (req_body req) ''message'' = Str s" "s \<noteq> []"
    and "create env (first_request_serverless (Str s)) = Inr (m # ms)" "function_call m = Some fc"
    and "fc_arguments fc \<noteq> []" "JSON_parse env (fc_arguments fc) = None"
  shows "handler env req =
     (\<lparr>res_status = 500, res_json = ErrorMessage SyntaxError\<rparr>,
      [ModelCall (first_request_serverless (Str s))])"
  using assms by (simp add: handler_valid runAssistant_tool parsedArgs_serverless_def)

lemma handler_empty_arguments:
  assumes "req_method req = ''POST''" "read_prop (req_body req) ''message'' = Str s" "s \<noteq> []"
    and "create env (first_request_serverless (Str s)) = Inr (m # ms)" "function_call m = Some fc"
    and "fc_arguments fc = []"
    and "functionMap (fc_name fc) = Some f"
    and "call_serverless env f (Obj []) = (Inr d, t)"
    and "create env (second_request_serverless env (Str s) m (fc_name fc) d) = Inr (m2 # ms2)"
  shows "handler env req =
     (\<lparr>res_status = 200, res_json = Answer (ReplyData (content_value m2) d)\<rparr>,
      ModelCall (first_request_serverless (Str s)) # t @
      [ModelCall (second_request_serverless env (Str s) m (fc_name fc) d)])"
  using assms by (simp add: handler_tool_ok parsedArgs_serverless_def)

lemma chat_parse_fails:
  assumes "truthy (opt_get posted ''message'')"
    and "create env (first_request_standalone (opt_get posted ''message'')) = Inr (m # ms)"
    and "function_call m = Some fc"
    and "JSON_parse env (fc_arguments fc) = None"
  shows "chat env posted =
     (\<lparr>res_status = 500,
       res_json = ErrorMessage (Error (''Failed to parse function arguments: '' @ fc_arguments fc))\<rparr>,
      [ModelCall (first_request_standalone (opt_get posted ''message''))])"
  using assms by (simp add: chat_valid chat_try_tool parsedArgs_standalone_def)

text \<open>
  C4, as amended. In index.js, an argument string that \<^verbatim>\<open>JSON.parse\<close> rejects, the empty
  string included, fails the turn with status 500 and the message that the arguments failed
  to parse, after the first model call alone: no tool runs and nothing is returned besides
  the error. In api/chat.js the same holds, with the engine's SyntaxError, for every
  argument string that is not empty; the empty string is not parsed but taken as \<^verbatim>\<open>{}\<close>, and
  the tool runs with it.
\<close>

theorem malformed_arguments_fail:
  "(truthy (opt_get posted ''message'') \<and>
    create env (first_request_standalone (opt_get posted ''message'')) = Inr (m' # ms') \<and>
    function_call m' = Some fc' \<and> JSON_parse env (fc_arguments fc') = None \<longrightarrow>
      chat env posted =
        (\<lparr>res_status = 500,
          res_json = ErrorMessage (Error (''Failed to parse function arguments: '' @ fc_arguments fc'))\<rparr>,
         [ModelCall (first_request_standalone (opt_get posted ''message''))])) \<and>
   (req_method req = ''POST'' \<and> read_prop (req_body req) ''message'' = Str s \<and> s \<noteq> [] \<and>
    create env (first_request_serverless (Str s)) = Inr (m # ms) \<and> function_call m = Some fc \<longrightarrow>
      (fc_arguments fc \<noteq> [] \<and> JSON_parse env (fc_arguments fc) = None \<longrightarrow>
         handler env req =
           (\<lparr>res_status = 500, res_json = ErrorMessage SyntaxError\<rparr>,
            [ModelCall (first_request_serverless (Str s))])) \<and>
      (fc_arguments fc = [] \<and> functionMap (fc_name fc) = Some f \<and>
       call_serverless env f (Obj []) = (Inr d, t) \<and>
       create env (second_request_serverless env (Str s) m (fc_name fc) d) = Inr (m2 # ms2) \<longrightarrow>
         handler env req =
           (\<lparr>res_status = 200, res_json = Answer (ReplyData (content_value m2) d)\<rparr>,
            ModelCall (first_request_serverless (Str s)) # t @
            [ModelCall (second_request_serverless env (Str s) m (fc_name fc) d)])))"
  by (intro impI conjI; elim conjE)
     ((rule chat_parse_fails; assumption),
      (rule handler_parse_fails; assumption),
      (rule handler_empty_arguments; assumption))

text \<open>
  The theorem at three shops: the model sends \<^verbatim>\<open>{\<close> as arguments, or the empty string.
\<close>

theorem malformed_arguments_fail_witness:
  "chat garbled (Obj [(''message'', Str ''what do you sell?'')]) =
     (\<lparr>res_status = 500,
       res_json = ErrorMessage (Error ''Failed to parse function arguments: {'')\<rparr>,
      [ModelCall (first_request_standalone (Str ''what do you sell?''))]) \<and>
   chat terse (Obj [(''message'', Str ''what do you sell?'')]) =
     (\<lparr>res_status = 500,
       res_json = ErrorMessage (Error ''Failed to parse function arguments: '')\<rparr>,
      [ModelCall (first_request_standalone (Str ''what do you sell?''))]) \<and>
   handler garbled (post (Str ''what do you sell?'')) =
     (\<lparr>res_status = 500, res_json = ErrorMessage SyntaxError\<rparr>,
      [ModelCall (first_request_serverless (Str ''what do you sell?''))]) \<and>
   fst (handler terse (post (Str ''what do you sell?''))) =
     \<lparr>res_status = 200, res_json = Answer (ReplyData (Str ''Here is what I found.'') two_listed)\<rparr>"
proof -
  let ?msg = "''what do you sell?''"
  let ?bad = "\<lparr>fc_name = ''get_products'', fc_arguments = ''{''\<rparr>"
  let ?none = "\<lparr>fc_name = ''get_products'', fc_arguments = []\<rparr>"
  let ?final = "\<lparr>content = Some ''Here is what I found.'', function_call = None\<rparr>"
  let ?q = "[CommerceCall (graphql_request terse getProducts_gql_serverless (Obj []))]"
  have g: "create garbled (first_request_serverless (Str ?msg)) = Inr [\<lparr>content = None, function_call = Some ?bad\<rparr>]"
    "create garbled (first_request_standalone (Str ?msg)) = Inr [\<lparr>content = None, function_call = Some ?bad\<rparr>]"
    "JSON_parse garbled ''{'' = None"
    by (simp_all add: garbled_def nominated_tool parse_table)
  have e: "create terse (first_request_serverless (Str ?msg)) = Inr [\<lparr>content = None, function_call = Some ?none\<rparr>]"
    "create terse (first_request_standalone (Str ?msg)) = Inr [\<lparr>content = None, function_call = Some ?none\<rparr>]"
    "JSON_parse terse [] = None"
    "call_serverless terse GetProducts (Obj []) = (Inr two_listed, ?q)"
    "create terse (second_request_serverless terse (Str ?msg) \<lparr>content = None, function_call = Some ?none\<rparr> ''get_products'' two_listed) = Inr [?final]"
    by (simp_all add: terse_def nominated_tool parse_table call_serverless_def two_listed_serverless says_def)
  from malformed_arguments_fail [of "Obj [(''message'', Str ?msg)]" garbled
      "\<lparr>content = None, function_call = Some ?bad\<rparr>" "[]" ?bad
      "post (Str ?msg)" ?msg "\<lparr>content = None, function_call = Some ?bad\<rparr>" "[]" ?bad
      GetProducts two_listed ?q ?final "[]"] g
  have a: "chat garbled (Obj [(''message'', Str ''what do you sell?'')]) =
     (\<lparr>res_status = 500,
       res_json = ErrorMessage (Error ''Failed to parse function arguments: {'')\<rparr>,
      [ModelCall (first_request_standalone (Str ''what do you sell?''))])"
    "handler garbled (post (Str ''what do you sell?'')) =
     (\<lparr>res_status = 500, res_json = ErrorMessage SyntaxError\<rparr>,
      [ModelCall (first_request_serverless (Str ''what do you sell?''))])"
    by simp_all
  from malformed_arguments_fail [of "Obj [(''message'', Str ?msg)]" terse
      "\<lparr>content = None, function_call = Some ?none\<rparr>" "[]" ?none
      "post (Str ?msg)" ?msg "\<lparr>content = None, function_call = Some ?none\<rparr>" "[]" ?none
      GetProducts two_listed ?q ?final "[]"] e
  have b: "chat terse (Obj [(''message'', Str ''what do you sell?'')]) =
     (\<lparr>res_status = 500,
       res_json = ErrorMessage (Error ''Failed to parse function arguments: '')\<rparr>,
      [ModelCall (first_request_standalone (Str ''what do you sell?''))])"
    "fst (handler terse (post (Str ''what do you sell?''))) =
     \<lparr>res_status = 200, res_json = Answer (ReplyData (Str ''Here is what I found.'') two_listed)\<rparr>"
    by (simp_all add: functionMap_tools content_value_def)
  from a b show ?thesis by simp
qed

text \<open>
  Without the amendment the statement fails: here the model sends the empty string, which
  \<^verbatim>\<open>JSON.parse\<close> rejects, and api/chat.js runs the tool: one commerce call, status 200,
  and the tool's data.
\<close>

theorem empty_arguments_counterexample:
  "create terse (first_request_serverless (Str ''what do you sell?'')) = nominates ''get_products'' [] \<and>
   JSON_parse terse [] = None \<and>
   fst (handler terse (post (Str ''what do you sell?''))) =
     \<lparr>res_status = 200, res_json = Answer (ReplyData (Str ''Here is what I found.'') two_listed)\<rparr> \<and>
   commerce_calls (snd (handler terse (post (Str ''what do you sell?'')))) = 1"
proof -
  let ?msg = "''what do you sell?''"
  let ?none = "\<lparr>fc_name = ''get_products'', fc_arguments = []\<rparr>"
  let ?ask = "\<lparr>content = None, function_call = Some ?none\<rparr>"
  let ?final = "\<lparr>content = Some ''Here is what I found.'', function_call = None\<rparr>"
  let ?q = "[CommerceCall (graphql_request terse getProducts_gql_serverless (Obj []))]"
  have e: "create terse (first_request_serverless (Str ?msg)) = Inr [?ask]"
    "JSON_parse terse [] = None"
    "call_serverless terse GetProducts (Obj []) = (Inr two_listed, ?q)"
    "create terse (second_request_serverless terse (Str ?msg) ?ask ''get_products'' two_listed) = Inr [?final]"
    by (simp_all add: terse_def nominated_tool parse_table call_serverless_def two_listed_serverless says_def)
  have "handler terse (post (Str ?msg)) =
     (\<lparr>res_status = 200, res_json = Answer (ReplyData (content_value ?final) two_listed)\<rparr>,
      ModelCall (first_request_serverless (Str ?msg)) # ?q @
      [ModelCall (second_request_serverless terse (Str ?msg) ?ask (fc_name ?none) two_listed)])"
    by (rule handler_empty_arguments [where f = GetProducts and ms = "[]" and ?ms2.0 = "[]"])
       (simp_all add: e functionMap_tools)
  then show ?thesis
    using e by (simp add: content_value_def nominates_def)
qed

section \<open>Requests and configuration\<close>

lemma handler_rejects:
  assumes "req_method req \<noteq> ''POST'' \<or>
           \<not> is_string (opt_get (req_body req) ''message'') \<or>
           opt_get (req_body req) ''message'' = Str []"
  shows "snd (handler env req) = []"
    and "res_status (fst (handler env req)) = 400 \<or> res_status (fst (handler env req)) = 405"
    and "\<exists>text. res_json (fst (handler env req)) = ErrorLiteral text"
  using assms
  by (cases "req_body req";
      auto simp add: handler_def handler_try_def get_def opt_get_def js_or_def nullish_def
        is_string_def io_pure_def split: js.splits)+

lemma chat_rejects:
  assumes "\<not> truthy (opt_get posted ''message'')"
  shows "chat env posted =
     (\<lparr>res_status = 400,
       res_json = ErrorLiteral ''Request body must include a `message` field.''\<rparr>, [])"
  using assms by (simp add: chat_def Let_def)

lemma chat_calls_model:
  assumes "truthy (opt_get posted ''message'')"
  shows "\<exists>t. snd (chat env posted) = ModelCall (first_request_standalone (opt_get posted ''message'')) # t"
proof -
  let ?msg = "opt_get posted ''message''"
  have "\<exists>t. snd (chat_try env ?msg) = ModelCall (first_request_standalone ?msg) # t"
    by (cases "create env (first_request_standalone ?msg)")
       (simp_all add: chat_try_def chat_completions_create_def)
  moreover have "snd (chat env posted) = snd (chat_try env ?msg)"
    using assms
    by (cases "chat_try env ?msg"; cases "fst (chat_try env ?msg)") (simp_all add: chat_valid)
  ultimately show ?thesis by simp
qed

text \<open>
  C7. The serverless handler rejects every request whose message is not a non-empty
  string, before any call to the model or to the commerce platform (\<open>handler_rejects\<close>).
  The route of index.js tests the message for truthiness only (\<open>chat_rejects\<close>,
  \<open>chat_calls_model\<close>): it passes the number 42 to the model API, whose refusal comes back
  as status 500, where the handler of api/chat.js answers 400 without a call.
\<close>

theorem number_message_reaches_model:
  "\<not> is_string (Num 42) \<and>
   chat strict (Obj [(''message'', Num 42)]) =
     (\<lparr>res_status = 500,
       res_json = ErrorMessage (Error ''400 Invalid type for messages[1].content'')\<rparr>,
      [ModelCall (first_request_standalone (Num 42))]) \<and>
   model_calls (snd (chat strict (Obj [(''message'', Num 42)]))) = 1 \<and>
   handler strict (post (Num 42)) =
     (\<lparr>res_status = 400,
       res_json = ErrorLiteral ''Request body must include a `message` string.''\<rparr>, [])"
proof -
  have "create strict (first_request_standalone (Num 42)) =
      Inl (Error ''400 Invalid type for messages[1].content'')"
    by (simp add: strict_def)
  then have "chat_try strict (Num 42) =
      (Inl (Error ''400 Invalid type for messages[1].content''),
       [ModelCall (first_request_standalone (Num 42))])"
    by (rule chat_try_create_fails)
  then have "chat strict (Obj [(''message'', Num 42)]) =
     (\<lparr>res_status = 500,
       res_json = ErrorMessage (Error ''400 Invalid type for messages[1].content'')\<rparr>,
      [ModelCall (first_request_standalone (Num 42))])"
    by (simp add: chat_valid)
  moreover have "handler strict (post (Num 42)) =
     (\<lparr>res_status = 400,
       res_json = ErrorLiteral ''Request body must include a `message` string.''\<rparr>, [])"
    by (simp add: handler_def handler_try_def get_def js_or_def nullish_def is_string_def io_pure_def)
  ultimately show ?thesis by (simp add: is_string_def)
qed

lemma callShopify_serverless_fetches:
  "snd (callShopify_serverless env query variables) =
     [CommerceCall (graphql_request env query variables)]"
  by (simp add: callShopify_serverless_def Let_def)

lemma callShopify_standalone_unset:
  assumes "unset (SHOPIFY_STORE env) \<or> unset (SHOPIFY_TOKEN env)"
  shows "callShopify_standalone env query variables =
     (Inl (Error ''Shopify store credentials are not set in environment variables''), [])"
  using assms by (auto simp: callShopify_standalone_def)

lemma unconfigured_simps:
  "SHOPIFY_STORE unconfigured = None"
  "SHOPIFY_TOKEN unconfigured = None"
  "fetch unconfigured q = Inl (Error ''getaddrinfo ENOTFOUND undefined'')"
  "create unconfigured (first_request_serverless msg) = nominates ''get_products'' ''{}''"
  "create unconfigured (first_request_standalone msg) = nominates ''get_products'' ''{}''"
  "JSON_parse unconfigured = map_of table"
  by (simp_all add: unconfigured_def shop_def scripted_def)

text \<open>
  C8. \<^verbatim>\<open>callShopify\<close> of index.js fails before any request when the store or the token is
  unset (\<open>callShopify_standalone_unset\<close>). \<^verbatim>\<open>callShopify\<close> of api/chat.js has no such test
  and always posts its request (\<open>callShopify_serverless_fetches\<close>): with neither variable
  set, the request goes to the host \<^verbatim>\<open>undefined\<close> with no token, and the turn fails with the
  error of the network.
\<close>

theorem serverless_fetches_without_credentials:
  "SHOPIFY_STORE unconfigured = None \<and> SHOPIFY_TOKEN unconfigured = None \<and>
   handler unconfigured (post (Str ''what do you sell?'')) =
     (\<lparr>res_status = 500, res_json = ErrorMessage (Error ''getaddrinfo ENOTFOUND undefined'')\<rparr>,
      [ModelCall (first_request_serverless (Str ''what do you sell?'')),
       CommerceCall (graphql_request unconfigured getProducts_gql_serverless (Obj []))]) \<and>
   url (graphql_request unconfigured getProducts_gql_serverless (Obj [])) =
     ''https://undefined/admin/api/2025-07/graphql.json'' \<and>
   headers (graphql_request unconfigured getProducts_gql_serverless (Obj [])) =
     [(''Content-Type'', Some ''application/json''), (''X-Shopify-Access-Token'', None)] \<and>
   chat unconfigured (Obj [(''message'', Str ''what do you sell?'')]) =
     (\<lparr>res_status = 500,
       res_json = ErrorMessage
         (Error ''Shopify store credentials are not set in environment variables'')\<rparr>,
      [ModelCall (first_request_standalone (Str ''what do you sell?''))])"
proof -
  let ?msg = "''what do you sell?''"
  let ?fc = "\<lparr>fc_name = ''get_products'', fc_arguments = ''{}''\<rparr>"
  let ?ask = "\<lparr>content = None, function_call = Some ?fc\<rparr>"
  have c: "create unconfigured (first_request_serverless (Str ?msg)) = Inr [?ask]"
    "create unconfigured (first_request_standalone (Str ?msg)) = Inr [?ask]"
    by (simp_all add: unconfigured_simps nominates_def)
  have p: "parsedArgs_serverless unconfigured ''{}'' = Inr (Obj [])"
    "parsedArgs_standalone unconfigured ''{}'' = Inr (Obj [])"
    by (simp_all add: parsedArgs_serverless_def parsedArgs_standalone_def unconfigured_simps parse_table)
  have s: "call_serverless unconfigured GetProducts (Obj []) =
     (Inl (Error ''getaddrinfo ENOTFOUND undefined''),
      [CommerceCall (graphql_request unconfigured getProducts_gql_serverless (Obj []))])"
    by (simp add: call_serverless_def getProducts_serverless_def callShopify_serverless_def Let_def
        unconfigured_simps)
  have t: "call_standalone unconfigured GetProducts (Obj []) =
     (Inl (Error ''Shopify store credentials are not set in environment variables''), [])"
    by (simp add: call_standalone_def getProducts_standalone_def callShopify_standalone_unset
        unconfigured_simps unset_def)
  have "runAssistant unconfigured (Str ?msg) =
     (Inl (Error ''getaddrinfo ENOTFOUND undefined''),
      [ModelCall (first_request_serverless (Str ?msg)),
       CommerceCall (graphql_request unconfigured getProducts_gql_serverless (Obj []))])"
    using runAssistant_tool [OF c(1), of ?fc] by (simp add: p s functionMap_tools)
  then have a: "handler unconfigured (post (Str ?msg)) =
     (\<lparr>res_status = 500, res_json = ErrorMessage (Error ''getaddrinfo ENOTFOUND undefined'')\<rparr>,
      [ModelCall (first_request_serverless (Str ?msg)),
       CommerceCall (graphql_request unconfigured getProducts_gql_serverless (Obj []))])"
    by (simp add: handler_valid)
  have "chat_try unconfigured (Str ?msg) =
     (Inl (Error ''Shopify store credentials are not set in environment variables''),
      [ModelCall (first_request_standalone (Str ?msg))])"
    using chat_try_tool [OF c(2), of ?fc] by (simp add: p t functionMap_tools lookup_standalone_def)
  then have b: "chat unconfigured (Obj [(''message'', Str ?msg)]) =
     (\<lparr>res_status = 500,
       res_json = ErrorMessage
         (Error ''Shopify store credentials are not set in environment variables'')\<rparr>,
      [ModelCall (first_request_standalone (Str ?msg))])"
    by (simp add: chat_valid)
  from a b show ?thesis
    by (simp add: unconfigured_simps graphql_request_def)
qed

section \<open>Failures of the commerce call\<close>








lemma callShopify_serverless_data:
  assumes "fetch env (graphql_request env q v) = Inr res"
    and "JSON_parse env (body_text res) = Some json"
    and "\<not> nullish json" "\<not> truthy (read_prop json ''errors'')"
  shows "callShopify_serverless env q v =
     (Inr (read_prop json ''data''), [CommerceCall (graphql_request env q v)])"
  using assms by (simp add: callShopify_serverless_def Let_def get_def)

lemma callShopify_standalone_body:
  assumes "fetch env (graphql_request env q v) = Inr res"
    and "JSON_parse env (body_text res) = Some json"
    and "\<not> nullish json" "\<not> truthy (read_prop json ''errors'')"
    and "\<not> unset (SHOPIFY_STORE env)" "\<not> unset (SHOPIFY_TOKEN env)"
  shows "callShopify_standalone env q v = (Inr json, [CommerceCall (graphql_request env q v)])"
  using assms by (simp add: callShopify_standalone_def Let_def get_def)









section \<open>The results of the tools\<close>

lemma get_eq_Inr: "get v k = Inr w \<longleftrightarrow> \<not> nullish v \<and> w = read_prop v k"
  by (auto simp: get_def)

lemma get_opt_get: "get v k = Inr w \<Longrightarrow> opt_get v k = w"
  by (auto simp: get_def opt_get_def split: if_splits)

lemma path_opt_path: "path v ks = Inr w \<Longrightarrow> opt_path v ks = w"
  by (induction ks arbitrary: v) (auto simp: and_then_eq_Inr dest: get_opt_get)

lemma js_map_entries: "js_map f v = Inr r \<Longrightarrow> entries r = entries v"
  by (auto simp: js_map_eq_Inr entries_def dest: list_all2_lengthD)

lemma opt_get_Obj [simp]:
  "opt_get (Obj kvs) k = (case map_of kvs k of None \<Rightarrow> Undefined | Some v \<Rightarrow> v)"
  by (simp add: opt_get_def nullish_def)

lemma tracking_entries:
  assumes "fulfillment_record f = Inr g"
  shows "entries (opt_get g ''tracking'') = entries (opt_get f ''trackingInfo'')"
  using assms
  by (auto simp: fulfillment_record_def obj_def and_then_eq_Inr dest!: js_map_entries get_opt_get)

lemma fulfillments_within:
  assumes "list_all2 (\<lambda>f g. fulfillment_record f = Inr g) fs gs"
    and "list_all (\<lambda>f. entries (opt_get f ''trackingInfo'') \<le> n) fs"
  shows "list_all (\<lambda>g. entries (opt_get g ''tracking'') \<le> n) gs"
  using assms by (induction rule: list_all2_induct) (auto simp: tracking_entries)

lemma order_record_within:
  assumes "order_record edge = Inr order" "order_edge_within n edge"
  shows "order_within n order"
proof -
  from assms(1) obtain node fs items where
    node: "get edge ''node'' = Inr node"
    and fs: "and_then (get node ''fulfillments'') (js_map fulfillment_record) = Inr fs"
    and items: "and_then (path node [''lineItems'', ''edges'']) (js_map item_record) = Inr items"
    and order: "opt_get order ''fulfillments'' = fs" "opt_get order ''items'' = items"
    by (auto simp: order_record_def obj_def and_then_eq_Inr)
  from node have n: "opt_get edge ''node'' = node" by (rule get_opt_get)
  from items obtain es where es: "path node [''lineItems'', ''edges''] = Inr es"
    "js_map item_record es = Inr items"
    by (auto simp: and_then_eq_Inr)
  from path_opt_path [OF es(1)] n have "opt_path edge [''node'', ''lineItems'', ''edges''] = es"
    by simp
  with js_map_entries [OF es(2)] assms(2) have 1: "entries items \<le> n"
    by (simp add: order_edge_within_def)
  from fs obtain fin where fin: "get node ''fulfillments'' = Inr fin"
    "js_map fulfillment_record fin = Inr fs"
    by (auto simp: and_then_eq_Inr)
  from get_opt_get [OF fin(1)] n have "opt_path edge [''node'', ''fulfillments''] = fin"
    by simp
  with assms(2) have "list_all (\<lambda>f. entries (opt_get f ''trackingInfo'') \<le> n) (elements fin)"
    by (simp add: order_edge_within_def)
  with fin(2) have 2: "list_all (\<lambda>g. entries (opt_get g ''tracking'') \<le> n) (elements fs)"
    by (auto simp: js_map_eq_Inr elements_def dest: fulfillments_within)
  from 1 2 order show ?thesis by (simp add: order_within_def)
qed

lemma orders_within:
  assumes "js_map order_record es = Inr r" "entries es \<le> n" "list_all (order_edge_within n) (elements es)"
  shows "orders_within n r"
proof -
  from assms(1) obtain xs ys where *: "es = Arr xs" "r = Arr ys"
    "list_all2 (\<lambda>x y. order_record x = Inr y) xs ys"
    by (auto simp: js_map_eq_Inr)
  from assms(3) *(1) have "list_all (order_edge_within n) xs"
    by (simp add: elements_def)
  with *(3) have "list_all (order_within n) ys"
    by (induction rule: list_all2_induct) (auto simp: order_record_within)
  with * assms(2) show ?thesis
    by (auto simp: orders_within_def entries_def elements_def dest: list_all2_lengthD)
qed

lemma orders_of_first_customer_within:
  assumes "orders_of_first_customer data = Inr r"
    and "customer_within n (opt_get (opt_at0 (opt_path data [''customers'', ''edges''])) ''node'')"
  shows "orders_within n r"
proof (cases "truthy (opt_get (opt_at0 (opt_path data [''customers'', ''edges''])) ''node'')")
  case False
  with assms(1) show ?thesis
    by (auto simp: orders_of_first_customer_def Let_def orders_within_def entries_def elements_def)
next
  case True
  with assms(1) obtain es where
    es: "path (opt_get (opt_at0 (opt_path data [''customers'', ''edges''])) ''node'') [''orders'', ''edges''] = Inr es"
    "js_map order_record es = Inr r"
    by (auto simp: orders_of_first_customer_def Let_def and_then_eq_Inr)
  from path_opt_path [OF es(1)] assms(2) es(2) show ?thesis
    by (auto simp: customer_within_def intro: orders_within)
qed

lemma orders_of_first_customer_entries:
  assumes "orders_of_first_customer data = Inr r"
  shows "entries r =
     entries (opt_path (opt_get (opt_at0 (opt_path data [''customers'', ''edges''])) ''node'')
                [''orders'', ''edges''])"
proof (cases "truthy (opt_get (opt_at0 (opt_path data [''customers'', ''edges''])) ''node'')")
  case False
  then have "nullish (opt_get (opt_at0 (opt_path data [''customers'', ''edges''])) ''node'') \<or>
     (\<exists>kvs. opt_get (opt_at0 (opt_path data [''customers'', ''edges''])) ''node'' \<noteq> Obj kvs)"
    by (cases "opt_get (opt_at0 (opt_path data [''customers'', ''edges''])) ''node''") (auto simp: nullish_def)
  with False assms show ?thesis
    by (cases "opt_get (opt_at0 (opt_path data [''customers'', ''edges''])) ''node''")
       (auto simp: orders_of_first_customer_def Let_def entries_def opt_get_def nullish_def)
next
  case True
  with assms obtain es where
    es: "path (opt_get (opt_at0 (opt_path data [''customers'', ''edges''])) ''node'') [''orders'', ''edges''] = Inr es"
    "js_map order_record es = Inr r"
    by (auto simp: orders_of_first_customer_def Let_def and_then_eq_Inr)
  from path_opt_path [OF es(1)] js_map_entries [OF es(2)] show ?thesis by simp
qed

lemma entries_falsy: "\<not> truthy v \<Longrightarrow> entries v = 0"
  by (cases v) (simp_all add: entries_def)

lemma opt_map_entries: "opt_map f v = Inr r \<Longrightarrow> entries (js_or r (Arr [])) = entries v"
  by (auto simp: opt_map_eq_Inr entries_def js_or_def nullish_def dest: list_all2_lengthD)

lemma products_of_data_entries:
  "products_of_data data = Inr r \<Longrightarrow> entries r = entries (opt_path data [''products'', ''edges''])"
  by (auto simp: products_of_data_def js_or_def entries_falsy js_map_eq_Inr
      dest!: list_all2_lengthD split: if_splits)
     (simp_all add: entries_def)

lemma products_listed_of_data_entries:
  "products_listed_of_data data = Inr r \<Longrightarrow>
   entries r = entries (opt_path data [''products'', ''edges''])"
  by (auto simp: products_listed_of_data_def js_or_def entries_falsy js_map_eq_Inr
      dest!: list_all2_lengthD split: if_splits)
     (simp_all add: entries_def)

lemma products_found_entries:
  "products_found result = Inr r \<Longrightarrow>
   entries (opt_get r ''products'') = entries (opt_path result [''data'', ''products'', ''edges''])"
  by (auto simp: products_found_def js_or_def entries_falsy js_map_eq_Inr and_then_eq_Inr
      dest!: list_all2_lengthD split: if_splits)
     (simp_all add: entries_def)

lemma products_listed_entries:
  "products_listed result = Inr r \<Longrightarrow>
   entries (opt_get r ''products'') = entries (opt_path result [''data'', ''products'', ''edges''])"
  by (auto simp: products_listed_def and_then_eq_Inr dest: opt_map_entries)

lemma customers_found_entries:
  "customers_found num result = Inr r \<Longrightarrow>
   entries (opt_get r ''customers'') = entries (opt_path result [''data'', ''customers'', ''edges''])"
  by (auto simp: customers_found_def and_then_eq_Inr dest: opt_map_entries)

lemma customer_record_within:
  assumes "customer_record num edge = Inr c" "customer_within n (opt_get edge ''node'')"
  shows "orders_within n (opt_get c ''orders'')"
proof -
  from assms(1) obtain node os where
    node: "get edge ''node'' = Inr node"
    and os: "and_then (path node [''orders'', ''edges'']) (js_map order_record) = Inr os"
    and c: "opt_get c ''orders'' = os"
    by (auto simp: customer_record_def obj_def and_then_eq_Inr)
  from os obtain es where es: "path node [''orders'', ''edges''] = Inr es"
    "js_map order_record es = Inr os"
    by (auto simp: and_then_eq_Inr)
  from get_opt_get [OF node] path_opt_path [OF es(1)] assms(2) es(2) c show ?thesis
    by (auto simp: customer_within_def intro: orders_within)
qed

lemma customers_found_within:
  assumes "customers_found num result = Inr r"
    and "list_all (\<lambda>edge. customer_within n (opt_get edge ''node''))
           (elements (opt_path result [''data'', ''customers'', ''edges'']))"
  shows "list_all (\<lambda>c. orders_within n (opt_get c ''orders'')) (elements (opt_get r ''customers''))"
proof -
  let ?es = "opt_path result [''data'', ''customers'', ''edges'']"
  from assms(1) obtain mapped where m: "opt_map (customer_record num) ?es = Inr mapped"
    "r = Obj [(''customers'', js_or mapped (Arr []))]"
    by (auto simp: customers_found_def and_then_eq_Inr)
  show ?thesis
  proof (cases "nullish ?es")
    case True
    with m show ?thesis by (auto simp: opt_map_def js_or_def elements_def)
  next
    case False
    with m obtain xs ys where *: "?es = Arr xs" "mapped = Arr ys"
      "list_all2 (\<lambda>x y. customer_record num x = Inr y) xs ys"
      by (auto simp: opt_map_eq_Inr)
    from assms(2) *(1) have "list_all (\<lambda>edge. customer_within n (opt_get edge ''node'')) xs"
      by (simp add: elements_def)
    with *(3) have "list_all (\<lambda>c. orders_within n (opt_get c ''orders'')) ys"
      by (induction rule: list_all2_induct) (auto simp: customer_record_within)
    with m * show ?thesis by (simp add: js_or_def elements_def)
  qed
qed

lemma sublist_template:
  assumes "l \<in> set ls" "sublist s l"
  shows "sublist s (template ls)"
proof -
  from assms(1) obtain as bs where "ls = as @ l # bs"
    by (auto simp: in_set_conv_decomp)
  then have "template ls = (template as @ [CHR 0x0A]) @ l @ template bs"
    by (simp add: template_def)
  then have "sublist l (template ls)"
    unfolding sublist_def by blast
  with assms(2) show ?thesis by (rule sublist_order.order_trans)
qed

lemma cap_products_findProduct_serverless:
  "sublist ''products(first: 5'' findProduct_gql_serverless"
  unfolding findProduct_gql_serverless_def
  by (rule sublist_template [where l = "''      products(first: 5, query: $query) {''"]) (simp, code_simp)

lemma cap_products_findProduct_standalone:
  "sublist ''products(first: 5'' findProduct_gql_standalone"
  unfolding findProduct_gql_standalone_def
  by (rule sublist_template [where l = "''      products(first: 5, query: $queryString) {''"]) (simp, code_simp)

lemma cap_products_getProducts_serverless:
  "sublist ''products(first: 5'' getProducts_gql_serverless"
  unfolding getProducts_gql_serverless_def
  by (rule sublist_template [where l = "''      products(first: 5) {''"]) (simp, code_simp)

lemma cap_products_getProducts_standalone:
  "sublist ''products(first: 5'' getProducts_gql_standalone"
  unfolding getProducts_gql_standalone_def
  by (rule sublist_template [where l = "''      products(first: 5) {''"]) (simp, code_simp)

lemma cap_orders_getCustomerOrders_serverless:
  "sublist ''orders(first: 5'' getCustomerOrders_gql_serverless"
  unfolding getCustomerOrders_gql_serverless_def
  by (rule sublist_template [where l = "''            orders(first: 5) {''"]) (simp, code_simp)

lemma cap_orders_getCustomerOrders_standalone:
  "sublist ''orders(first: 5'' getCustomerOrders_gql_standalone"
  unfolding getCustomerOrders_gql_standalone_def
  by (rule sublist_template [where l = "''            orders(first: 5) {''"]) (simp, code_simp)

lemma cap_lineItems_getCustomerOrders_serverless:
  "sublist ''lineItems(first: 5'' getCustomerOrders_gql_serverless"
  unfolding getCustomerOrders_gql_serverless_def
  by (rule sublist_template [where l = "''                  lineItems(first: 5) {''"]) (simp, code_simp)

lemma cap_lineItems_getCustomerOrders_standalone:
  "sublist ''lineItems(first: 5'' getCustomerOrders_gql_standalone"
  unfolding getCustomerOrders_gql_standalone_def
  by (rule sublist_template [where l = "''                  lineItems(first: 5) {''"]) (simp, code_simp)

lemma cap_trackingInfo_getCustomerOrders_serverless:
  "sublist ''trackingInfo(first: 5'' getCustomerOrders_gql_serverless"
  unfolding getCustomerOrders_gql_serverless_def
  by (rule sublist_template [where l = "''                    trackingInfo(first: 5) { company number url }''"]) (simp, code_simp)

lemma cap_trackingInfo_getCustomerOrders_standalone:
  "sublist ''trackingInfo(first: 5'' getCustomerOrders_gql_standalone"
  unfolding getCustomerOrders_gql_standalone_def
  by (rule sublist_template [where l = "''                    trackingInfo(first: 5) {''"]) (simp, code_simp)

lemma cap_customers_getCustomerOrders_serverless:
  "sublist ''customers(first: 1'' getCustomerOrders_gql_serverless"
  unfolding getCustomerOrders_gql_serverless_def
  by (rule sublist_template [where l = "''      customers(first: 1, query: $email) {''"]) (simp, code_simp)

lemma cap_customers_getCustomerOrders_standalone:
  "sublist ''customers(first: 1'' getCustomerOrders_gql_standalone"
  unfolding getCustomerOrders_gql_standalone_def
  by (rule sublist_template [where l = "''      customers(first: 1, query: $email) {''"]) (simp, code_simp)

lemmas caps_in_queries =
  cap_products_findProduct_serverless
  cap_products_findProduct_standalone
  cap_products_getProducts_serverless
  cap_products_getProducts_standalone
  cap_orders_getCustomerOrders_serverless
  cap_orders_getCustomerOrders_standalone
  cap_lineItems_getCustomerOrders_serverless
  cap_lineItems_getCustomerOrders_standalone
  cap_trackingInfo_getCustomerOrders_serverless
  cap_trackingInfo_getCustomerOrders_standalone
  cap_customers_getCustomerOrders_serverless
  cap_customers_getCustomerOrders_standalone

lemma read_data:
  "read_prop one_customer ''data'' = Obj [(''customers'', opt_path one_customer [''data'', ''customers''])]"
  "read_prop two_products ''data'' = Obj [(''products'', opt_path two_products [''data'', ''products''])]"
  "read_prop six_products ''data'' = Obj [(''products'', opt_path six_products [''data'', ''products''])]"
  by (simp_all add: one_customer_def two_products_def six_products_def)

lemma one_order_shaped:
  "orders_of_first_customer (read_prop one_customer ''data'') = Inr (Arr [one_order])"
  by (simp add: one_customer_def orders_of_first_customer_def Let_def opt_at0_def nullish_def
      get_def order_record_def obj_def fulfillment_record_def tracking_record_def item_record_def
      one_order_def)

lemma strip_keeps: "find (\<lambda>w. w \<noteq> [] \<and> prefix w s) ws = None \<Longrightarrow> strip ws s = s"
  by (simp add: strip.simps)

lemma trim_Ann_Lee: "trim ''Ann Lee'' = ''Ann Lee''"
  by (simp add: trim_def strip_keeps white_space_def)

lemma one_customer_shaped:
  "customers_found num one_customer = Inr one_customer_found"
  by (simp add: one_customer_def customers_found_def opt_map_def nullish_def
      customer_record_def js_or_def trim_Ann_Lee
      get_def order_record_def obj_def fulfillment_record_def tracking_record_def item_record_def
      one_order_def one_customer_found_def)

lemma six_listed_shaped:
  "products_listed_of_data (read_prop six_products ''data'') = Inr six_listed"
  by (simp add: six_products_def products_listed_of_data_def js_or_def get_def nullish_def
      listed_product_serverless_def obj_def six_listed_def)

lemma two_found_shaped:
  "products_of_data (read_prop two_products ''data'') = Inr two_found"
  "products_found two_products = Inr two_found_wrapped"
  by (simp_all add: two_products_def products_of_data_def products_found_def js_or_def get_def
      nullish_def product_serverless_def product_standalone_def obj_def at0_def opt_get_def
      two_found_def two_found_wrapped_def)

lemma tool_result_serverless:
  "call_serverless env FindProduct a = (Inr d, t) \<longleftrightarrow>
     (\<exists>x data. get a ''query'' = Inr x \<and>
        callShopify_serverless env findProduct_gql_serverless (Obj [(''query'', x)]) = (Inr data, t) \<and>
        products_of_data data = Inr d)"
  "call_serverless env GetCustomerOrders a = (Inr d, t) \<longleftrightarrow>
     (\<exists>x data. get a ''email'' = Inr x \<and>
        callShopify_serverless env getCustomerOrders_gql_serverless (Obj [(''email'', x)]) = (Inr data, t) \<and>
        orders_of_first_customer data = Inr d)"
  "call_serverless env GetProducts a = (Inr d, t) \<longleftrightarrow>
     (\<exists>data. callShopify_serverless env getProducts_gql_serverless (Obj []) = (Inr data, t) \<and>
        products_listed_of_data data = Inr d)"
  by (auto simp: call_serverless_def findProduct_serverless_def getCustomerOrders_serverless_def
      getProducts_serverless_def io_then_eq_Inr)

lemma tool_result_standalone:
  "call_standalone env FindProduct a = (Inr d, t) \<longleftrightarrow>
     (\<exists>x result. get a ''query'' = Inr x \<and>
        callShopify_standalone env findProduct_gql_standalone (Obj [(''queryString'', x)]) = (Inr result, t) \<and>
        products_found result = Inr d)"
  "call_standalone env GetCustomerOrders a = (Inr d, t) \<longleftrightarrow>
     (\<exists>x result. get a ''email'' = Inr x \<and>
        callShopify_standalone env getCustomerOrders_gql_standalone (Obj [(''email'', x)]) = (Inr result, t) \<and>
        customers_found (Number_toString env) result = Inr d)"
  "call_standalone env GetProducts a = (Inr d, t) \<longleftrightarrow>
     (\<exists>result. callShopify_standalone env getProducts_gql_standalone (Obj []) = (Inr result, t) \<and>
        products_listed result = Inr d)"
  by (auto simp: call_standalone_def findProduct_standalone_def getCustomerOrders_standalone_def
      getProducts_standalone_def io_then_eq_Inr)

text \<open>
  C5, as amended. The ceiling is in the query documents: each asks for the first 5
  products, orders, line items and tracking entries, and takes no parameter for it. The
  tools themselves do not cut anything: what a tool returns is made of the payload that
  \<^verbatim>\<open>callShopify\<close> returned, with one entry for every edge of the response. So the product
  lists have as many entries as the response has product edges, the orders of api/chat.js
  as many as the first customer has order edges, and when the customers of a response keep
  within a bound, at most \<open>n\<close> orders each with at most \<open>n\<close> line items and \<open>n\<close> tracking
  entries in each fulfillment, so do the orders returned: within 5 whenever the commerce
  platform honours the limits of the query.
\<close>

theorem results_within_caps:
  "sublist ''products(first: 5'' findProduct_gql_serverless \<and>
   sublist ''products(first: 5'' findProduct_gql_standalone \<and>
   sublist ''products(first: 5'' getProducts_gql_serverless \<and>
   sublist ''products(first: 5'' getProducts_gql_standalone \<and>
   sublist ''orders(first: 5'' getCustomerOrders_gql_serverless \<and>
   sublist ''orders(first: 5'' getCustomerOrders_gql_standalone \<and>
   sublist ''lineItems(first: 5'' getCustomerOrders_gql_serverless \<and>
   sublist ''lineItems(first: 5'' getCustomerOrders_gql_standalone \<and>
   sublist ''trackingInfo(first: 5'' getCustomerOrders_gql_serverless \<and>
   sublist ''trackingInfo(first: 5'' getCustomerOrders_gql_standalone \<and>
   (call_serverless env FindProduct a = (Inr d, t) \<longrightarrow>
      (\<exists>x data. callShopify_serverless env findProduct_gql_serverless (Obj [(''query'', x)])
                   = (Inr data, t) \<and> products_of_data data = Inr d)) \<and>
   (call_serverless env GetCustomerOrders a = (Inr d, t) \<longrightarrow>
      (\<exists>x data. callShopify_serverless env getCustomerOrders_gql_serverless (Obj [(''email'', x)])
                   = (Inr data, t) \<and> orders_of_first_customer data = Inr d)) \<and>
   (call_serverless env GetProducts a = (Inr d, t) \<longrightarrow>
      (\<exists>data. callShopify_serverless env getProducts_gql_serverless (Obj []) = (Inr data, t) \<and>
                products_listed_of_data data = Inr d)) \<and>
   (call_standalone env FindProduct a = (Inr d, t) \<longrightarrow>
      (\<exists>x result. callShopify_standalone env findProduct_gql_standalone (Obj [(''queryString'', x)])
                     = (Inr result, t) \<and> products_found result = Inr d)) \<and>
   (call_standalone env GetCustomerOrders a = (Inr d, t) \<longrightarrow>
      (\<exists>x result. callShopify_standalone env getCustomerOrders_gql_standalone (Obj [(''email'', x)])
                     = (Inr result, t) \<and> customers_found (Number_toString env) result = Inr d)) \<and>
   (call_standalone env GetProducts a = (Inr d, t) \<longrightarrow>
      (\<exists>result. callShopify_standalone env getProducts_gql_standalone (Obj []) = (Inr result, t) \<and>
                  products_listed result = Inr d)) \<and>
   (products_of_data data = Inr r \<longrightarrow>
      entries r = entries (opt_path data [''products'', ''edges''])) \<and>
   (products_listed_of_data data = Inr r \<longrightarrow>
      entries r = entries (opt_path data [''products'', ''edges''])) \<and>
   (products_found result = Inr r \<longrightarrow>
      entries (opt_get r ''products'') = entries (opt_path result [''data'', ''products'', ''edges''])) \<and>
   (products_listed result = Inr r \<longrightarrow>
      entries (opt_get r ''products'') = entries (opt_path result [''data'', ''products'', ''edges''])) \<and>
   (orders_of_first_customer data = Inr r \<longrightarrow>
      entries r =
        entries (opt_path (opt_get (opt_at0 (opt_path data [''customers'', ''edges''])) ''node'')
                   [''orders'', ''edges'']) \<and>
      (customer_within n (opt_get (opt_at0 (opt_path data [''customers'', ''edges''])) ''node'') \<longrightarrow>
         orders_within n r)) \<and>
   (customers_found num result = Inr r \<and>
    list_all (\<lambda>edge. customer_within n (opt_get edge ''node''))
      (elements (opt_path result [''data'', ''customers'', ''edges''])) \<longrightarrow>
      list_all (\<lambda>c. orders_within n (opt_get c ''orders'')) (elements (opt_get r ''customers'')))"
proof (intro conjI)
  show "call_serverless env FindProduct a = (Inr d, t) \<longrightarrow>
      (\<exists>x data. callShopify_serverless env findProduct_gql_serverless (Obj [(''query'', x)])
                   = (Inr data, t) \<and> products_of_data data = Inr d)"
    "call_serverless env GetCustomerOrders a = (Inr d, t) \<longrightarrow>
      (\<exists>x data. callShopify_serverless env getCustomerOrders_gql_serverless (Obj [(''email'', x)])
                   = (Inr data, t) \<and> orders_of_first_customer data = Inr d)"
    "call_serverless env GetProducts a = (Inr d, t) \<longrightarrow>
      (\<exists>data. callShopify_serverless env getProducts_gql_serverless (Obj []) = (Inr data, t) \<and>
                products_listed_of_data data = Inr d)"
    by (auto simp: tool_result_serverless)
  show "call_standalone env FindProduct a = (Inr d, t) \<longrightarrow>
      (\<exists>x result. callShopify_standalone env findProduct_gql_standalone (Obj [(''queryString'', x)])
                     = (Inr result, t) \<and> products_found result = Inr d)"
    "call_standalone env GetCustomerOrders a = (Inr d, t) \<longrightarrow>
      (\<exists>x result. callShopify_standalone env getCustomerOrders_gql_standalone (Obj [(''email'', x)])
                     = (Inr result, t) \<and> customers_found (Number_toString env) result = Inr d)"
    "call_standalone env GetProducts a = (Inr d, t) \<longrightarrow>
      (\<exists>result. callShopify_standalone env getProducts_gql_standalone (Obj []) = (Inr result, t) \<and>
                  products_listed result = Inr d)"
    by (auto simp: tool_result_standalone)
qed (use caps_in_queries products_of_data_entries products_listed_of_data_entries
      products_found_entries products_listed_entries orders_of_first_customer_entries
      orders_of_first_customer_within customers_found_within in blast)+

lemma one_customer_within:
  "customer_within 5
     (opt_get (opt_at0 (opt_path (read_prop one_customer ''data'') [''customers'', ''edges''])) ''node'')"
  "list_all (\<lambda>edge. customer_within 5 (opt_get edge ''node''))
     (elements (opt_path one_customer [''data'', ''customers'', ''edges'']))"
  by (simp_all add: one_customer_def opt_at0_def nullish_def customer_within_def
      order_edge_within_def entries_def elements_def)

text \<open>
  The theorem at the response with two products and at the response with one customer,
  whose one order has two line items and one tracking entry.
\<close>

theorem results_within_caps_witness:
  "entries two_found = 2 \<and>
   entries (opt_get two_found_wrapped ''products'') = 2 \<and>
   orders_within 5 (Arr [one_order]) \<and>
   list_all (\<lambda>c. orders_within 5 (opt_get c ''orders''))
     (elements (opt_get one_customer_found ''customers''))"
proof -
  note P = results_within_caps [where data = "read_prop two_products ''data''" and r = two_found]
  note Q = results_within_caps [where result = two_products and r = two_found_wrapped]
  note R = results_within_caps [where data = "read_prop one_customer ''data''"
      and r = "Arr [one_order]" and n = 5]
  note S = results_within_caps [where result = one_customer and r = one_customer_found
      and n = 5 and num = "\<lambda>n. []"]
  have "entries two_found = entries (opt_path (read_prop two_products ''data'') [''products'', ''edges''])"
    using P two_found_shaped(1) by blast
  then have 1: "entries two_found = 2"
    by (simp add: two_products_def entries_def)
  have "entries (opt_get two_found_wrapped ''products'') =
      entries (opt_path two_products [''data'', ''products'', ''edges''])"
    using Q two_found_shaped(2) by blast
  then have 2: "entries (opt_get two_found_wrapped ''products'') = 2"
    by (simp add: two_products_def entries_def)
  have 3: "orders_within 5 (Arr [one_order])"
    using R one_order_shaped one_customer_within(1) by blast
  have 4: "list_all (\<lambda>c. orders_within 5 (opt_get c ''orders''))
     (elements (opt_get one_customer_found ''customers''))"
    using S one_customer_shaped [of "\<lambda>n. []"] one_customer_within(2) by blast
  from 1 2 3 4 show ?thesis by blast
qed

lemma six_listed_serverless:
  "getProducts_serverless (shop first (answers 200 six_products_text)) a =
     (Inr six_listed,
      [CommerceCall (graphql_request (shop first (answers 200 six_products_text))
                       getProducts_gql_serverless (Obj []))])"
  using six_listed_shaped
  by (simp add: getProducts_serverless_def callShopify_serverless_def Let_def answers_def parse_texts
      read_data get_def nullish_def io_pure_def)
     (simp add: six_products_def)

text \<open>
  Without the amendment the statement fails: for a response with six product edges the
  product listing of api/chat.js returns six entries.
\<close>

theorem six_products_counterexample:
  "fetch crowded (graphql_request crowded getProducts_gql_serverless (Obj [])) =
     Inr \<lparr>http_status = 200, body_text = six_products_text\<rparr> \<and>
   JSON_parse crowded six_products_text = Some six_products \<and>
   entries (opt_path six_products [''data'', ''products'', ''edges'']) = 6 \<and>
   fst (call_serverless crowded GetProducts (Obj [])) = Inr six_listed \<and>
   entries six_listed = 6"
proof -
  have "fst (call_serverless crowded GetProducts (Obj [])) = Inr six_listed"
    by (simp add: crowded_def call_serverless_def six_listed_serverless)
  moreover have "fetch crowded q = Inr \<lparr>http_status = 200, body_text = six_products_text\<rparr>"
    "JSON_parse crowded six_products_text = Some six_products" for q
    by (simp_all add: crowded_def answers_def parse_texts)
  moreover have "entries (opt_path six_products [''data'', ''products'', ''edges'']) = 6"
    "entries six_listed = 6"
    by (simp_all add: six_products_def six_listed_def entries_def)
  ultimately show ?thesis by simp
qed

section \<open>One customer\<close>

lemma first_edge_only:
  "orders_of_first_customer (Obj [(''customers'', Obj [(''edges'', Arr (e # rest))])]) =
   orders_of_first_customer (Obj [(''customers'', Obj [(''edges'', Arr [e])])])"
  by (simp add: orders_of_first_customer_def opt_at0_def nullish_def)

lemma first_edge_decides:
  assumes "opt_at0 (opt_path data [''customers'', ''edges'']) =
           opt_at0 (opt_path data' [''customers'', ''edges''])"
  shows "orders_of_first_customer data = orders_of_first_customer data'"
  using assms by (simp add: orders_of_first_customer_def)

text \<open>
  C10, as amended. Both query documents ask for \<^verbatim>\<open>customers(first: 1)\<close>. In api/chat.js the
  result is made of the first customer edge alone, whatever the response holds: the edges
  after the first do not change it. In index.js the result has one customer record for
  every customer edge of the response, so it is made of at most one customer whenever the
  response has at most one customer edge, as the query asks.
\<close>

theorem orders_of_one_customer:
  "sublist ''customers(first: 1'' getCustomerOrders_gql_serverless \<and>
   sublist ''customers(first: 1'' getCustomerOrders_gql_standalone \<and>
   orders_of_first_customer (Obj [(''customers'', Obj [(''edges'', Arr (e # rest))])]) =
     orders_of_first_customer (Obj [(''customers'', Obj [(''edges'', Arr [e])])]) \<and>
   (opt_at0 (opt_path data [''customers'', ''edges'']) =
    opt_at0 (opt_path data' [''customers'', ''edges'']) \<longrightarrow>
      orders_of_first_customer data = orders_of_first_customer data') \<and>
   (call_serverless env GetCustomerOrders a = (Inr d, t) \<longrightarrow>
      (\<exists>x payload.
         callShopify_serverless env getCustomerOrders_gql_serverless (Obj [(''email'', x)])
           = (Inr payload, t) \<and>
         orders_of_first_customer payload = Inr d)) \<and>
   (customers_found num result = Inr r \<longrightarrow>
      entries (opt_get r ''customers'') =
        entries (opt_path result [''data'', ''customers'', ''edges''])) \<and>
   (customers_found num result = Inr r \<and>
    entries (opt_path result [''data'', ''customers'', ''edges'']) \<le> 1 \<longrightarrow>
      entries (opt_get r ''customers'') \<le> 1)"
  using cap_customers_getCustomerOrders_serverless cap_customers_getCustomerOrders_standalone
    first_edge_only [of e rest] first_edge_decides [of data data']
    customers_found_entries [of num result r]
    tool_result_serverless(2) [of env a d t]
  by auto

text \<open>
  The theorem at a payload with two customer edges, and at the response with one customer.
\<close>

theorem orders_of_one_customer_witness:
  "orders_of_first_customer (read_prop two_customers ''data'') =
     orders_of_first_customer
       (Obj [(''customers'', Obj [(''edges'', Arr [elem0 (opt_path two_customers
          [''data'', ''customers'', ''edges''])])])]) \<and>
   entries (opt_get one_customer_found ''customers'') = 1"
proof -
  let ?first = "elem0 (opt_path two_customers [''data'', ''customers'', ''edges''])"
  note A = orders_of_one_customer [where data = "read_prop two_customers ''data''"
      and data' = "Obj [(''customers'', Obj [(''edges'', Arr [?first])])]"
      and result = one_customer and r = one_customer_found and num = "\<lambda>n. []"]
  have h: "opt_at0 (opt_path (read_prop two_customers ''data'') [''customers'', ''edges'']) =
      opt_at0 (opt_path (Obj [(''customers'', Obj [(''edges'', Arr [?first])])]) [''customers'', ''edges''])"
    by (simp add: two_customers_def opt_at0_def nullish_def)
  have "entries (opt_path one_customer [''data'', ''customers'', ''edges'']) = 1"
    by (simp add: one_customer_def entries_def)
  with A h one_customer_shaped [of "\<lambda>n. []"] show ?thesis
    by simp
qed

lemma trim_names: "trim ''Ann Lee'' = ''Ann Lee''" "trim ''Bob Ray'' = ''Bob Ray''"
  by (simp_all add: trim_def strip_keeps white_space_def)

lemma two_customers_shaped:
  "customers_found num two_customers = Inr two_customers_found"
  by (simp add: two_customers_def customers_found_def opt_map_def nullish_def
      customer_record_def js_or_def trim_names get_def obj_def two_customers_found_def)


text \<open>
  Without the amendment the statement fails: for a response with two customer edges
  index.js returns two customers, each with its orders.
\<close>

theorem two_customers_counterexample:
  "fetch two_matches (graphql_request two_matches getCustomerOrders_gql_standalone
      (Obj [(''email'', Str ''ann@example.com'')])) =
     Inr \<lparr>http_status = 200, body_text = two_customers_text\<rparr> \<and>
   JSON_parse two_matches two_customers_text = Some two_customers \<and>
   fst (call_standalone two_matches GetCustomerOrders (Obj [(''email'', Str ''ann@example.com'')])) =
     Inr two_customers_found \<and>
   entries (opt_get two_customers_found ''customers'') = 2"
proof -
  have f: "fetch two_matches q = Inr \<lparr>http_status = 200, body_text = two_customers_text\<rparr>"
    "JSON_parse two_matches two_customers_text = Some two_customers" for q
    by (simp_all add: two_matches_def answers_def parse_texts)
  have g: "\<not> nullish two_customers" "\<not> truthy (read_prop two_customers ''errors'')"
    "\<not> unset (SHOPIFY_STORE two_matches)" "\<not> unset (SHOPIFY_TOKEN two_matches)"
    by (simp_all add: two_customers_def nullish_def two_matches_def unset_def)
  have "callShopify_standalone two_matches getCustomerOrders_gql_standalone
      (Obj [(''email'', Str ''ann@example.com'')]) =
     (Inr two_customers,
      [CommerceCall (graphql_request two_matches getCustomerOrders_gql_standalone
         (Obj [(''email'', Str ''ann@example.com'')]))])"
    by (rule callShopify_standalone_body
          [where res = "\<lparr>http_status = 200, body_text = two_customers_text\<rparr>"])
       (simp_all add: f g)
  then have "fst (call_standalone two_matches GetCustomerOrders (Obj [(''email'', Str ''ann@example.com'')])) =
     Inr two_customers_found"
    by (simp add: call_standalone_def getCustomerOrders_standalone_def get_def nullish_def
        two_customers_shaped io_pure_def)
  moreover have "entries (opt_get two_customers_found ''customers'') = 2"
    by (simp add: two_customers_found_def entries_def)
  ultimately show ?thesis using f by simp
qed

section \<open>Nothing found\<close>












section \<open>The two shapes\<close>

lemma opt_get_read_prop: "opt_get v k = read_prop v k"
  by (cases v) (simp_all add: opt_get_def nullish_def)

lemma product_records_agree:
  assumes "product_serverless edge = Inr x" "product_standalone edge = Inr y"
  shows "read_prop x k = read_prop y k"
  using assms
  by (auto simp: product_serverless_def product_standalone_def obj_def and_then_eq_Inr)

lemma list_all2_same_source:
  assumes "list_all2 (\<lambda>e x. f e = Inr x) es xs" "list_all2 (\<lambda>e y. g e = Inr y) es ys"
    and "\<And>e x y. f e = Inr x \<Longrightarrow> g e = Inr y \<Longrightarrow> R x y"
  shows "list_all2 R xs ys"
  using assms(1,2)
proof (induction es xs arbitrary: ys rule: list_all2_induct)
  case Nil
  then show ?case by simp
next
  case (Cons e es x xs)
  then show ?case by (cases ys) (auto intro: assms(3))
qed

lemma products_agree:
  assumes "products_of_data (read_prop json ''data'') = Inr d1" "products_found json = Inr d2"
  shows "\<exists>xs ys. d1 = Arr xs \<and> d2 = Obj [(''products'', Arr ys)] \<and>
           list_all2 (\<lambda>x y. \<forall>k. read_prop x k = read_prop y k) xs ys"
proof -
  let ?edges = "js_or (opt_path json [''data'', ''products'', ''edges'']) (Arr [])"
  from assms(1) have "js_map product_serverless ?edges = Inr d1"
    by (simp add: products_of_data_def opt_get_read_prop)
  then obtain es xs where 1: "?edges = Arr es" "d1 = Arr xs"
    "list_all2 (\<lambda>e x. product_serverless e = Inr x) es xs"
    by (auto simp: js_map_eq_Inr)
  from assms(2) 1(1) obtain ys where 2: "d2 = Obj [(''products'', Arr ys)]"
    "list_all2 (\<lambda>e y. product_standalone e = Inr y) es ys"
    by (auto simp: products_found_def and_then_eq_Inr js_map_eq_Inr)
  from 1(3) 2(2) have "list_all2 (\<lambda>x y. \<forall>k. read_prop x k = read_prop y k) xs ys"
    by (rule list_all2_same_source) (auto intro: product_records_agree)
  with 1 2 show ?thesis by blast
qed

lemma path_orders_Obj:
  assumes "path node [''orders'', ''edges''] = Inr es"
  shows "truthy node"
proof (cases node)
  case (Obj kvs)
  then show ?thesis by simp
qed (use assms in \<open>auto simp: and_then_eq_Inr get_def nullish_def split: if_splits\<close>)

lemma customers_agree:
  assumes "orders_of_first_customer (read_prop json ''data'') = Inr d1"
    and "customers_found num json = Inr d2"
  shows "\<exists>xs cs. d1 = Arr xs \<and> d2 = Obj [(''customers'', Arr cs)] \<and>
           (cs = [] \<longrightarrow> xs = []) \<and> (cs \<noteq> [] \<longrightarrow> read_prop (hd cs) ''orders'' = d1)"
proof -
  let ?edges = "opt_path json [''data'', ''customers'', ''edges'']"
  from orders_of_first_customer_Arr [OF assms(1)] obtain xs where xs: "d1 = Arr xs" by blast
  have d1: "orders_of_first_customer (read_prop json ''data'') =
      (let customer = opt_get (opt_at0 ?edges) ''node'' in
       if \<not> truthy customer then Inr (Arr [])
       else and_then (path customer [''orders'', ''edges'']) (js_map order_record))"
    by (simp add: orders_of_first_customer_def opt_get_read_prop)
  from assms(2) obtain mapped where m: "opt_map (customer_record num) ?edges = Inr mapped"
    "d2 = Obj [(''customers'', js_or mapped (Arr []))]"
    by (auto simp: customers_found_def and_then_eq_Inr)
  show ?thesis
  proof (cases "nullish ?edges")
    case True
    with m have "d2 = Obj [(''customers'', Arr [])]"
      by (simp add: opt_map_def js_or_def)
    moreover from True assms(1) d1 have "d1 = Arr []"
      by (auto simp: opt_at0_def opt_get_def nullish_def)
    ultimately show ?thesis by simp
  next
    case False
    with m obtain es cs where *: "?edges = Arr es" "d2 = Obj [(''customers'', Arr cs)]"
      "list_all2 (\<lambda>e c. customer_record num e = Inr c) es cs"
      by (auto simp: opt_map_eq_Inr js_or_def)
    show ?thesis
    proof (cases es)
      case Nil
      with * assms(1) d1 have "cs = []" "d1 = Arr []"
        by (auto simp: opt_at0_def opt_get_def nullish_def)
      with * show ?thesis by simp
    next
      case (Cons e es')
      with *(3) obtain c cs' where cs: "cs = c # cs'" "customer_record num e = Inr c"
        by (cases cs) auto
      from cs(2) obtain node os where
        node: "get e ''node'' = Inr node"
        and os: "and_then (path node [''orders'', ''edges'']) (js_map order_record) = Inr os"
        and c: "read_prop c ''orders'' = os"
        by (auto simp: customer_record_def obj_def and_then_eq_Inr)
      from os obtain oes where "path node [''orders'', ''edges''] = Inr oes"
        by (auto simp: and_then_eq_Inr)
      then have "truthy node" by (rule path_orders_Obj)
      moreover from node Cons *(1) have "opt_get (opt_at0 ?edges) ''node'' = node"
        by (simp add: opt_at0_def nullish_def get_opt_get)
      ultimately have "d1 = os"
        using assms(1) d1 os by (simp add: Let_def)
      with xs * cs c show ?thesis by simp
    qed
  qed
qed

text \<open>
  C9. Whenever a tool returns in both files, api/chat.js returns a bare array and index.js
  an object with the one field \<^verbatim>\<open>products\<close>, or \<^verbatim>\<open>customers\<close>, so the two results differ.
  Made of the same response body, the product records of the two files have the same
  fields with the same values, and the array of api/chat.js is the \<^verbatim>\<open>orders\<close> field of the
  first customer of index.js (and is empty when index.js has no customer).
\<close>

theorem shapes_differ:
  "(call_serverless env FindProduct a = (Inr d1, t1) \<and>
    call_standalone env FindProduct a = (Inr d2, t2) \<longrightarrow>
      (\<exists>xs ys. d1 = Arr xs \<and> d2 = Obj [(''products'', Arr ys)]) \<and> d1 \<noteq> d2) \<and>
   (call_serverless env GetCustomerOrders a = (Inr d1, t1) \<and>
    call_standalone env GetCustomerOrders a = (Inr d2, t2) \<longrightarrow>
      (\<exists>xs ys. d1 = Arr xs \<and> d2 = Obj [(''customers'', Arr ys)]) \<and> d1 \<noteq> d2) \<and>
   (call_serverless env GetProducts a = (Inr d1, t1) \<and>
    call_standalone env GetProducts a = (Inr d2, t2) \<longrightarrow>
      (\<exists>xs ys. d1 = Arr xs \<and> d2 = Obj [(''products'', Arr ys)]) \<and> d1 \<noteq> d2) \<and>
   (products_of_data (read_prop json ''data'') = Inr d1 \<and> products_found json = Inr d2 \<longrightarrow>
      (\<exists>xs ys. d1 = Arr xs \<and> d2 = Obj [(''products'', Arr ys)] \<and>
         list_all2 (\<lambda>x y. \<forall>k. read_prop x k = read_prop y k) xs ys)) \<and>
   (orders_of_first_customer (read_prop json ''data'') = Inr d1 \<and>
    customers_found num json = Inr d2 \<longrightarrow>
      (\<exists>xs cs. d1 = Arr xs \<and> d2 = Obj [(''customers'', Arr cs)] \<and>
         (cs = [] \<longrightarrow> xs = []) \<and> (cs \<noteq> [] \<longrightarrow> read_prop (hd cs) ''orders'' = d1)))"
proof (intro conjI impI; (elim conjE)?)
  assume "call_serverless env FindProduct a = (Inr d1, t1)"
    "call_standalone env FindProduct a = (Inr d2, t2)"
  then obtain xs ys where "d1 = Arr xs" "d2 = Obj [(''products'', Arr ys)]"
    by (auto simp: tool_result_serverless tool_result_standalone
        dest!: js_map_defined products_found_Obj simp: products_of_data_def)
  then show "\<exists>xs ys. d1 = Arr xs \<and> d2 = Obj [(''products'', Arr ys)]" "d1 \<noteq> d2"
    by simp_all
next
  assume "call_serverless env GetCustomerOrders a = (Inr d1, t1)"
    "call_standalone env GetCustomerOrders a = (Inr d2, t2)"
  then obtain xs ys where "d1 = Arr xs" "d2 = Obj [(''customers'', Arr ys)]"
    by (auto simp: tool_result_serverless tool_result_standalone
        dest!: orders_of_first_customer_Arr customers_found_Obj)
  then show "\<exists>xs ys. d1 = Arr xs \<and> d2 = Obj [(''customers'', Arr ys)]" "d1 \<noteq> d2"
    by simp_all
next
  assume "call_serverless env GetProducts a = (Inr d1, t1)"
    "call_standalone env GetProducts a = (Inr d2, t2)"
  then obtain xs ys where "d1 = Arr xs" "d2 = Obj [(''products'', Arr ys)]"
    by (auto simp: tool_result_serverless tool_result_standalone
        dest!: js_map_defined products_listed_Obj simp: products_listed_of_data_def)
  then show "\<exists>xs ys. d1 = Arr xs \<and> d2 = Obj [(''products'', Arr ys)]" "d1 \<noteq> d2"
    by simp_all
next
  assume "products_of_data (read_prop json ''data'') = Inr d1" "products_found json = Inr d2"
  then show "\<exists>xs ys. d1 = Arr xs \<and> d2 = Obj [(''products'', Arr ys)] \<and>
         list_all2 (\<lambda>x y. \<forall>k. read_prop x k = read_prop y k) xs ys"
    by (rule products_agree)
next
  assume "orders_of_first_customer (read_prop json ''data'') = Inr d1"
    "customers_found num json = Inr d2"
  then show "\<exists>xs cs. d1 = Arr xs \<and> d2 = Obj [(''customers'', Arr cs)] \<and>
         (cs = [] \<longrightarrow> xs = []) \<and> (cs \<noteq> [] \<longrightarrow> read_prop (hd cs) ''orders'' = d1)"
    by (rule customers_agree)
qed

lemma answered_serverless:
  assumes "map_of table s = Some json" "\<not> nullish json" "\<not> truthy (read_prop json ''errors'')"
  shows "callShopify_serverless (shop first (answers 200 s)) q v =
     (Inr (read_prop json ''data''), [CommerceCall (graphql_request (shop first (answers 200 s)) q v)])"
  by (rule callShopify_serverless_data [where res = "\<lparr>http_status = 200, body_text = s\<rparr>"])
     (simp_all add: assms answers_def)

lemma answered_standalone:
  assumes "map_of table s = Some json" "\<not> nullish json" "\<not> truthy (read_prop json ''errors'')"
  shows "callShopify_standalone (shop first (answers 200 s)) q v =
     (Inr json, [CommerceCall (graphql_request (shop first (answers 200 s)) q v)])"
  by (rule callShopify_standalone_body [where res = "\<lparr>http_status = 200, body_text = s\<rparr>"])
     (simp_all add: assms answers_def unset_def)

lemma sound_bodies:
  "\<not> nullish two_products" "\<not> truthy (read_prop two_products ''errors'')"
  "\<not> nullish one_customer" "\<not> truthy (read_prop one_customer ''errors'')"
  by (simp_all add: two_products_def one_customer_def nullish_def)

lemma coffee_found:
  "call_serverless coffee_search FindProduct (Obj [(''query'', Str ''coffee'')]) =
     (Inr two_found,
      [CommerceCall (graphql_request coffee_search findProduct_gql_serverless
         (Obj [(''query'', Str ''coffee'')]))])"
  "call_standalone coffee_search FindProduct (Obj [(''query'', Str ''coffee'')]) =
     (Inr two_found_wrapped,
      [CommerceCall (graphql_request coffee_search findProduct_gql_standalone
         (Obj [(''queryString'', Str ''coffee'')]))])"
  by (simp_all add: tool_result_serverless tool_result_standalone get_def nullish_def
      coffee_search_def answered_serverless [OF parse_texts(1) sound_bodies(1,2)]
      answered_standalone [OF parse_texts(1) sound_bodies(1,2)] two_found_shaped)

lemma ann_found:
  "call_serverless known_customer GetCustomerOrders (Obj [(''email'', Str ''ann@example.com'')]) =
     (Inr (Arr [one_order]),
      [CommerceCall (graphql_request known_customer getCustomerOrders_gql_serverless
         (Obj [(''email'', Str ''ann@example.com'')]))])"
  "call_standalone known_customer GetCustomerOrders (Obj [(''email'', Str ''ann@example.com'')]) =
     (Inr one_customer_found,
      [CommerceCall (graphql_request known_customer getCustomerOrders_gql_standalone
         (Obj [(''email'', Str ''ann@example.com'')]))])"
  by (simp_all add: tool_result_serverless tool_result_standalone get_def nullish_def
      known_customer_def answered_serverless [OF parse_texts(4) sound_bodies(3,4)]
      answered_standalone [OF parse_texts(4) sound_bodies(3,4)] one_order_shaped
      one_customer_shaped)

text \<open>
  The theorem at a search that finds two products and at a customer with one order.
\<close>

theorem shapes_differ_witness:
  "fst (call_serverless coffee_search FindProduct (Obj [(''query'', Str ''coffee'')])) = Inr two_found \<and>
   fst (call_standalone coffee_search FindProduct (Obj [(''query'', Str ''coffee'')])) =
     Inr two_found_wrapped \<and>
   two_found \<noteq> two_found_wrapped \<and>
   fst (call_serverless known_customer GetCustomerOrders (Obj [(''email'', Str ''ann@example.com'')])) =
     Inr (Arr [one_order]) \<and>
   fst (call_standalone known_customer GetCustomerOrders (Obj [(''email'', Str ''ann@example.com'')])) =
     Inr one_customer_found \<and>
   Arr [one_order] \<noteq> one_customer_found \<and>
   (\<exists>cs. one_customer_found = Obj [(''customers'', Arr cs)] \<and> cs \<noteq> [] \<and>
      read_prop (hd cs) ''orders'' = Arr [one_order])"
proof -
  note P = shapes_differ [where env = coffee_search and a = "Obj [(''query'', Str ''coffee'')]"
      and ?d1.0 = two_found and ?d2.0 = two_found_wrapped, THEN conjunct1]
  note Q = shapes_differ [where env = known_customer
      and a = "Obj [(''email'', Str ''ann@example.com'')]"
      and ?d1.0 = "Arr [one_order]" and ?d2.0 = one_customer_found,
      THEN conjunct2, THEN conjunct1]
  note R = shapes_differ [where json = one_customer and num = "\<lambda>n. []"
      and ?d1.0 = "Arr [one_order]" and ?d2.0 = one_customer_found,
      THEN conjunct2, THEN conjunct2, THEN conjunct2, THEN conjunct2]
  from P coffee_found have 1: "two_found \<noteq> two_found_wrapped" by blast
  from Q ann_found have 2: "Arr [one_order] \<noteq> one_customer_found" by blast
  from R one_order_shaped one_customer_shaped [of "\<lambda>n. []"]
  have "\<exists>xs cs. Arr [one_order] = Arr xs \<and> one_customer_found = Obj [(''customers'', Arr cs)] \<and>
     (cs = [] \<longrightarrow> xs = []) \<and> (cs \<noteq> [] \<longrightarrow> read_prop (hd cs) ''orders'' = Arr [one_order])"
    by blast
  then have 3: "\<exists>cs. one_customer_found = Obj [(''customers'', Arr cs)] \<and> cs \<noteq> [] \<and>
      read_prop (hd cs) ''orders'' = Arr [one_order]"
    by auto
  from 1 2 3 coffee_found ann_found show ?thesis by simp
qed

end
